theory Spec2Isabelle
  imports Complex_Main "HOL-Library.Char_ord" "HOL-Library.List_Lexorder" "HOL-Library.Multiset"
begin

section \<open>Calendar dates\<close>

text \<open>
  The price table of \<^verbatim>\<open>backtest/engine.py\<close> is indexed by pandas timestamps. The engine
  reads three attributes of a timestamp: \<^verbatim>\<open>year\<close>, \<^verbatim>\<open>month\<close> and \<^verbatim>\<open>weekday()\<close>
  (Monday is 0). A timestamp is modelled by its calendar date; the weekday is computed
  from the date in the proleptic Gregorian calendar, as pandas does.
\<close>

record timestamp =
  year :: int
  month :: int
  day :: int

definition days_from_civil :: "timestamp \<Rightarrow> int" where
  "days_from_civil d =
     (let y = (if month d \<le> 2 then year d - 1 else year d);
          era = y div 400;
          yoe = y - era * 400;
          mp = (month d + 9) mod 12;
          doy = (153 * mp + 2) div 5 + day d - 1;
          doe = yoe * 365 + yoe div 4 - yoe div 100 + doy
      in era * 146097 + doe - 719468)"

definition weekday :: "timestamp \<Rightarrow> int" where
  "weekday d = (days_from_civil d + 3) mod 7"

section \<open>Errors\<close>

text \<open>
  Every \<^verbatim>\<open>raise\<close> of the engine is a value. The first three are the three
  \<^verbatim>\<open>ValueError\<close>s of \<^verbatim>\<open>prepare_data\<close> and \<^verbatim>\<open>get_rebalance_dates\<close>;
  the others are raised by the Python runtime (a float division by zero, formatting
  \<^verbatim>\<open>None\<close> with \<^verbatim>\<open>:.0f\<close> or iterating over it, \<^verbatim>\<open>.loc\<close> of a date that is not
  in the index, reading the index of a price table that is still \<^verbatim>\<open>None\<close>),
  or come out of the benchmark provider. The last one is an exception that is not of
  class \<^verbatim>\<open>Exception\<close> (a \<^verbatim>\<open>KeyboardInterrupt\<close> or a \<^verbatim>\<open>SystemExit\<close>) raised inside
  the signal pipeline: no handler of the engine catches it.
\<close>

datatype base_exception = KeyboardInterrupt | SystemExit

datatype error =
    ValueError_universe nat
  | ValueError_prices
  | ValueError_frequency string
  | ZeroDivisionError
  | TypeError
  | KeyError
  | AttributeError
  | ProviderError string
  | Propagated base_exception

section \<open>Rebalance dates\<close>

text \<open>
  \<^verbatim>\<open>BacktestEngine.get_rebalance_dates\<close>. The two loops keep the month (the pair of year
  and quarter) of the date appended last in a variable that starts as \<^verbatim>\<open>None\<close>; the
  list under construction is the accumulator.
\<close>

fun monthly_loop :: "int option \<Rightarrow> timestamp list \<Rightarrow> timestamp list \<Rightarrow> timestamp list" where
  "monthly_loop current_month first_days [] = first_days"
| "monthly_loop current_month first_days (date # all_dates) =
     (if Some (month date) \<noteq> current_month
      then monthly_loop (Some (month date)) (first_days @ [date]) all_dates
      else monthly_loop current_month first_days all_dates)"

definition quarter :: "timestamp \<Rightarrow> int" where
  "quarter date = (month date - 1) div 3"

fun quarterly_loop ::
  "(int \<times> int) option \<Rightarrow> timestamp list \<Rightarrow> timestamp list \<Rightarrow> timestamp list" where
  "quarterly_loop current_quarter quarterly_dates [] = quarterly_dates"
| "quarterly_loop current_quarter quarterly_dates (date # all_dates) =
     (let year_quarter = (year date, quarter date)
      in if Some year_quarter \<noteq> current_quarter
         then quarterly_loop (Some year_quarter) (quarterly_dates @ [date]) all_dates
         else quarterly_loop current_quarter quarterly_dates all_dates)"

definition get_rebalance_dates :: "string \<Rightarrow> timestamp list \<Rightarrow> error + timestamp list" where
  "get_rebalance_dates rebalance_frequency all_dates =
     (if rebalance_frequency = ''weekly''
      then Inr [d \<leftarrow> all_dates. weekday d = 0]
      else if rebalance_frequency = ''monthly''
      then Inr (monthly_loop None [] all_dates)
      else if rebalance_frequency = ''quarterly''
      then Inr (quarterly_loop None [] all_dates)
      else Inl (ValueError_frequency rebalance_frequency))"

section \<open>Portfolio ledger\<close>

text \<open>
  The engine drives an instance of the class \<^verbatim>\<open>Portfolio\<close> of
  \<^verbatim>\<open>backtest/portifolio.py\<close>, a file that is not among the sources. The ledger is
  therefore modelled from the specification (sections 3 and 4.1). Money and prices are
  Python floats in the program; the model computes with exact rationals. The date
  string \<^verbatim>\<open>date.strftime('%Y-%m-%d')\<close> that the engine hands to the ledger is modelled
  by the date itself.
\<close>

text \<open>Modelled from the spec: the data model of section 3 (the action and the reason of
  a trade, Position, Trade, Snapshot), for the classes of \<^verbatim>\<open>backtest/portifolio.py\<close>.\<close>

datatype action = BUY | SELL

datatype reason = REBALANCE | HOLD_EXPOSURE | NO_SIGNAL | STOP_LOSS | TAKE_PROFIT

record position =
  pos_ticker :: string
  shares :: int
  entry_price :: rat
  entry_date :: timestamp
  pos_stop_loss :: rat
  pos_take_profit :: rat
  current_price :: rat

record trade =
  trade_id :: nat
  trade_ticker :: string
  trade_action :: action
  trade_shares :: int
  trade_price :: rat
  trade_date :: timestamp
  commission :: rat
  trade_reason :: reason
  pnl :: "rat option"

record snapshot =
  snap_date :: timestamp
  snap_cash :: rat
  snap_positions_value :: rat
  snap_total_value :: rat
  snap_exposure :: rat
  daily_return :: rat

text \<open>Modelled from the spec: the state of the ledger, with the configuration it is
  created with (PortfolioConfig). The position map is a Python dictionary: an
  association list in insertion order, read with \<^const>\<open>map_of\<close>.\<close>

record portfolio =
  initial_capital :: rat
  commission_pct :: rat
  min_position_size :: rat
  max_position_size :: rat
  cash :: rat
  positions :: "(string \<times> position) list"
  trades :: "trade list"
  history :: "snapshot list"

text \<open>Modelled from the spec: the constructor \<^verbatim>\<open>Portfolio(...)\<close>; the ledger starts with
  the initial capital as cash and no position (section 3, Lifecycle).\<close>

definition Portfolio :: "rat \<Rightarrow> rat \<Rightarrow> rat \<Rightarrow> rat \<Rightarrow> portfolio" where
  "Portfolio capital comm min_size max_size =
     \<lparr>initial_capital = capital, commission_pct = comm, min_position_size = min_size,
      max_position_size = max_size, cash = capital, positions = [], trades = [],
      history = []\<rparr>"

text \<open>Modelled from the spec: the tickers that have an open position, the keys of
  \<^verbatim>\<open>Portfolio.positions\<close>.\<close>

definition held :: "portfolio \<Rightarrow> string set" where
  "held p = fst ` set (positions p)"

text \<open>Modelled from the spec: the properties \<^verbatim>\<open>positions_value\<close>, \<^verbatim>\<open>total_value\<close> and
  \<^verbatim>\<open>exposure\<close> (section 3, Invariants). The spec leaves the exposure of a ledger worth
  nothing open; the model gives 0 there.\<close>

definition positions_value :: "portfolio \<Rightarrow> rat" where
  "positions_value p =
     sum_list (map (\<lambda>(t, pos). of_int (shares pos) * current_price pos) (positions p))"

definition total_value :: "portfolio \<Rightarrow> rat" where
  "total_value p = cash p + positions_value p"

definition exposure :: "portfolio \<Rightarrow> rat" where
  "exposure p = (if total_value p = 0 then 0 else 100 * positions_value p / total_value p)"

text \<open>Modelled from the spec: \<^verbatim>\<open>updatePrices(priceByTicker)\<close> sets the current price of
  every held position from the map; a held ticker missing from the map keeps its last
  price.\<close>

definition update_prices :: "(string \<rightharpoonup> rat) \<Rightarrow> portfolio \<Rightarrow> portfolio" where
  "update_prices prices p =
     p\<lparr>positions :=
         map (\<lambda>(t, pos). (t, case prices t of None \<Rightarrow> pos
                                | Some price \<Rightarrow> pos\<lparr>current_price := price\<rparr>))
             (positions p)\<rparr>"

text \<open>Modelled from the spec: \<^verbatim>\<open>applySelicToCash(date, dailyRate)\<close> is
  \<^verbatim>\<open>cash *= (1 + dailyRate)\<close>.\<close>

definition apply_selic_to_cash :: "timestamp \<Rightarrow> rat \<Rightarrow> portfolio \<Rightarrow> portfolio" where
  "apply_selic_to_cash date daily_rate p = p\<lparr>cash := cash p * (1 + daily_rate)\<rparr>"

text \<open>Modelled from the spec: \<^verbatim>\<open>sell(ticker, price, date, reason)\<close>. The trade's
  sequence id is its place in the trade log, counted from 1.\<close>

definition sell ::
  "string \<Rightarrow> rat \<Rightarrow> timestamp \<Rightarrow> reason \<Rightarrow> portfolio \<Rightarrow> trade option \<times> portfolio" where
  "sell t price date why p =
     (case map_of (positions p) t of
        None \<Rightarrow> (None, p)
      | Some pos \<Rightarrow>
          if price \<le> 0 then (None, p)
          else
            let gross = of_int (shares pos) * price;
                comm = gross * commission_pct p;
                tr = \<lparr>trade_id = Suc (length (trades p)), trade_ticker = t,
                      trade_action = SELL, trade_shares = shares pos, trade_price = price,
                      trade_date = date, commission = comm, trade_reason = why,
                      pnl = Some (gross - comm - entry_price pos * of_int (shares pos))\<rparr>
            in (Some tr,
                p\<lparr>cash := cash p + (gross - comm),
                  positions := filter (\<lambda>(k, pos). k \<noteq> t) (positions p),
                  trades := trades p @ [tr]\<rparr>))"

text \<open>Modelled from the spec: \<^verbatim>\<open>buy(ticker, price, targetPct, date, stopLoss, takeProfit,
  reason)\<close>. The target percentage is clamped into the bounds of the configuration, and
  the number of shares is the floor of the target value divided by the price.\<close>

definition buy_shares :: "rat \<Rightarrow> rat \<Rightarrow> portfolio \<Rightarrow> int" where
  "buy_shares price target_pct p =
     (let pct = max (min_position_size p) (min (max_position_size p) target_pct);
          target_value = pct / 100 * total_value p
      in \<lfloor>target_value / price\<rfloor>)"

definition buy ::
  "string \<Rightarrow> rat \<Rightarrow> rat \<Rightarrow> timestamp \<Rightarrow> rat \<Rightarrow> rat \<Rightarrow> reason \<Rightarrow> portfolio
     \<Rightarrow> trade option \<times> portfolio" where
  "buy t price target_pct date sl tp why p =
     (let n = buy_shares price target_pct p;
          comm = of_int n * price * commission_pct p
      in if t \<in> held p \<or> price \<le> 0 \<or> n < 1 \<or>
            cash p < of_int n * price * (1 + commission_pct p)
         then (None, p)
         else
           let tr = \<lparr>trade_id = Suc (length (trades p)), trade_ticker = t,
                     trade_action = BUY, trade_shares = n, trade_price = price,
                     trade_date = date, commission = comm, trade_reason = why,
                     pnl = None\<rparr>;
               pos = \<lparr>pos_ticker = t, shares = n, entry_price = price,
                      entry_date = date, pos_stop_loss = sl, pos_take_profit = tp,
                      current_price = price\<rparr>
           in (Some tr,
               p\<lparr>cash := cash p - (of_int n * price + comm),
                 positions := positions p @ [(t, pos)],
                 trades := trades p @ [tr]\<rparr>))"

text \<open>Modelled from the spec: \<^verbatim>\<open>checkStops(date)\<close> visits the held tickers in ascending
  order and sells, at the current price, a position at or below its stop-loss, else one
  at or above its take-profit.\<close>

definition check_stop :: "timestamp \<Rightarrow> string \<Rightarrow> portfolio \<Rightarrow> portfolio" where
  "check_stop date t p =
     (case map_of (positions p) t of
        None \<Rightarrow> p
      | Some pos \<Rightarrow>
          if current_price pos \<le> pos_stop_loss pos
          then snd (sell t (current_price pos) date STOP_LOSS p)
          else if current_price pos \<ge> pos_take_profit pos
          then snd (sell t (current_price pos) date TAKE_PROFIT p)
          else p)"

definition check_stops :: "timestamp \<Rightarrow> portfolio \<Rightarrow> portfolio" where
  "check_stops date p = fold (check_stop date) (sort (map fst (positions p))) p"

text \<open>Modelled from the spec: \<^verbatim>\<open>recordState(date)\<close> appends the day's snapshot; the daily
  return is 0 on the first recorded day. The spec leaves the return after a day worth
  nothing open; the model gives 0 there.\<close>

definition record_state :: "timestamp \<Rightarrow> portfolio \<Rightarrow> portfolio" where
  "record_state date p =
     (let ret = (if history p = [] \<or> snap_total_value (last (history p)) = 0 then 0
                 else total_value p / snap_total_value (last (history p)) - 1)
      in p\<lparr>history := history p @
             [\<lparr>snap_date = date, snap_cash = cash p,
               snap_positions_value = positions_value p, snap_total_value = total_value p,
               snap_exposure = exposure p, daily_return = ret\<rparr>]\<rparr>)"

section \<open>The engine's collaborators\<close>

text \<open>
  \<^verbatim>\<open>Verdict\<close> is the enumeration of \<^verbatim>\<open>models/schemas.py\<close>; the analyst of
  \<^verbatim>\<open>agents/analyst.py\<close> produces its three members.
\<close>

datatype verdict = Verdict_BUY | Verdict_HOLD | Verdict_SELL

text \<open>The dictionary that \<^verbatim>\<open>run_agents_for_ticker\<close> returns.\<close>

record decision =
  ticker :: string
  verdict :: verdict
  position_size :: rat
  confidence :: "rat option"
  stop_loss :: rat
  take_profit :: rat
  analyst_score :: "rat option"

text \<open>
  The state that the external pipeline \<^verbatim>\<open>run_trading_pipeline\<close> returns, as far as the
  engine reads it. A call of the pipeline either returns a state or raises; what it
  raises is of class \<^verbatim>\<open>Exception\<close> (with its message) or is one of the exceptions
  that derive from \<^verbatim>\<open>BaseException\<close> only.
\<close>

record senior_decision =
  final_verdict :: verdict
  sd_position_size :: rat
  sd_confidence :: "rat option"
  sd_stop_loss :: rat
  sd_take_profit :: rat

record analyst_report =
  score :: "rat option"

record pipeline_state =
  pipeline_status :: string
  senior_decision :: "senior_decision option"
  analyst_report :: "analyst_report option"

datatype raised = Exception string | BaseException base_exception

datatype pipeline_outcome = Raises raised | Returns pipeline_state

text \<open>
  The price table is a pandas frame: its columns are tickers, its rows are indexed by
  date, and \<^verbatim>\<open>.loc[date].to_dict()\<close> is the row as a dictionary from ticker to price.
\<close>

record price_table =
  columns :: "string list"
  rows :: "(timestamp \<times> (string \<rightharpoonup> rat)) list"

definition empty :: "price_table \<Rightarrow> bool" where
  "empty prices = (columns prices = [] \<or> rows prices = [])"

text \<open>
  What the outside world answers during one run: whether a ticker of the liquid list
  passes the download and the three validations of \<^verbatim>\<open>get_universe\<close>, whether
  \<^verbatim>\<open>_safe_download_single\<close> succeeds for a ticker in \<^verbatim>\<open>get_price_data\<close>, the rows that
  pandas leaves after the clean-up of the downloaded columns, the benchmark series of
  \<^verbatim>\<open>get_cdi_data\<close> (a function of \<^verbatim>\<open>backtest/metrics.py\<close>, which may raise), and the
  outcome of the pipeline for a ticker and a date.
\<close>

record world =
  validates :: "string \<Rightarrow> bool"
  downloads :: "string \<Rightarrow> bool"
  cleaned_rows :: "string list \<Rightarrow> (timestamp \<times> (string \<rightharpoonup> rat)) list"
  get_cdi_data :: "string + (timestamp \<times> rat) list"
  run_trading_pipeline :: "string \<Rightarrow> timestamp \<Rightarrow> pipeline_outcome"

section \<open>Universe and prices (\<^verbatim>\<open>backtest/universe.py\<close>)\<close>

definition LIQUID_STOCKS_B3 :: "string list" where
  "LIQUID_STOCKS_B3 =
     [''PETR3.SA'', ''PETR4.SA'', ''PRIO3.SA'',
      ''VALE3.SA'', ''CSNA3.SA'', ''GGBR4.SA'',
      ''ITUB4.SA'', ''BBDC4.SA'', ''BBAS3.SA'', ''SANB11.SA'', ''BBDC3.SA'',
      ''MGLU3.SA'', ''LREN3.SA'', ''AMER3.SA'',
      ''ELET3.SA'', ''ELET6.SA'', ''CPFE3.SA'', ''CMIG4.SA'',
      ''ABEV3.SA'', ''BRFS3.SA'',
      ''VIVT3.SA'', ''TIMS3.SA'',
      ''SUZB3.SA'',
      ''CYRE3.SA'', ''MRVE3.SA'',
      ''WEGE3.SA'', ''RADL3.SA'', ''B3SA3.SA'', ''RENT3.SA'', ''EMBR3.SA'']"

text \<open>\<^verbatim>\<open>get_universe\<close> keeps, in order, the tickers of the liquid list that pass its
  checks; a ticker whose download raises is excluded like one that fails a check.\<close>

definition get_universe :: "world \<Rightarrow> string list" where
  "get_universe w = [t \<leftarrow> LIQUID_STOCKS_B3. validates w t]"

text \<open>\<^verbatim>\<open>get_price_data\<close> adds one column for each ticker whose download succeeds and
  cleans the frame only when it has a column; without one the frame stays the empty
  \<^verbatim>\<open>pd.DataFrame()\<close>.\<close>

definition get_price_data :: "world \<Rightarrow> string list \<Rightarrow> price_table" where
  "get_price_data w tickers =
     (let cols = [t \<leftarrow> tickers. downloads w t]
      in if length cols > 0 then \<lparr>columns = cols, rows = cleaned_rows w cols\<rparr>
         else \<lparr>columns = [], rows = []\<rparr>)"

section \<open>The engine (\<^verbatim>\<open>backtest/engine.py\<close>)\<close>

text \<open>
  The calls that the engine makes on its ledger, in the order it makes them. The list
  \<open>ledger_calls\<close> of the engine record is a ghost field: the model appends to it at
  every call site of a ledger method in the engine, and nothing reads it.
\<close>

datatype call =
    Call_update_prices
  | Call_apply_selic_to_cash timestamp rat
  | Call_check_stops timestamp
  | Call_sell string rat timestamp reason
  | Call_buy string rat rat timestamp rat rat reason
  | Call_record_state timestamp

record engine =
  rebalance_frequency :: string
  verbose :: bool
  portfolio :: portfolio
  universe_tickers :: "string list option"
  price_data :: "price_table option"
  cdi_data :: "(timestamp \<times> rat) list option"
  decisions_history :: "decision list"
  rebalance_dates :: "timestamp list"
  ledger_calls :: "call list"

text \<open>\<^verbatim>\<open>BacktestEngine.__init__\<close>; the start and end dates only reach the providers.\<close>

definition BacktestEngine ::
  "rat \<Rightarrow> string \<Rightarrow> string list option \<Rightarrow> rat \<Rightarrow> rat \<Rightarrow> rat \<Rightarrow> bool \<Rightarrow> engine" where
  "BacktestEngine capital frequency universe comm min_size max_size verb =
     \<lparr>rebalance_frequency = frequency, verbose = verb,
      portfolio = Portfolio capital comm min_size max_size,
      universe_tickers = universe, price_data = None, cdi_data = None,
      decisions_history = [], rebalance_dates = [], ledger_calls = []\<rparr>"

definition call_update_prices :: "(string \<rightharpoonup> rat) \<Rightarrow> engine \<Rightarrow> engine" where
  "call_update_prices current_prices e =
     e\<lparr>portfolio := update_prices current_prices (portfolio e),
       ledger_calls := ledger_calls e @ [Call_update_prices]\<rparr>"

definition call_apply_selic_to_cash :: "timestamp \<Rightarrow> rat \<Rightarrow> engine \<Rightarrow> engine" where
  "call_apply_selic_to_cash date rate e =
     e\<lparr>portfolio := apply_selic_to_cash date rate (portfolio e),
       ledger_calls := ledger_calls e @ [Call_apply_selic_to_cash date rate]\<rparr>"

definition call_check_stops :: "timestamp \<Rightarrow> engine \<Rightarrow> engine" where
  "call_check_stops date e =
     e\<lparr>portfolio := check_stops date (portfolio e),
       ledger_calls := ledger_calls e @ [Call_check_stops date]\<rparr>"

definition call_record_state :: "timestamp \<Rightarrow> engine \<Rightarrow> engine" where
  "call_record_state date e =
     e\<lparr>portfolio := record_state date (portfolio e),
       ledger_calls := ledger_calls e @ [Call_record_state date]\<rparr>"

definition call_sell ::
  "string \<Rightarrow> rat \<Rightarrow> timestamp \<Rightarrow> reason \<Rightarrow> engine \<Rightarrow> trade option \<times> engine" where
  "call_sell t price date why e =
     (let (tr, p) = sell t price date why (portfolio e)
      in (tr, e\<lparr>portfolio := p,
                ledger_calls := ledger_calls e @ [Call_sell t price date why]\<rparr>))"

definition call_buy ::
  "string \<Rightarrow> rat \<Rightarrow> rat \<Rightarrow> timestamp \<Rightarrow> rat \<Rightarrow> rat \<Rightarrow> reason \<Rightarrow> engine
     \<Rightarrow> trade option \<times> engine" where
  "call_buy t price target_pct date sl tp why e =
     (let (tr, p) = buy t price target_pct date sl tp why (portfolio e)
      in (tr, e\<lparr>portfolio := p,
                ledger_calls :=
                  ledger_calls e @ [Call_buy t price target_pct date sl tp why]\<rparr>))"

subsection \<open>Preparing the data\<close>

text \<open>\<^verbatim>\<open>BacktestEngine.prepare_data\<close>. An exception leaves the engine as it was when it
  was raised, so an error carries that engine.\<close>

definition prepare_data :: "world \<Rightarrow> engine \<Rightarrow> (error \<times> engine) + engine" where
  "prepare_data w e =
     (let e1 = (case universe_tickers e of
                  None \<Rightarrow> e\<lparr>universe_tickers := Some (get_universe w)\<rparr>
                | Some tickers \<Rightarrow> e);
          tickers = (case universe_tickers e1 of None \<Rightarrow> [] | Some tickers \<Rightarrow> tickers)
      in if universe_tickers e = None \<and> length tickers < 10
         then Inl (ValueError_universe (length tickers), e1)
         else
           let e2 = e1\<lparr>price_data := Some (get_price_data w tickers)\<rparr>
           in if empty (get_price_data w tickers) then Inl (ValueError_prices, e2)
              else (case get_cdi_data w of
                      Inl message \<Rightarrow> Inl (ProviderError message, e2)
                    | Inr cdi \<Rightarrow> Inr (e2\<lparr>cdi_data := Some cdi\<rparr>)))"

subsection \<open>Signals\<close>

text \<open>\<^verbatim>\<open>BacktestEngine.run_agents_for_ticker\<close>: the whole body is inside
  \<^verbatim>\<open>try: ... except Exception: return None\<close>. The handler catches what is of class
  \<^verbatim>\<open>Exception\<close>; a \<^verbatim>\<open>KeyboardInterrupt\<close> or a \<^verbatim>\<open>SystemExit\<close> raised by the
  pipeline leaves the function.\<close>

definition run_agents_for_ticker ::
  "world \<Rightarrow> string \<Rightarrow> timestamp \<Rightarrow> error + decision option" where
  "run_agents_for_ticker w t as_of =
     (case run_trading_pipeline w t as_of of
        Raises (Exception message) \<Rightarrow> Inr None
      | Raises (BaseException b) \<Rightarrow> Inl (Propagated b)
      | Returns state \<Rightarrow>
          (case senior_decision state of
             None \<Rightarrow> Inr None
           | Some sd \<Rightarrow>
               if pipeline_status state = ''completed''
               then Inr (Some \<lparr>ticker = t, verdict = final_verdict sd,
                          position_size = sd_position_size sd,
                          confidence = sd_confidence sd,
                          stop_loss = sd_stop_loss sd, take_profit = sd_take_profit sd,
                          analyst_score = (case analyst_report state of
                                             None \<Rightarrow> None | Some r \<Rightarrow> score r)\<rparr>)
               else Inr None))"

text \<open>The loop over the universe that collects the decisions that are not \<^verbatim>\<open>None\<close>;
  an exception that leaves \<^verbatim>\<open>run_agents_for_ticker\<close> leaves the loop at that ticker.\<close>

fun analyse :: "world \<Rightarrow> timestamp \<Rightarrow> string list \<Rightarrow> error + decision list" where
  "analyse w date [] = Inr []"
| "analyse w date (t # tickers) =
     (case run_agents_for_ticker w t date of
        Inl err \<Rightarrow> Inl err
      | Inr decision \<Rightarrow>
          (case analyse w date tickers of
             Inl err \<Rightarrow> Inl err
           | Inr decisions \<Rightarrow>
               Inr (case decision of None \<Rightarrow> decisions | Some d \<Rightarrow> d # decisions)))"

text \<open>The sort key \<^verbatim>\<open>(x['analyst_score'] or 0) * (x['confidence'] or 0)\<close>.\<close>

definition or_zero :: "rat option \<Rightarrow> rat" where
  "or_zero v = (case v of None \<Rightarrow> 0 | Some x \<Rightarrow> x)"

definition quality :: "decision \<Rightarrow> rat" where
  "quality x = or_zero (analyst_score x) * or_zero (confidence x)"

text \<open>\<^verbatim>\<open>list.sort(key=..., reverse=True)\<close>: Python's sort is stable, also when
  reversed, so it is the stable sort on the negated key.\<close>

definition rank :: "decision list \<Rightarrow> decision list" where
  "rank signals = sort_key (\<lambda>x. - quality x) signals"

definition buy_signals :: "decision list \<Rightarrow> decision list" where
  "buy_signals decisions = rank [d \<leftarrow> decisions. verdict d = Verdict_BUY]"

definition hold_signals :: "decision list \<Rightarrow> decision list" where
  "hold_signals decisions = rank [d \<leftarrow> decisions. verdict d = Verdict_HOLD]"

subsection \<open>Allocation\<close>

text \<open>The triple \<^verbatim>\<open>(buy_allocation, hold_allocation, cash_target)\<close>, as fractions.\<close>

definition allocation :: "nat \<Rightarrow> rat \<times> rat \<times> rat" where
  "allocation num_buy =
     (if num_buy \<ge> 15 then (90 / 100, 5 / 100, 5 / 100)
      else if num_buy \<ge> 10 then (80 / 100, 10 / 100, 10 / 100)
      else if num_buy \<ge> 5 then (60 / 100, 25 / 100, 15 / 100)
      else (40 / 100, 45 / 100, 15 / 100))"

definition selic_daily :: rat where
  "selic_daily = 35 / 100000"

subsection \<open>Rebalancing\<close>

definition keep_tickers :: "decision list \<Rightarrow> decision list \<Rightarrow> string set" where
  "keep_tickers buys holds = set (map ticker (take 15 buys) @ map ticker (take 20 holds))"

text \<open>The loop \<^verbatim>\<open>for ticker in to_sell\<close>. Python does not fix the order in which a set
  is visited; the model visits the tickers in the order of the position map.\<close>

fun sell_loop :: "(string \<rightharpoonup> rat) \<Rightarrow> timestamp \<Rightarrow> string list \<Rightarrow> engine \<Rightarrow> engine" where
  "sell_loop current_prices date [] e = e"
| "sell_loop current_prices date (t # to_sell) e =
     (case current_prices t of
        None \<Rightarrow> sell_loop current_prices date to_sell e
      | Some price \<Rightarrow>
          sell_loop current_prices date to_sell (snd (call_sell t price date NO_SIGNAL e)))"

text \<open>The two buying loops, over the top 15 BUY signals with reason \<^verbatim>\<open>'REBALANCE'\<close> and
  over the top 20 HOLD signals with reason \<^verbatim>\<open>'HOLD_EXPOSURE'\<close>. After a trade, the
  verbose engine prints the signal's score with the format \<^verbatim>\<open>:.0f\<close>, which raises a
  \<^verbatim>\<open>TypeError\<close> when the score is \<^verbatim>\<open>None\<close>.\<close>

fun buy_loop ::
  "(string \<rightharpoonup> rat) \<Rightarrow> timestamp \<Rightarrow> rat \<Rightarrow> reason \<Rightarrow> decision list \<Rightarrow> engine
     \<Rightarrow> (error \<times> engine) + engine" where
  "buy_loop current_prices date pct why [] e = Inr e"
| "buy_loop current_prices date pct why (signal # signals) e =
     (case current_prices (ticker signal) of
        None \<Rightarrow> buy_loop current_prices date pct why signals e
      | Some price \<Rightarrow>
          if ticker signal \<in> held (portfolio e)
          then buy_loop current_prices date pct why signals e
          else
            let (tr, e') = call_buy (ticker signal) price pct date (stop_loss signal)
                             (take_profit signal) why e
            in if tr \<noteq> None \<and> verbose e \<and> analyst_score signal = None
               then Inl (TypeError, e')
               else buy_loop current_prices date pct why signals e')"

text \<open>\<^verbatim>\<open>BacktestEngine.rebalance_portfolio\<close>. An exception that leaves the analysis
  of the universe leaves the rebalance, after the price update and the accrual. The two
  percentages divide by the total value of the ledger, read before the sales; a float
  division by zero raises.\<close>

definition rebalance_portfolio :: "world \<Rightarrow> timestamp \<Rightarrow> engine \<Rightarrow> (error \<times> engine) + engine" where
  "rebalance_portfolio w date e =
     (case price_data e of
        None \<Rightarrow> Inl (AttributeError, e)
      | Some table \<Rightarrow>
     (case map_of (rows table) date of
        None \<Rightarrow> Inl (KeyError, e)
      | Some current_prices \<Rightarrow>
          let e1 = call_update_prices current_prices e;
              e2 = call_apply_selic_to_cash date selic_daily e1
          in (case universe_tickers e2 of
                None \<Rightarrow> Inl (TypeError, e2)
              | Some universe \<Rightarrow>
          (case analyse w date universe of
             Inl err \<Rightarrow> Inl (err, e2)
           | Inr decisions \<Rightarrow>
          let buys = buy_signals decisions;
              holds = hold_signals decisions;
              total_capital = total_value (portfolio e2);
              (buy_allocation, hold_allocation, cash_target) = allocation (length buys);
              keep = keep_tickers buys holds;
              to_sell = [t \<leftarrow> map fst (positions (portfolio e2)). t \<notin> keep];
              e3 = sell_loop current_prices date to_sell e2
          in if total_capital = 0 then Inl (ZeroDivisionError, e3)
             else
               let buy_capital = total_capital * buy_allocation;
                   per_buy_position = buy_capital / of_nat (min 15 (max 1 (length buys)));
                   buy_position_pct = per_buy_position / total_capital * 100
               in (case buy_loop current_prices date buy_position_pct REBALANCE
                          (take 15 buys) e3 of
                     Inl failure \<Rightarrow> Inl failure
                   | Inr e4 \<Rightarrow>
               let hold_capital = total_capital * hold_allocation;
                   per_hold_position = hold_capital / of_nat (min 20 (max 1 (length holds)));
                   hold_position_pct = per_hold_position / total_capital * 100
               in (case buy_loop current_prices date hold_position_pct HOLD_EXPOSURE
                          (take 20 holds) e4 of
                     Inl failure \<Rightarrow> Inl failure
                   | Inr e5 \<Rightarrow>
                       Inr (e5\<lparr>decisions_history := decisions_history e5 @ decisions,
                               rebalance_dates := rebalance_dates e5 @ [date]\<rparr>)))))))"

subsection \<open>The simulation\<close>

text \<open>One turn of the main loop of \<^verbatim>\<open>BacktestEngine.run\<close>.\<close>

definition run_day :: "world \<Rightarrow> timestamp list \<Rightarrow> timestamp \<Rightarrow> engine \<Rightarrow> (error \<times> engine) + engine" where
  "run_day w rebalance_days date e =
     (case price_data e of
        None \<Rightarrow> Inl (AttributeError, e)
      | Some table \<Rightarrow>
     (case map_of (rows table) date of
        None \<Rightarrow> Inl (KeyError, e)
      | Some current_prices \<Rightarrow>
          let e1 = call_update_prices current_prices e;
              e2 = call_apply_selic_to_cash date (35 / 100000) e1;
              e3 = call_check_stops date e2
          in (case (if date \<in> set rebalance_days then rebalance_portfolio w date e3
                    else Inr e3) of
                Inl failure \<Rightarrow> Inl failure
              | Inr e4 \<Rightarrow> Inr (call_record_state date e4))))"

fun main_loop ::
  "world \<Rightarrow> timestamp list \<Rightarrow> timestamp list \<Rightarrow> engine \<Rightarrow> (error \<times> engine) + engine" where
  "main_loop w rebalance_days [] e = Inr e"
| "main_loop w rebalance_days (date # dates) e =
     (case run_day w rebalance_days date e of
        Inl failure \<Rightarrow> Inl failure
      | Inr e' \<Rightarrow> main_loop w rebalance_days dates e')"

text \<open>\<^verbatim>\<open>BacktestEngine.run\<close>: prepare the data, compute the rebalance dates, then loop
  over the dates of the price table.\<close>

definition run :: "world \<Rightarrow> engine \<Rightarrow> (error \<times> engine) + engine" where
  "run w e =
     (case prepare_data w e of
        Inl failure \<Rightarrow> Inl failure
      | Inr e1 \<Rightarrow>
          (case price_data e1 of
             None \<Rightarrow> Inl (AttributeError, e1)
           | Some table \<Rightarrow>
               (case get_rebalance_dates (rebalance_frequency e1) (map fst (rows table)) of
                  Inl err \<Rightarrow> Inl (err, e1)
                | Inr rebalance_days \<Rightarrow>
                    main_loop w rebalance_days (map fst (rows table)) e1)))"

subsection \<open>Notions for the statements\<close>

text \<open>The engine as a call leaves it, whether the call returns or raises.\<close>

definition outcome :: "(error \<times> engine) + engine \<Rightarrow> engine" where
  "outcome r = (case r of Inl (err, e) \<Rightarrow> e | Inr e \<Rightarrow> e)"

text \<open>
  What a rebalance may do to the ledger \<open>p0\<close> it starts from, given its keep set: a held
  ticker of the keep set keeps its position, no ticker outside the keep set becomes
  held, and every new trade is the sale of a held ticker outside the keep set or the
  purchase of a ticker of the keep set that was not held.
\<close>

definition transitions_only :: "string set \<Rightarrow> portfolio \<Rightarrow> portfolio \<Rightarrow> bool" where
  "transitions_only keep p0 p \<longleftrightarrow>
     (\<forall>t \<in> held p0 \<inter> keep. map_of (positions p) t = map_of (positions p0) t) \<and>
     (\<forall>t \<in> - keep. t \<in> held p \<longrightarrow> t \<in> held p0) \<and>
     (\<exists>new. trades p = trades p0 @ new \<and>
        (\<forall>tr \<in> set new. trade_action tr = SELL \<and> trade_ticker tr \<in> held p0 - keep \<or>
                         trade_action tr = BUY \<and> trade_ticker tr \<in> keep - held p0))"

text \<open>
  The ledger calls of one trading day, as the main loop makes them: the price update,
  the accrual and the stop check, then the calls of the strategy, none on a day that is
  not a rebalance date, then the snapshot, which is missing on the day on which the
  strategy raises.
\<close>

definition day_calls :: "timestamp list \<Rightarrow> timestamp \<Rightarrow> bool \<Rightarrow> call list \<Rightarrow> bool" where
  "day_calls rebalance_days date recorded calls \<longleftrightarrow>
     (\<exists>strategy.
        calls = [Call_update_prices, Call_apply_selic_to_cash date (35 / 100000),
                 Call_check_stops date] @
                strategy @ (if recorded then [Call_record_state date] else []) \<and>
        (date \<notin> set rebalance_days \<longrightarrow> strategy = []) \<and>
        (\<forall>c \<in> set strategy.
           c = Call_update_prices \<or> c = Call_apply_selic_to_cash date selic_daily \<or>
           (\<exists>t price. c = Call_sell t price date NO_SIGNAL) \<or>
           (\<exists>t price pct sl tp why. c = Call_buy t price pct date sl tp why)))"

subsection \<open>Failing signals\<close>

text \<open>A call of the pipeline fails when it raises an exception of class
  \<^verbatim>\<open>Exception\<close>, and interrupts when it raises one that is not. The world
  \<open>absorbed w\<close> is the world \<open>w\<close> with every failing call of the pipeline replaced by a
  call that returns a state without a decision.\<close>

definition fails :: "world \<Rightarrow> string \<Rightarrow> timestamp \<Rightarrow> bool" where
  "fails w t date =
     (case run_trading_pipeline w t date of
        Raises (Exception message) \<Rightarrow> True
      | Raises (BaseException b) \<Rightarrow> False
      | Returns s \<Rightarrow> False)"

definition interrupts :: "world \<Rightarrow> string \<Rightarrow> timestamp \<Rightarrow> bool" where
  "interrupts w t date =
     (case run_trading_pipeline w t date of
        Raises (Exception message) \<Rightarrow> False
      | Raises (BaseException b) \<Rightarrow> True
      | Returns s \<Rightarrow> False)"

definition absorbed :: "world \<Rightarrow> world" where
  "absorbed w =
     w\<lparr>run_trading_pipeline :=
         (\<lambda>t date. case run_trading_pipeline w t date of
                      Raises (Exception message) \<Rightarrow>
                        Returns \<lparr>pipeline_status = ''failed'',
                                 senior_decision = None, analyst_report = None\<rparr>
                    | Raises (BaseException b) \<Rightarrow> Raises (BaseException b)
                    | Returns s \<Rightarrow> Returns s)\<rparr>"

section \<open>Example data\<close>

text \<open>Two trading days, Monday 1 and Tuesday 2 January 2024, one ticker, and a world in
  which every download succeeds; the pipeline is a parameter.\<close>

definition monday :: timestamp where
  "monday = \<lparr>year = 2024, month = 1, day = 1\<rparr>"

definition tuesday :: timestamp where
  "tuesday = \<lparr>year = 2024, month = 1, day = 2\<rparr>"

definition example_world :: "(string \<Rightarrow> timestamp \<Rightarrow> pipeline_outcome) \<Rightarrow> world" where
  "example_world pipeline =
     \<lparr>validates = (\<lambda>t. True), downloads = (\<lambda>t. True),
      cleaned_rows = (\<lambda>cols. [(monday, [''X'' \<mapsto> 50]), (tuesday, [''X'' \<mapsto> 51])]),
      get_cdi_data = Inr [], run_trading_pipeline = pipeline\<rparr>"

definition always_raises :: "string \<Rightarrow> timestamp \<Rightarrow> pipeline_outcome" where
  "always_raises t date = Raises (Exception ''timeout'')"

text \<open>A pipeline that raises for the ticker \<^verbatim>\<open>X\<close> and completes with a BUY decision for
  every other ticker.\<close>

definition fails_for_X :: "string \<Rightarrow> timestamp \<Rightarrow> pipeline_outcome" where
  "fails_for_X t date =
     (if t = ''X'' then Raises (Exception ''timeout'')
      else Returns \<lparr>pipeline_status = ''completed'',
                    senior_decision = Some \<lparr>final_verdict = Verdict_BUY, sd_position_size = 5,
                                             sd_confidence = Some (8 / 10),
                                             sd_stop_loss = 45, sd_take_profit = 60\<rparr>,
                    analyst_report = Some \<lparr>score = Some 80\<rparr>\<rparr>)"

text \<open>A pipeline in which the user's interrupt arrives during the call for the ticker
  \<^verbatim>\<open>X\<close>.\<close>

definition interrupted_at_X :: "string \<Rightarrow> timestamp \<Rightarrow> pipeline_outcome" where
  "interrupted_at_X t date =
     (if t = ''X'' then Raises (BaseException KeyboardInterrupt) else fails_for_X t date)"

text \<open>An engine in the middle of a run: it holds the tickers \<^verbatim>\<open>A\<close>, \<^verbatim>\<open>B\<close> and \<^verbatim>\<open>D\<close>,
  bought on 28 December 2023, and its price table has the row of the Monday. On that
  day \<^verbatim>\<open>D\<close> trades below its stop-loss.\<close>

definition bought_at :: "string \<Rightarrow> int \<Rightarrow> rat \<Rightarrow> rat \<Rightarrow> rat \<Rightarrow> position" where
  "bought_at t n price sl tp =
     \<lparr>pos_ticker = t, shares = n, entry_price = price,
      entry_date = \<lparr>year = 2023, month = 12, day = 28\<rparr>,
      pos_stop_loss = sl, pos_take_profit = tp, current_price = price\<rparr>"

definition monday_prices :: "string \<rightharpoonup> rat" where
  "monday_prices = [''A'' \<mapsto> 11, ''B'' \<mapsto> 21, ''C'' \<mapsto> 30, ''D'' \<mapsto> 17]"

definition holding :: engine where
  "holding =
     \<lparr>rebalance_frequency = ''weekly'', verbose = True,
      portfolio =
        \<lparr>initial_capital = 10000, commission_pct = 1 / 1000, min_position_size = 2,
         max_position_size = 10, cash = 5000,
         positions = [(''A'', bought_at ''A'' 100 10 9 15), (''B'', bought_at ''B'' 50 20 18 30),
                      (''D'', bought_at ''D'' 10 20 18 30)],
         trades = [], history = []\<rparr>,
      universe_tickers = Some [''A'', ''B'', ''C'', ''D''],
      price_data = Some \<lparr>columns = [''A'', ''B'', ''C'', ''D''],
                         rows = [(monday, monday_prices)]\<rparr>,
      cdi_data = Some [], decisions_history = [], rebalance_dates = [], ledger_calls = []\<rparr>"

text \<open>A pipeline that completes for every ticker, with the verdict HOLD for \<^verbatim>\<open>A\<close>, BUY
  for \<^verbatim>\<open>C\<close> and SELL for every other ticker.\<close>

definition verdicts :: "string \<Rightarrow> timestamp \<Rightarrow> pipeline_outcome" where
  "verdicts t date =
     Returns \<lparr>pipeline_status = ''completed'',
              senior_decision =
                Some \<lparr>final_verdict = (if t = ''A'' then Verdict_HOLD
                                        else if t = ''C'' then Verdict_BUY else Verdict_SELL),
                      sd_position_size = 5, sd_confidence = Some (8 / 10),
                      sd_stop_loss = 25, sd_take_profit = 40\<rparr>,
              analyst_report = Some \<lparr>score = Some 70\<rparr>\<rparr>"

text \<open>The decisions that this pipeline gives for the four tickers.\<close>

definition monday_decisions :: "decision list" where
  "monday_decisions =
     [\<lparr>ticker = ''A'', verdict = Verdict_HOLD, position_size = 5, confidence = Some (8 / 10),
       stop_loss = 25, take_profit = 40, analyst_score = Some 70\<rparr>,
      \<lparr>ticker = ''B'', verdict = Verdict_SELL, position_size = 5, confidence = Some (8 / 10),
       stop_loss = 25, take_profit = 40, analyst_score = Some 70\<rparr>,
      \<lparr>ticker = ''C'', verdict = Verdict_BUY, position_size = 5, confidence = Some (8 / 10),
       stop_loss = 25, take_profit = 40, analyst_score = Some 70\<rparr>,
      \<lparr>ticker = ''D'', verdict = Verdict_SELL, position_size = 5, confidence = Some (8 / 10),
       stop_loss = 25, take_profit = 40, analyst_score = Some 70\<rparr>]"

section \<open>Properties of the rebalance dates\<close>

lemma comprehension_Cons:
  "concat (map f [0..<Suc n]) = f 0 @ concat (map (\<lambda>i. f (Suc i)) [0..<n])"
proof -
  have "[0..<Suc n] = 0 # map Suc [0..<n]"
    by (simp add: upt_conv_Cons map_Suc_upt del: upt_Suc)
  then show ?thesis
    by (simp add: comp_def del: upt_Suc)
qed

lemma monthly_loop_index:
  "monthly_loop cur acc ds =
     acc @ concat (map (\<lambda>i. if (if i = 0 then Some (month (ds ! 0)) \<noteq> cur
                                  else month (ds ! i) \<noteq> month (ds ! (i - 1)))
                             then [ds ! i] else []) [0..<length ds])"
proof (induction ds arbitrary: cur acc)
  case Nil
  show ?case by simp
next
  case (Cons d ds)
  have tail: "monthly_loop (Some (month d)) acc' ds =
      acc' @ concat (map (\<lambda>i. if month ((d # ds) ! Suc i) \<noteq> month ((d # ds) ! i)
                              then [(d # ds) ! Suc i] else []) [0..<length ds])" for acc'
    unfolding Cons.IH
    by (rule arg_cong [where f = "\<lambda>z. acc' @ concat z"], rule map_cong)
       (auto simp: nth_Cons')
  show ?case
  proof (cases "Some (month d) \<noteq> cur")
    case True
    then show ?thesis
      by (simp add: comprehension_Cons tail del: upt_Suc)
  next
    case False
    then have "cur = Some (month d)" by simp
    then show ?thesis
      by (simp add: comprehension_Cons tail del: upt_Suc)
  qed
qed

lemma quarterly_loop_index:
  "quarterly_loop cur acc ds =
     acc @ concat (map (\<lambda>i. if (if i = 0 then Some (year (ds ! 0), quarter (ds ! 0)) \<noteq> cur
                                  else (year (ds ! i), quarter (ds ! i))
                                       \<noteq> (year (ds ! (i - 1)), quarter (ds ! (i - 1))))
                             then [ds ! i] else []) [0..<length ds])"
proof (induction ds arbitrary: cur acc)
  case Nil
  show ?case by simp
next
  case (Cons d ds)
  have tail: "quarterly_loop (Some (year d, quarter d)) acc' ds =
      acc' @ concat (map (\<lambda>i. if (year ((d # ds) ! Suc i), quarter ((d # ds) ! Suc i))
                                   \<noteq> (year ((d # ds) ! i), quarter ((d # ds) ! i))
                              then [(d # ds) ! Suc i] else []) [0..<length ds])" for acc'
    unfolding Cons.IH
    by (rule arg_cong [where f = "\<lambda>z. acc' @ concat z"], rule map_cong)
       (auto simp: nth_Cons')
  show ?case
  proof (cases "Some (year d, quarter d) \<noteq> cur")
    case True
    then show ?thesis
      by (simp add: comprehension_Cons tail Let_def del: upt_Suc)
  next
    case False
    then have "cur = Some (year d, quarter d)" by simp
    then show ?thesis
      by (simp add: comprehension_Cons tail Let_def del: upt_Suc)
  qed
qed

text \<open>
  Claim C3. The rebalance dates are computed from the date index of the price table:
  for \<^verbatim>\<open>'weekly'\<close> they are the dates whose weekday is Monday; for \<^verbatim>\<open>'monthly'\<close> the
  dates whose month differs from the month of the previous trading day; for
  \<^verbatim>\<open>'quarterly'\<close> the dates whose pair of year and quarter, the quarter being
  \<open>(month - 1) div 3\<close>, differs from the pair of the previous trading day. The first
  date of the index has no previous trading day and is always a monthly and a
  quarterly rebalance date. The result lists the dates in index order.
\<close>

theorem C3_rebalance_dates:
  "get_rebalance_dates ''weekly'' ds = Inr [d \<leftarrow> ds. weekday d = 0] \<and>
   get_rebalance_dates ''monthly'' ds =
     Inr [ds ! i. i \<leftarrow> [0..<length ds], i = 0 \<or> month (ds ! i) \<noteq> month (ds ! (i - 1))] \<and>
   get_rebalance_dates ''quarterly'' ds =
     Inr [ds ! i. i \<leftarrow> [0..<length ds],
            i = 0 \<or> (year (ds ! i), (month (ds ! i) - 1) div 3)
                     \<noteq> (year (ds ! (i - 1)), (month (ds ! (i - 1)) - 1) div 3)]"
proof -
  have m: "monthly_loop None [] ds =
      [ds ! i. i \<leftarrow> [0..<length ds], i = 0 \<or> month (ds ! i) \<noteq> month (ds ! (i - 1))]"
    unfolding monthly_loop_index
    by (simp, rule arg_cong [where f = concat], rule map_cong) auto
  have q: "quarterly_loop None [] ds =
      [ds ! i. i \<leftarrow> [0..<length ds],
         i = 0 \<or> (year (ds ! i), (month (ds ! i) - 1) div 3)
                  \<noteq> (year (ds ! (i - 1)), (month (ds ! (i - 1)) - 1) div 3)]"
    unfolding quarterly_loop_index
    by (simp, rule arg_cong [where f = concat], rule map_cong) (auto simp: quarter_def)
  show ?thesis
    by (simp add: get_rebalance_dates_def m q)
qed

lemma weekday_examples:
  "weekday \<lparr>year = 2024, month = 1, day = 1\<rparr> = 0"
  "weekday \<lparr>year = 2024, month = 1, day = 2\<rparr> = 1"
  "weekday \<lparr>year = 2024, month = 2, day = 1\<rparr> = 3"
  "weekday \<lparr>year = 2024, month = 4, day = 1\<rparr> = 0"
  by (simp_all add: weekday_def days_from_civil_def)

theorem C3_rebalance_dates_witness:
  "get_rebalance_dates ''weekly''
     [\<lparr>year = 2024, month = 1, day = 1\<rparr>, \<lparr>year = 2024, month = 1, day = 2\<rparr>,
      \<lparr>year = 2024, month = 2, day = 1\<rparr>, \<lparr>year = 2024, month = 4, day = 1\<rparr>]
     = Inr [\<lparr>year = 2024, month = 1, day = 1\<rparr>, \<lparr>year = 2024, month = 4, day = 1\<rparr>] \<and>
   get_rebalance_dates ''monthly''
     [\<lparr>year = 2024, month = 1, day = 1\<rparr>, \<lparr>year = 2024, month = 1, day = 2\<rparr>,
      \<lparr>year = 2024, month = 2, day = 1\<rparr>, \<lparr>year = 2024, month = 4, day = 1\<rparr>]
     = Inr [\<lparr>year = 2024, month = 1, day = 1\<rparr>, \<lparr>year = 2024, month = 2, day = 1\<rparr>,
            \<lparr>year = 2024, month = 4, day = 1\<rparr>] \<and>
   get_rebalance_dates ''quarterly''
     [\<lparr>year = 2024, month = 1, day = 1\<rparr>, \<lparr>year = 2024, month = 1, day = 2\<rparr>,
      \<lparr>year = 2024, month = 2, day = 1\<rparr>, \<lparr>year = 2024, month = 4, day = 1\<rparr>]
     = Inr [\<lparr>year = 2024, month = 1, day = 1\<rparr>, \<lparr>year = 2024, month = 4, day = 1\<rparr>]"
  using C3_rebalance_dates
    [of "[\<lparr>year = 2024, month = 1, day = 1\<rparr>, \<lparr>year = 2024, month = 1, day = 2\<rparr>,
          \<lparr>year = 2024, month = 2, day = 1\<rparr>, \<lparr>year = 2024, month = 4, day = 1\<rparr>]"]
  by (simp add: weekday_examples upt_rec)

section \<open>Properties of the ranking\<close>

lemma rank_descending: "sorted_wrt (\<lambda>a b. quality b \<le> quality a) (rank xs)"
proof -
  have "sorted (map (\<lambda>x. - quality x) (rank xs))"
    unfolding rank_def by (rule sorted_sort_key)
  then show ?thesis
    by (simp add: sorted_map sorted_wrt_iff_nth_less)
qed

lemma rank_mset: "mset (rank xs) = mset xs"
  by (simp add: rank_def)

lemma rank_stable: "[x \<leftarrow> rank xs. quality x = k] = [x \<leftarrow> xs. quality x = k]"
proof -
  have "[x \<leftarrow> sort_key (\<lambda>x. - quality x) xs. - quality x = - k]
          = [x \<leftarrow> xs. - quality x = - k]"
    by (rule sort_key_stable)
  then show ?thesis by (simp add: rank_def)
qed

text \<open>
  Claim C6. On every rebalance each tier, BUY and HOLD, is ranked in descending order of
  score times confidence, a score or confidence of \<^verbatim>\<open>None\<close> counting as 0; the ranked
  tier holds the signals of the tier, each as often as before; and the signals with the
  same key stand in the order in which they were met.
\<close>

theorem C6_ranking:
  "sorted_wrt (\<lambda>a b. quality a \<ge> quality b) (buy_signals decisions) \<and>
   sorted_wrt (\<lambda>a b. quality a \<ge> quality b) (hold_signals decisions) \<and>
   mset (buy_signals decisions) = mset [d \<leftarrow> decisions. verdict d = Verdict_BUY] \<and>
   mset (hold_signals decisions) = mset [d \<leftarrow> decisions. verdict d = Verdict_HOLD] \<and>
   [x \<leftarrow> buy_signals decisions. quality x = k]
     = [x \<leftarrow> decisions. verdict x = Verdict_BUY \<and> quality x = k] \<and>
   [x \<leftarrow> hold_signals decisions. quality x = k]
     = [x \<leftarrow> decisions. verdict x = Verdict_HOLD \<and> quality x = k] \<and>
   quality x = (case analyst_score x of None \<Rightarrow> 0 | Some s \<Rightarrow> s)
                 * (case confidence x of None \<Rightarrow> 0 | Some c \<Rightarrow> c)"
proof (intro conjI)
  show "sorted_wrt (\<lambda>a b. quality a \<ge> quality b) (buy_signals decisions)"
    unfolding buy_signals_def by (rule rank_descending)
  show "sorted_wrt (\<lambda>a b. quality a \<ge> quality b) (hold_signals decisions)"
    unfolding hold_signals_def by (rule rank_descending)
  show "mset (buy_signals decisions) = mset [d \<leftarrow> decisions. verdict d = Verdict_BUY]"
    unfolding buy_signals_def by (rule rank_mset)
  show "mset (hold_signals decisions) = mset [d \<leftarrow> decisions. verdict d = Verdict_HOLD]"
    unfolding hold_signals_def by (rule rank_mset)
  show "[x \<leftarrow> buy_signals decisions. quality x = k]
     = [x \<leftarrow> decisions. verdict x = Verdict_BUY \<and> quality x = k]"
    unfolding buy_signals_def rank_stable by (simp add: conj_commute)
  show "[x \<leftarrow> hold_signals decisions. quality x = k]
     = [x \<leftarrow> decisions. verdict x = Verdict_HOLD \<and> quality x = k]"
    unfolding hold_signals_def rank_stable by (simp add: conj_commute)
  show "quality x = (case analyst_score x of None \<Rightarrow> 0 | Some s \<Rightarrow> s)
                 * (case confidence x of None \<Rightarrow> 0 | Some c \<Rightarrow> c)"
    by (simp add: quality_def or_zero_def)
qed


section \<open>Facts about the example data\<close>

lemma example_prepare:
  "prepare_data (example_world p) (BacktestEngine c f (Some [''X'']) k lo hi v)
     = Inr ((BacktestEngine c f (Some [''X'']) k lo hi v)
             \<lparr>price_data := Some \<lparr>columns = [''X''],
                  rows = [(monday, [''X'' \<mapsto> 50]), (tuesday, [''X'' \<mapsto> 51])]\<rparr>,
               cdi_data := Some []\<rparr>)"
  by (simp add: prepare_data_def example_world_def BacktestEngine_def get_price_data_def
        empty_def Let_def)

lemma example_days:
  "weekday monday = 0" "weekday tuesday = 1" "monday \<noteq> tuesday" "tuesday \<noteq> monday"
  by (simp_all add: weekday_def days_from_civil_def monday_def tuesday_def)

lemma example_analyse_raises: "analyse (example_world always_raises) date tickers = Inr []"
  by (induction tickers)
     (simp_all add: run_agents_for_ticker_def example_world_def always_raises_def)

lemma example_analyse:
  "analyse (example_world verdicts) monday [''A'', ''B'', ''C'', ''D''] = Inr monday_decisions"
  by (simp add: run_agents_for_ticker_def example_world_def verdicts_def monday_decisions_def)

lemma example_signals:
  "buy_signals monday_decisions =
     [\<lparr>ticker = ''C'', verdict = Verdict_BUY, position_size = 5, confidence = Some (8 / 10),
       stop_loss = 25, take_profit = 40, analyst_score = Some 70\<rparr>]"
  "hold_signals monday_decisions =
     [\<lparr>ticker = ''A'', verdict = Verdict_HOLD, position_size = 5, confidence = Some (8 / 10),
       stop_loss = 25, take_profit = 40, analyst_score = Some 70\<rparr>]"
  by (simp_all add: monday_decisions_def buy_signals_def hold_signals_def rank_def)

lemma example_keep:
  "keep_tickers (buy_signals monday_decisions) (hold_signals monday_decisions) = {''C'', ''A''}"
  by (simp add: example_signals keep_tickers_def)

lemma floor_numeral_quotient:
  "\<lfloor>numeral a / numeral b :: rat\<rfloor> = numeral a div numeral b"
  using floor_divide_of_int_eq [of "numeral a" "numeral b", where ?'a = rat] by simp

lemmas example_defs =
  rebalance_portfolio_def holding_def run_agents_for_ticker_def example_world_def
  verdicts_def call_update_prices_def call_apply_selic_to_cash_def update_prices_def
  apply_selic_to_cash_def monday_prices_def bought_at_def buy_signals_def hold_signals_def
  rank_def keep_tickers_def allocation_def total_value_def positions_value_def
  selic_daily_def call_sell_def sell_def call_buy_def buy_def buy_shares_def held_def
  run_day_def call_check_stops_def check_stops_def check_stop_def call_record_state_def
  record_state_def exposure_def Let_def

lemma example_stops:
  "held (portfolio (call_check_stops monday (call_apply_selic_to_cash monday (35 / 100000)
      (call_update_prices monday_prices holding)))) = {''A'', ''B''}"
  "map (\<lambda>tr. (trade_ticker tr, trade_action tr, trade_reason tr))
     (trades (portfolio (call_check_stops monday (call_apply_selic_to_cash monday (35 / 100000)
      (call_update_prices monday_prices holding)))))
   = [(''D'', SELL, STOP_LOSS)]"
  by (simp_all add: example_defs)

lemma example_day:
  "case run_day (example_world verdicts) [monday] monday holding of
     Inl failure \<Rightarrow> False
   | Inr e \<Rightarrow>
       ledger_calls e =
         [Call_update_prices, Call_apply_selic_to_cash monday (35 / 100000),
          Call_check_stops monday,
          Call_update_prices, Call_apply_selic_to_cash monday (35 / 100000),
          Call_sell ''B'' 21 monday NO_SIGNAL,
          Call_buy ''C'' 30 40 monday 25 40 REBALANCE,
          Call_record_state monday] \<and>
       map (\<lambda>tr. (trade_ticker tr, trade_action tr, trade_reason tr)) (trades (portfolio e))
         = [(''D'', SELL, STOP_LOSS), (''B'', SELL, NO_SIGNAL), (''C'', BUY, REBALANCE)] \<and>
       map fst (positions (portfolio e)) = [''A'', ''C'']"
  by (simp add: example_defs floor_numeral_quotient)


lemma holding_fields:
  "price_data holding = Some \<lparr>columns = [''A'', ''B'', ''C'', ''D''],
                               rows = [(monday, monday_prices)]\<rparr>"
  "universe_tickers holding = Some [''A'', ''B'', ''C'', ''D'']"
  "price_data (call_update_prices monday_prices holding)
     = Some \<lparr>columns = [''A'', ''B'', ''C'', ''D''], rows = [(monday, monday_prices)]\<rparr>"
  "universe_tickers (call_update_prices monday_prices holding)
     = Some [''A'', ''B'', ''C'', ''D'']"
  by (simp_all add: holding_def call_update_prices_def)

section \<open>Configuration errors\<close>

lemma prepare_data_Inl:
  "prepare_data w e = Inl (err, e') \<Longrightarrow>
     portfolio e' = portfolio e \<and> ledger_calls e' = ledger_calls e"
  by (auto simp: prepare_data_def Let_def split: option.splits if_splits sum.splits)

lemma prepare_data_Inr:
  "prepare_data w e = Inr e' \<Longrightarrow>
     portfolio e' = portfolio e \<and> ledger_calls e' = ledger_calls e \<and>
     rebalance_frequency e' = rebalance_frequency e \<and> price_data e' \<noteq> None"
  by (auto simp: prepare_data_def Let_def split: option.splits if_splits sum.splits)

lemma get_rebalance_dates_invalid:
  "f \<notin> {''weekly'', ''monthly'', ''quarterly''} \<Longrightarrow>
     get_rebalance_dates f ds = Inl (ValueError_frequency f)"
  by (simp add: get_rebalance_dates_def)

text \<open>
  Claim C8. Configuration errors are raised before the main loop starts: a universe
  derived from the provider with fewer than 10 valid tickers, an empty price table, and
  a rebalance frequency that is none of \<^verbatim>\<open>'weekly'\<close>, \<^verbatim>\<open>'monthly'\<close> and
  \<^verbatim>\<open>'quarterly'\<close> each make the run end with an error, and the ledger is then as it was
  before the run: no ledger method was called and no day was recorded. With an invalid
  frequency the error is the frequency's own whenever the data could be prepared.
\<close>

theorem C8_configuration_errors:
  "(universe_tickers e = None \<and> length (get_universe w) < 10 \<longrightarrow>
      (\<exists>e'. run w e = Inl (ValueError_universe (length (get_universe w)), e') \<and>
            portfolio e' = portfolio e \<and> ledger_calls e' = ledger_calls e)) \<and>
   (universe_tickers e = Some tickers \<and> empty (get_price_data w tickers) \<longrightarrow>
      (\<exists>e'. run w e = Inl (ValueError_prices, e') \<and>
            portfolio e' = portfolio e \<and> ledger_calls e' = ledger_calls e)) \<and>
   (universe_tickers e = None \<and> 10 \<le> length (get_universe w) \<and>
    empty (get_price_data w (get_universe w)) \<longrightarrow>
      (\<exists>e'. run w e = Inl (ValueError_prices, e') \<and>
            portfolio e' = portfolio e \<and> ledger_calls e' = ledger_calls e)) \<and>
   (rebalance_frequency e \<notin> {''weekly'', ''monthly'', ''quarterly''} \<longrightarrow>
      (\<exists>err e'. run w e = Inl (err, e') \<and>
            portfolio e' = portfolio e \<and> ledger_calls e' = ledger_calls e \<and>
            ((\<exists>e1. prepare_data w e = Inr e1)
               \<longrightarrow> err = ValueError_frequency (rebalance_frequency e))))"
proof (intro conjI impI)
  assume "universe_tickers e = None \<and> length (get_universe w) < 10"
  then show "\<exists>e'. run w e = Inl (ValueError_universe (length (get_universe w)), e') \<and>
            portfolio e' = portfolio e \<and> ledger_calls e' = ledger_calls e"
    by (simp add: run_def prepare_data_def Let_def)
next
  assume "universe_tickers e = Some tickers \<and> empty (get_price_data w tickers)"
  then show "\<exists>e'. run w e = Inl (ValueError_prices, e') \<and>
            portfolio e' = portfolio e \<and> ledger_calls e' = ledger_calls e"
    by (simp add: run_def prepare_data_def Let_def)
next
  assume "universe_tickers e = None \<and> 10 \<le> length (get_universe w) \<and>
    empty (get_price_data w (get_universe w))"
  then show "\<exists>e'. run w e = Inl (ValueError_prices, e') \<and>
            portfolio e' = portfolio e \<and> ledger_calls e' = ledger_calls e"
    by (simp add: run_def prepare_data_def Let_def)
next
  assume bad: "rebalance_frequency e \<notin> {''weekly'', ''monthly'', ''quarterly''}"
  show "\<exists>err e'. run w e = Inl (err, e') \<and>
            portfolio e' = portfolio e \<and> ledger_calls e' = ledger_calls e \<and>
            ((\<exists>e1. prepare_data w e = Inr e1)
               \<longrightarrow> err = ValueError_frequency (rebalance_frequency e))"
  proof (cases "prepare_data w e")
    case (Inl failure)
    obtain err e' where f: "failure = (err, e')" by (cases failure)
    with Inl prepare_data_Inl [of w e err e'] show ?thesis
      by (simp add: run_def)
  next
    case (Inr e1)
    from prepare_data_Inr [OF Inr] obtain table where
      e1: "portfolio e1 = portfolio e" "ledger_calls e1 = ledger_calls e"
          "rebalance_frequency e1 = rebalance_frequency e" "price_data e1 = Some table"
      by auto
    from bad have "get_rebalance_dates (rebalance_frequency e) (map fst (rows table))
        = Inl (ValueError_frequency (rebalance_frequency e))"
      by (rule get_rebalance_dates_invalid)
    with Inr e1 show ?thesis
      by (simp add: run_def)
  qed
qed

theorem C8_configuration_errors_witness:
  "(universe_tickers (BacktestEngine 1000000 ''weekly'' None (1 / 1000) 2 10 True) = None \<and>
    length (get_universe ((example_world always_raises)\<lparr>validates := (\<lambda>t. t = ''VALE3.SA'')\<rparr>)) < 10 \<and>
    (\<exists>e'. run ((example_world always_raises)\<lparr>validates := (\<lambda>t. t = ''VALE3.SA'')\<rparr>)
               (BacktestEngine 1000000 ''weekly'' None (1 / 1000) 2 10 True)
             = Inl (ValueError_universe 1, e') \<and>
           portfolio e' = Portfolio 1000000 (1 / 1000) 2 10 \<and> ledger_calls e' = [])) \<and>
   (empty (get_price_data ((example_world always_raises)\<lparr>downloads := (\<lambda>t. False)\<rparr>) [''X'']) \<and>
    (\<exists>e'. run ((example_world always_raises)\<lparr>downloads := (\<lambda>t. False)\<rparr>)
               (BacktestEngine 1000000 ''weekly'' (Some [''X'']) (1 / 1000) 2 10 True)
             = Inl (ValueError_prices, e') \<and>
           portfolio e' = Portfolio 1000000 (1 / 1000) 2 10 \<and> ledger_calls e' = [])) \<and>
   (10 \<le> length (get_universe ((example_world always_raises)\<lparr>downloads := (\<lambda>t. False)\<rparr>)) \<and>
    (\<exists>e'. run ((example_world always_raises)\<lparr>downloads := (\<lambda>t. False)\<rparr>)
               (BacktestEngine 1000000 ''weekly'' None (1 / 1000) 2 10 True)
             = Inl (ValueError_prices, e') \<and>
           portfolio e' = Portfolio 1000000 (1 / 1000) 2 10 \<and> ledger_calls e' = [])) \<and>
   (''daily'' \<notin> {''weekly'', ''monthly'', ''quarterly''} \<and>
    (\<exists>e'. run (example_world always_raises)
               (BacktestEngine 1000000 ''daily'' (Some [''X'']) (1 / 1000) 2 10 True)
             = Inl (ValueError_frequency ''daily'', e') \<and>
           portfolio e' = Portfolio 1000000 (1 / 1000) 2 10 \<and> ledger_calls e' = []))"
proof -
  let ?small = "(example_world always_raises)\<lparr>validates := (\<lambda>t. t = ''VALE3.SA'')\<rparr>"
  let ?offline = "(example_world always_raises)\<lparr>downloads := (\<lambda>t. False)\<rparr>"
  let ?derived = "BacktestEngine 1000000 ''weekly'' None (1 / 1000) 2 10 True"
  let ?given = "BacktestEngine 1000000 ''weekly'' (Some [''X'']) (1 / 1000) 2 10 True"
  let ?daily = "BacktestEngine 1000000 ''daily'' (Some [''X'']) (1 / 1000) 2 10 True"
  have small: "get_universe ?small = [''VALE3.SA'']"
    by (simp add: get_universe_def LIQUID_STOCKS_B3_def example_world_def)
  have full: "length (get_universe ?offline) = 30"
    by (simp add: get_universe_def LIQUID_STOCKS_B3_def example_world_def)
  have off: "empty (get_price_data ?offline ts)" for ts
    by (simp add: get_price_data_def empty_def example_world_def)
  have fields: "universe_tickers ?derived = None" "universe_tickers ?given = Some [''X'']"
    "rebalance_frequency ?daily = ''daily''"
    "portfolio ?derived = Portfolio 1000000 (1 / 1000) 2 10" "ledger_calls ?derived = []"
    "portfolio ?given = Portfolio 1000000 (1 / 1000) 2 10" "ledger_calls ?given = []"
    "portfolio ?daily = Portfolio 1000000 (1 / 1000) 2 10" "ledger_calls ?daily = []"
    by (simp_all add: BacktestEngine_def)
  have prep: "\<exists>e1. prepare_data (example_world always_raises) ?daily = Inr e1"
    by (simp add: example_prepare)
  show ?thesis
    using C8_configuration_errors [of ?derived ?small "[]"]
      C8_configuration_errors [of ?given ?offline "[''X'']"]
      C8_configuration_errors [of ?derived ?offline "[]"]
      C8_configuration_errors [of ?daily "example_world always_raises" "[]"]
    unfolding fields small
    using full off prep by auto
qed


section \<open>The explicit universe\<close>

text \<open>
  Claim C10 as stated fails for the empty list: no download is attempted, the price
  table stays empty, and \<^verbatim>\<open>prepare_data\<close> raises the error of an empty price table.
\<close>

theorem C10_empty_universe_counterexample:
  "prepare_data (example_world always_raises)
     (BacktestEngine 1000000 ''weekly'' (Some []) (1 / 1000) 2 10 True)
   = Inl (ValueError_prices,
          (BacktestEngine 1000000 ''weekly'' (Some []) (1 / 1000) 2 10 True)
            \<lparr>price_data := Some \<lparr>columns = [], rows = []\<rparr>\<rparr>)"
  by (simp add: prepare_data_def BacktestEngine_def get_price_data_def empty_def)

text \<open>
  Claim C10, amended. When the caller passes an explicit list of tickers,
  \<^verbatim>\<open>prepare_data\<close> makes no check of the size of the universe: it never raises the
  error of a universe that is too small, at any length of the list. It still raises the
  error of an empty price table exactly when the price table downloaded for the list is
  empty, and that is always so for the empty list. With a price table that is not empty
  and a benchmark series, it succeeds and keeps the list.
\<close>

theorem C10_explicit_universe:
  assumes "universe_tickers e = Some tickers"
  shows "prepare_data w e \<noteq> Inl (ValueError_universe n, e') \<and>
    ((\<exists>e1. prepare_data w e = Inl (ValueError_prices, e1)) = empty (get_price_data w tickers)) \<and>
    (tickers = [] \<longrightarrow> empty (get_price_data w tickers)) \<and>
    (\<not> empty (get_price_data w tickers) \<and> get_cdi_data w = Inr cdi \<longrightarrow>
       prepare_data w e
         = Inr (e\<lparr>price_data := Some (get_price_data w tickers), cdi_data := Some cdi\<rparr>))"
  using assms
  by (auto simp: prepare_data_def Let_def get_price_data_def empty_def split: sum.splits)

theorem C10_explicit_universe_witness:
  "universe_tickers (BacktestEngine 10000000 ''monthly''
       (Some [''PETR4.SA'', ''VALE3.SA'', ''ITUB4.SA'', ''BBDC4.SA'', ''ABEV3.SA''])
       (1 / 1000) 3 15 True)
     = Some [''PETR4.SA'', ''VALE3.SA'', ''ITUB4.SA'', ''BBDC4.SA'', ''ABEV3.SA''] \<and>
   length [''PETR4.SA'', ''VALE3.SA'', ''ITUB4.SA'', ''BBDC4.SA'', ''ABEV3.SA''] < 10 \<and>
   \<not> empty (get_price_data (example_world always_raises)
               [''PETR4.SA'', ''VALE3.SA'', ''ITUB4.SA'', ''BBDC4.SA'', ''ABEV3.SA'']) \<and>
   prepare_data (example_world always_raises)
     (BacktestEngine 10000000 ''monthly''
       (Some [''PETR4.SA'', ''VALE3.SA'', ''ITUB4.SA'', ''BBDC4.SA'', ''ABEV3.SA''])
       (1 / 1000) 3 15 True)
     = Inr ((BacktestEngine 10000000 ''monthly''
              (Some [''PETR4.SA'', ''VALE3.SA'', ''ITUB4.SA'', ''BBDC4.SA'', ''ABEV3.SA''])
              (1 / 1000) 3 15 True)
            \<lparr>price_data := Some (get_price_data (example_world always_raises)
                 [''PETR4.SA'', ''VALE3.SA'', ''ITUB4.SA'', ''BBDC4.SA'', ''ABEV3.SA'']),
              cdi_data := Some []\<rparr>)"
proof -
  let ?five = "[''PETR4.SA'', ''VALE3.SA'', ''ITUB4.SA'', ''BBDC4.SA'', ''ABEV3.SA'']"
  let ?e = "BacktestEngine 10000000 ''monthly'' (Some ?five) (1 / 1000) 3 15 True"
  have u: "universe_tickers ?e = Some ?five"
    by (simp add: BacktestEngine_def)
  have ne: "\<not> empty (get_price_data (example_world always_raises) ?five)"
    by (simp add: get_price_data_def empty_def example_world_def)
  have cdi: "get_cdi_data (example_world always_raises) = Inr []"
    by (simp add: example_world_def)
  from C10_explicit_universe [OF u, of "example_world always_raises" 5 ?e "[]"] ne cdi u
  show ?thesis by simp
qed

section \<open>Failing and interrupted signals\<close>

lemma run_agents_absorbed:
  "run_agents_for_ticker (absorbed w) t date = run_agents_for_ticker w t date"
  by (simp add: run_agents_for_ticker_def absorbed_def
        split: pipeline_outcome.splits raised.splits)

lemma analyse_absorbed: "analyse (absorbed w) date tickers = analyse w date tickers"
  by (induction tickers) (simp_all add: run_agents_absorbed split: sum.splits option.splits)

lemma rebalance_absorbed:
  "rebalance_portfolio (absorbed w) date e = rebalance_portfolio w date e"
  unfolding rebalance_portfolio_def analyse_absorbed by (rule refl)

lemma run_day_absorbed: "run_day (absorbed w) rds date e = run_day w rds date e"
  unfolding run_day_def rebalance_absorbed by (rule refl)

lemma main_loop_absorbed: "main_loop (absorbed w) rds dates e = main_loop w rds dates e"
  by (induction dates arbitrary: e) (simp_all add: run_day_absorbed split: sum.splits)

lemma providers_absorbed:
  "get_universe (absorbed w) = get_universe w"
  "get_price_data (absorbed w) tickers = get_price_data w tickers"
  "get_cdi_data (absorbed w) = get_cdi_data w"
  by (simp_all add: absorbed_def get_universe_def get_price_data_def Let_def)

lemma prepare_data_absorbed: "prepare_data (absorbed w) e = prepare_data w e"
  unfolding prepare_data_def providers_absorbed by (rule refl)

lemma absorbed_fails: "\<not> fails (absorbed w) t date"
  by (simp add: fails_def absorbed_def split: pipeline_outcome.splits raised.splits)

lemma fails_None: "fails w t date \<Longrightarrow> run_agents_for_ticker w t date = Inr None"
  by (simp add: fails_def run_agents_for_ticker_def
        split: pipeline_outcome.splits raised.splits)

lemma interrupts_iff:
  "interrupts w t date \<longleftrightarrow>
     (\<exists>b. run_trading_pipeline w t date = Raises (BaseException b) \<and>
          run_agents_for_ticker w t date = Inl (Propagated b))"
  by (simp add: interrupts_def run_agents_for_ticker_def
        split: pipeline_outcome.splits raised.splits option.splits)

lemma interrupts_isl: "isl (run_agents_for_ticker w t date) \<longleftrightarrow> interrupts w t date"
  by (simp add: interrupts_def run_agents_for_ticker_def
        split: pipeline_outcome.splits raised.splits option.splits)

lemma analyse_skip_failing:
  "analyse w date tickers = analyse w date [t \<leftarrow> tickers. \<not> fails w t date]"
  by (induction tickers) (auto simp: fails_None split: sum.splits option.splits)

lemma analyse_isl:
  "isl (analyse w date tickers) \<longleftrightarrow> (\<exists>t \<in> set tickers. interrupts w t date)"
proof (induction tickers)
  case Nil
  show ?case by simp
next
  case (Cons t tickers)
  show ?case
  proof (cases "run_agents_for_ticker w t date")
    case (Inl err)
    then have "interrupts w t date"
      using interrupts_isl [of w t date] by simp
    with Inl show ?thesis by simp
  next
    case (Inr decision)
    then have "\<not> interrupts w t date"
      using interrupts_isl [of w t date] by simp
    with Inr Cons.IH show ?thesis
      by (cases "analyse w date tickers") simp_all
  qed
qed

lemma analyse_map_filter:
  "analyse w date tickers = Inr decisions \<Longrightarrow>
     decisions = List.map_filter
       (\<lambda>t. case run_agents_for_ticker w t date of Inl err \<Rightarrow> None | Inr decision \<Rightarrow> decision)
       tickers"
  by (induction tickers arbitrary: decisions)
     (auto simp: List.map_filter_simps split: sum.splits option.splits)

lemma analyse_first_interrupt:
  "\<forall>t \<in> set before. \<not> interrupts w t date \<Longrightarrow>
   run_trading_pipeline w t date = Raises (BaseException b) \<Longrightarrow>
   analyse w date (before @ t # after) = Inl (Propagated b)"
proof (induction before)
  case Nil
  then show ?case by (simp add: run_agents_for_ticker_def)
next
  case (Cons t0 before)
  from Cons.prems(1) have "\<not> isl (run_agents_for_ticker w t0 date)"
    by (simp add: interrupts_isl)
  then obtain decision where "run_agents_for_ticker w t0 date = Inr decision"
    by (cases "run_agents_for_ticker w t0 date") simp_all
  with Cons show ?case by simp
qed

lemma rebalance_interrupted:
  assumes "price_data e = Some table" "map_of (rows table) date = Some current_prices"
    "universe_tickers e = Some universe" "analyse w date universe = Inl failure"
  shows "rebalance_portfolio w date e =
     Inl (failure, call_apply_selic_to_cash date selic_daily
                     (call_update_prices current_prices e))"
proof -
  have "universe_tickers (call_apply_selic_to_cash date selic_daily
      (call_update_prices current_prices e)) = Some universe"
    by (simp add: assms(3) call_apply_selic_to_cash_def call_update_prices_def)
  with assms show ?thesis
    by (simp add: rebalance_portfolio_def Let_def)
qed

lemma example_analyse_interrupted:
  "analyse (example_world interrupted_at_X) date (''X'' # tickers)
     = Inl (Propagated KeyboardInterrupt)"
  by (simp add: run_agents_for_ticker_def example_world_def interrupted_at_X_def)

text \<open>
  Claim C9, as the specification states it, evaluated on a run of two days, a Monday
  and a Tuesday, with weekly rebalancing, in which the pipeline raises a
  \<^verbatim>\<open>KeyboardInterrupt\<close> for the one ticker of the universe: the exception is not
  caught inside \<^verbatim>\<open>run_agents_for_ticker\<close>, and the run ends with it during the
  rebalance of the Monday, without a snapshot.
\<close>

theorem C9_interrupt_counterexample:
  "run_agents_for_ticker (example_world interrupted_at_X) ''X'' monday
     = Inl (Propagated KeyboardInterrupt) \<and>
   (case run (example_world interrupted_at_X)
           (BacktestEngine 1000000 ''weekly'' (Some [''X'']) (1 / 1000) 2 10 True) of
      Inl (err, e) \<Rightarrow>
        err = Propagated KeyboardInterrupt \<and>
        history (portfolio e) = [] \<and>
        ledger_calls e =
          [Call_update_prices, Call_apply_selic_to_cash monday (35 / 100000),
           Call_check_stops monday,
           Call_update_prices, Call_apply_selic_to_cash monday (35 / 100000)]
    | Inr e \<Rightarrow> False)"
proof
  show "run_agents_for_ticker (example_world interrupted_at_X) ''X'' monday
     = Inl (Propagated KeyboardInterrupt)"
    by (simp add: run_agents_for_ticker_def example_world_def interrupted_at_X_def)
next
  show "case run (example_world interrupted_at_X)
           (BacktestEngine 1000000 ''weekly'' (Some [''X'']) (1 / 1000) 2 10 True) of
      Inl (err, e) \<Rightarrow>
        err = Propagated KeyboardInterrupt \<and>
        history (portfolio e) = [] \<and>
        ledger_calls e =
          [Call_update_prices, Call_apply_selic_to_cash monday (35 / 100000),
           Call_check_stops monday,
           Call_update_prices, Call_apply_selic_to_cash monday (35 / 100000)]
    | Inr e \<Rightarrow> False"
    unfolding run_def example_prepare
    by (simp add: get_rebalance_dates_def example_days run_day_def
          rebalance_portfolio_def example_analyse_interrupted BacktestEngine_def Portfolio_def
          call_update_prices_def call_apply_selic_to_cash_def call_check_stops_def
          update_prices_def apply_selic_to_cash_def check_stops_def
          selic_daily_def Let_def del: analyse.simps)
qed

text \<open>
  Claim C9, amended. A call of the pipeline that raises an exception of class
  \<^verbatim>\<open>Exception\<close> makes \<^verbatim>\<open>run_agents_for_ticker\<close> return \<^verbatim>\<open>None\<close>, and an
  exception leaves \<^verbatim>\<open>run_agents_for_ticker\<close> exactly when the pipeline raises one that
  is not of that class (\<^verbatim>\<open>KeyboardInterrupt\<close>, \<^verbatim>\<open>SystemExit\<close>). The analysis of a
  rebalance date is the analysis of the tickers whose call does not fail: a failing
  ticker is left out and the others are analysed as without it. The analysis is left by
  an exception exactly when some call interrupts; when it returns, the decisions are the
  results of the tickers, one by one, that are not \<^verbatim>\<open>None\<close>. No failure of class
  \<^verbatim>\<open>Exception\<close> aborts a rebalance or the run: they go on as in the world in which each
  failing call returns a state without a decision, a world in which no call fails. An
  interrupt in the universe aborts the rebalance, after its price update and its
  accrual, with the exception of the first ticker that interrupts.
\<close>

theorem C9_signal_failures:
  "(fails w t date \<longrightarrow> run_agents_for_ticker w t date = Inr None) \<and>
   (isl (run_agents_for_ticker w t date) \<longleftrightarrow> interrupts w t date) \<and>
   analyse w date tickers = analyse w date [t \<leftarrow> tickers. \<not> fails w t date] \<and>
   (isl (analyse w date tickers) \<longleftrightarrow> (\<exists>t \<in> set tickers. interrupts w t date)) \<and>
   (\<forall>decisions. analyse w date tickers = Inr decisions \<longrightarrow>
      decisions = List.map_filter
        (\<lambda>t. case run_agents_for_ticker w t date of Inl err \<Rightarrow> None | Inr decision \<Rightarrow> decision)
        tickers) \<and>
   rebalance_portfolio (absorbed w) date e = rebalance_portfolio w date e \<and>
   run (absorbed w) e = run w e \<and>
   \<not> fails (absorbed w) t date \<and>
   (\<forall>table current_prices before after b.
      price_data e = Some table \<and> map_of (rows table) date = Some current_prices \<and>
      universe_tickers e = Some (before @ t # after) \<and>
      (\<forall>t' \<in> set before. \<not> interrupts w t' date) \<and>
      run_trading_pipeline w t date = Raises (BaseException b) \<longrightarrow>
      rebalance_portfolio w date e =
        Inl (Propagated b, call_apply_selic_to_cash date selic_daily
                             (call_update_prices current_prices e)))"
proof (intro conjI impI allI)
  show "run (absorbed w) e = run w e"
    unfolding run_def prepare_data_absorbed main_loop_absorbed by (rule refl)
next
  show "analyse w date tickers = analyse w date [t \<leftarrow> tickers. \<not> fails w t date]"
    by (rule analyse_skip_failing)
next
  show "isl (run_agents_for_ticker w t date) = interrupts w t date"
    by (rule interrupts_isl)
next
  show "isl (analyse w date tickers) = (\<exists>t \<in> set tickers. interrupts w t date)"
    by (rule analyse_isl)
next
  fix decisions
  assume "analyse w date tickers = Inr decisions"
  then show "decisions = List.map_filter
        (\<lambda>t. case run_agents_for_ticker w t date of Inl err \<Rightarrow> None | Inr decision \<Rightarrow> decision)
        tickers"
    by (rule analyse_map_filter)
next
  fix table current_prices before after b
  assume h: "price_data e = Some table \<and> map_of (rows table) date = Some current_prices \<and>
      universe_tickers e = Some (before @ t # after) \<and>
      (\<forall>t' \<in> set before. \<not> interrupts w t' date) \<and>
      run_trading_pipeline w t date = Raises (BaseException b)"
  then have "analyse w date (before @ t # after) = Inl (Propagated b)"
    by (intro analyse_first_interrupt) simp_all
  with h show "rebalance_portfolio w date e =
        Inl (Propagated b, call_apply_selic_to_cash date selic_daily
                             (call_update_prices current_prices e))"
    by (intro rebalance_interrupted [where table = table and universe = "before @ t # after"])
       simp_all
qed (simp_all add: fails_None rebalance_absorbed absorbed_fails)

theorem C9_signal_failures_witness:
  "fails (example_world fails_for_X) ''X'' monday \<and>
   run_agents_for_ticker (example_world fails_for_X) ''X'' monday = Inr None \<and>
   \<not> interrupts (example_world fails_for_X) ''X'' monday \<and>
   analyse (example_world fails_for_X) monday [''X'', ''Y'']
     = analyse (example_world fails_for_X) monday [''Y''] \<and>
   analyse (example_world fails_for_X) monday [''X'', ''Y'']
     = Inr [\<lparr>ticker = ''Y'', verdict = Verdict_BUY, position_size = 5,
             confidence = Some (8 / 10), stop_loss = 45, take_profit = 60,
             analyst_score = Some 80\<rparr>] \<and>
   List.map_filter
     (\<lambda>t. case run_agents_for_ticker (example_world fails_for_X) t monday of
             Inl err \<Rightarrow> None | Inr decision \<Rightarrow> decision) [''X'', ''Y'']
     = [\<lparr>ticker = ''Y'', verdict = Verdict_BUY, position_size = 5,
         confidence = Some (8 / 10), stop_loss = 45, take_profit = 60,
         analyst_score = Some 80\<rparr>] \<and>
   price_data (holding\<lparr>universe_tickers := Some [''Y'', ''X'']\<rparr>)
     = Some \<lparr>columns = [''A'', ''B'', ''C'', ''D''], rows = [(monday, monday_prices)]\<rparr> \<and>
   map_of (rows \<lparr>columns = [''A'', ''B'', ''C'', ''D''], rows = [(monday, monday_prices)]\<rparr>)
     monday = Some monday_prices \<and>
   universe_tickers (holding\<lparr>universe_tickers := Some [''Y'', ''X'']\<rparr>)
     = Some ([''Y''] @ ''X'' # []) \<and>
   \<not> interrupts (example_world interrupted_at_X) ''Y'' monday \<and>
   run_trading_pipeline (example_world interrupted_at_X) ''X'' monday
     = Raises (BaseException KeyboardInterrupt) \<and>
   interrupts (example_world interrupted_at_X) ''X'' monday \<and>
   isl (run_agents_for_ticker (example_world interrupted_at_X) ''X'' monday) \<and>
   rebalance_portfolio (example_world interrupted_at_X) monday
       (holding\<lparr>universe_tickers := Some [''Y'', ''X'']\<rparr>)
     = Inl (Propagated KeyboardInterrupt,
            call_apply_selic_to_cash monday selic_daily
              (call_update_prices monday_prices
                 (holding\<lparr>universe_tickers := Some [''Y'', ''X'']\<rparr>)))"
proof -
  let ?e = "holding\<lparr>universe_tickers := Some [''Y'', ''X'']\<rparr>"
  let ?table = "\<lparr>columns = [''A'', ''B'', ''C'', ''D''], rows = [(monday, monday_prices)]\<rparr>"
  have pd: "price_data ?e = Some ?table"
    by (simp add: holding_def)
  have row: "map_of (rows ?table) monday = Some monday_prices"
    by simp
  have un: "universe_tickers ?e = Some ([''Y''] @ ''X'' # [])"
    by simp
  have ni: "\<not> interrupts (example_world interrupted_at_X) ''Y'' monday"
    by (simp add: interrupts_def example_world_def interrupted_at_X_def fails_for_X_def)
  have ri: "run_trading_pipeline (example_world interrupted_at_X) ''X'' monday
     = Raises (BaseException KeyboardInterrupt)"
    by (simp add: example_world_def interrupted_at_X_def)
  have ii: "interrupts (example_world interrupted_at_X) ''X'' monday"
    by (simp add: interrupts_def ri)
  note c9i = C9_signal_failures [of "example_world interrupted_at_X" "''X''" monday "[]" ?e]
  from c9i ii have il: "isl (run_agents_for_ticker (example_world interrupted_at_X) ''X'' monday)"
    by blast
  from ni have nb: "\<forall>t' \<in> set [''Y'']. \<not> interrupts (example_world interrupted_at_X) t' monday"
    by simp
  note last = c9i [THEN conjunct2, THEN conjunct2, THEN conjunct2, THEN conjunct2,
      THEN conjunct2, THEN conjunct2, THEN conjunct2, THEN conjunct2]
  from last [rule_format, OF conjI [OF pd conjI [OF row conjI [OF un conjI [OF nb ri]]]]]
  have ab: "rebalance_portfolio (example_world interrupted_at_X) monday ?e
     = Inl (Propagated KeyboardInterrupt,
            call_apply_selic_to_cash monday selic_daily (call_update_prices monday_prices ?e))" .
  have f: "fails (example_world fails_for_X) ''X'' monday"
    "\<not> fails (example_world fails_for_X) ''Y'' monday"
    by (simp_all add: fails_def example_world_def fails_for_X_def)
  have i: "\<not> interrupts (example_world fails_for_X) ''X'' monday"
    by (simp add: interrupts_def example_world_def fails_for_X_def)
  have y: "analyse (example_world fails_for_X) monday [''Y'']
     = Inr [\<lparr>ticker = ''Y'', verdict = Verdict_BUY, position_size = 5,
             confidence = Some (8 / 10), stop_loss = 45, take_profit = 60,
             analyst_score = Some 80\<rparr>]"
    by (simp add: run_agents_for_ticker_def example_world_def fails_for_X_def)
  note c9 = C9_signal_failures [of "example_world fails_for_X" "''X''" monday "[''X'', ''Y'']"]
  have n: "run_agents_for_ticker (example_world fails_for_X) ''X'' monday = Inr None"
    using c9 f by blast
  have "analyse (example_world fails_for_X) monday [''X'', ''Y'']
      = analyse (example_world fails_for_X) monday
          [t \<leftarrow> [''X'', ''Y'']. \<not> fails (example_world fails_for_X) t monday]"
    using c9 by blast
  also have "[t \<leftarrow> [''X'', ''Y'']. \<not> fails (example_world fails_for_X) t monday] = [''Y'']"
    using f by simp
  finally have sk: "analyse (example_world fails_for_X) monday [''X'', ''Y'']
      = analyse (example_world fails_for_X) monday [''Y'']" .
  have all: "analyse (example_world fails_for_X) monday [''X'', ''Y'']
     = Inr [\<lparr>ticker = ''Y'', verdict = Verdict_BUY, position_size = 5,
             confidence = Some (8 / 10), stop_loss = 45, take_profit = 60,
             analyst_score = Some 80\<rparr>]"
    using sk y by (simp del: analyse.simps)
  from c9 have "\<forall>decisions. analyse (example_world fails_for_X) monday [''X'', ''Y'']
        = Inr decisions \<longrightarrow>
      decisions = List.map_filter
        (\<lambda>t. case run_agents_for_ticker (example_world fails_for_X) t monday of
                Inl err \<Rightarrow> None | Inr decision \<Rightarrow> decision) [''X'', ''Y'']"
    by (rule conjunct2 [THEN conjunct2, THEN conjunct2, THEN conjunct2, THEN conjunct1])
  with all have mf: "List.map_filter
     (\<lambda>t. case run_agents_for_ticker (example_world fails_for_X) t monday of
             Inl err \<Rightarrow> None | Inr decision \<Rightarrow> decision) [''X'', ''Y'']
     = [\<lparr>ticker = ''Y'', verdict = Verdict_BUY, position_size = 5,
         confidence = Some (8 / 10), stop_loss = 45, take_profit = 60,
         analyst_score = Some 80\<rparr>]"
    by (simp del: analyse.simps)
  show ?thesis
    by (intro conjI f(1) n i sk all mf pd row un ni ri ii il ab)
qed

section \<open>The daily accrual\<close>

text \<open>
  Claim C1, evaluated on a run of two days, a Monday and a Tuesday, with weekly
  rebalancing and no signal, so that no trade takes place. On the Monday, a rebalance
  date, the engine calls the accrual twice, once in the main loop and once in
  \<^verbatim>\<open>rebalance_portfolio\<close>, and the cash recorded that day is the initial capital with
  the daily rate applied twice; on the Tuesday it is called once.
\<close>

theorem C1_accrual_twice_on_rebalance_day:
  "case run (example_world always_raises)
          (BacktestEngine 1000000 ''weekly'' (Some [''X'']) (1 / 1000) 2 10 True) of
     Inl failure \<Rightarrow> False
   | Inr e \<Rightarrow>
        map (\<lambda>s. (snap_date s, snap_cash s)) (history (portfolio e)) =
          [(monday, 1000000 * (1 + 35 / 100000) * (1 + 35 / 100000)),
           (tuesday, 1000000 * (1 + 35 / 100000) * (1 + 35 / 100000) * (1 + 35 / 100000))] \<and>
        trades (portfolio e) = [] \<and>
        ledger_calls e =
          [Call_update_prices, Call_apply_selic_to_cash monday (35 / 100000),
           Call_check_stops monday,
           Call_update_prices, Call_apply_selic_to_cash monday (35 / 100000),
           Call_record_state monday,
           Call_update_prices, Call_apply_selic_to_cash tuesday (35 / 100000),
           Call_check_stops tuesday, Call_record_state tuesday]"
  unfolding run_def example_prepare
  by (simp add: get_rebalance_dates_def example_days run_day_def
        rebalance_portfolio_def example_analyse_raises BacktestEngine_def Portfolio_def
        call_update_prices_def call_apply_selic_to_cash_def call_check_stops_def
        call_record_state_def update_prices_def apply_selic_to_cash_def check_stops_def
        record_state_def buy_signals_def hold_signals_def rank_def allocation_def
        keep_tickers_def total_value_def positions_value_def exposure_def selic_daily_def
        Let_def del: analyse.simps)


section \<open>What a sale and a purchase do to the ledger\<close>

lemma held_map_of: "t \<in> held p \<longleftrightarrow> map_of (positions p) t \<noteq> None"
  by (simp add: held_def map_of_eq_None_iff)

lemma sell_None: "fst (sell t price date why p) = None \<Longrightarrow> snd (sell t price date why p) = p"
  by (simp add: sell_def Let_def split: option.splits if_splits)

lemma sell_None_iff:
  "fst (sell t price date why p) = None \<longleftrightarrow> t \<notin> held p \<or> price \<le> 0"
  by (simp add: sell_def Let_def held_map_of split: option.splits)

lemma sell_Some:
  assumes "fst (sell t price date why p) = Some tr"
  shows "trade_ticker tr = t" "trade_action tr = SELL" "trade_reason tr = why"
    "trade_price tr = price" "trade_date tr = date"
    "map_option shares (map_of (positions p) t) = Some (trade_shares tr)"
    "positions (snd (sell t price date why p)) = filter (\<lambda>(k, pos). k \<noteq> t) (positions p)"
    "trades (snd (sell t price date why p)) = trades p @ [tr]"
  using assms by (simp_all add: sell_def Let_def split: option.splits if_splits) auto

lemma buy_None:
  "fst (buy t price pct date sl tp why p) = None \<Longrightarrow> snd (buy t price pct date sl tp why p) = p"
  by (cases "t \<in> held p \<or> price \<le> 0 \<or> buy_shares price pct p < 1 \<or>
            cash p < of_int (buy_shares price pct p) * price * (1 + commission_pct p)")
     (simp_all add: buy_def Let_def)

lemma buy_Some:
  assumes "fst (buy t price pct date sl tp why p) = Some tr"
  shows "trade_ticker tr = t" "trade_action tr = BUY" "trade_reason tr = why"
    "trade_price tr = price" "trade_date tr = date" "t \<notin> held p"
    "\<exists>pos. positions (snd (buy t price pct date sl tp why p)) = positions p @ [(t, pos)]"
    "trades (snd (buy t price pct date sl tp why p)) = trades p @ [tr]"
  using assms
  by (cases "t \<in> held p \<or> price \<le> 0 \<or> buy_shares price pct p < 1 \<or>
            cash p < of_int (buy_shares price pct p) * price * (1 + commission_pct p)";
      auto simp: buy_def Let_def)+

lemma map_of_filter_other:
  "k \<noteq> t \<Longrightarrow> map_of (filter (\<lambda>(k', v). k' \<noteq> t) ps) k = map_of ps k"
  by (induction ps) auto

lemma map_of_filter_same: "map_of (filter (\<lambda>(k', v). k' \<noteq> t) ps) t = None"
  by (induction ps) auto

lemma map_of_update_prices:
  "map_of (positions (update_prices prices p)) t =
     map_option (\<lambda>pos. case prices t of None \<Rightarrow> pos | Some price \<Rightarrow> pos\<lparr>current_price := price\<rparr>)
       (map_of (positions p) t)"
proof -
  have "map_of (map (\<lambda>(t, pos). (t, case prices t of None \<Rightarrow> pos
                                | Some price \<Rightarrow> pos\<lparr>current_price := price\<rparr>)) ps) t =
     map_option (\<lambda>pos. case prices t of None \<Rightarrow> pos | Some price \<Rightarrow> pos\<lparr>current_price := price\<rparr>)
       (map_of ps t)" for ps
    by (induction ps) (auto split: option.splits)
  then show ?thesis by (simp add: update_prices_def)
qed

lemma keys_update_prices:
  "map fst (positions (update_prices prices p)) = map fst (positions p)"
  by (simp add: update_prices_def comp_def case_prod_beta)

lemma held_update_prices: "held (update_prices prices p) = held p"
  unfolding held_def set_map [symmetric] keys_update_prices ..


section \<open>Stops\<close>

lemma check_stop_sells:
  "check_stop date t p = p \<or>
   (\<exists>tr why. fst (sell t (the (map_option current_price (map_of (positions p) t))) date why p) = Some tr \<and>
      (why = STOP_LOSS \<or> why = TAKE_PROFIT) \<and>
      check_stop date t p = snd (sell t (the (map_option current_price (map_of (positions p) t))) date why p))"
proof (cases "map_of (positions p) t")
  case None
  then show ?thesis by (simp add: check_stop_def)
next
  case (Some pos)
  have *: "snd (sell t (current_price pos) date why p) = p \<or>
      (\<exists>tr. fst (sell t (current_price pos) date why p) = Some tr)" for why
    using sell_None [of t "current_price pos" date why p]
    by (cases "fst (sell t (current_price pos) date why p)") auto
  from Some *[of STOP_LOSS] *[of TAKE_PROFIT] show ?thesis
    by (auto simp: check_stop_def)
qed

lemma check_stop_effect:
  "held (check_stop date t p) \<subseteq> held p \<and>
   (\<exists>new. trades (check_stop date t p) = trades p @ new \<and>
      (\<forall>tr \<in> set new. trade_action tr = SELL \<and> trade_date tr = date \<and>
          (trade_reason tr = STOP_LOSS \<or> trade_reason tr = TAKE_PROFIT) \<and>
          trade_ticker tr \<in> held p \<and> trade_ticker tr \<notin> held (check_stop date t p)))"
proof -
  let ?price = "the (map_option current_price (map_of (positions p) t))"
  from check_stop_sells [of date t p] consider
    (same) "check_stop date t p = p"
    | (sold) tr why where "fst (sell t ?price date why p) = Some tr"
        "why = STOP_LOSS \<or> why = TAKE_PROFIT"
        "check_stop date t p = snd (sell t ?price date why p)"
    by blast
  then show ?thesis
  proof cases
    case same
    then show ?thesis by simp
  next
    case sold
    from sell_Some [OF sold(1)] have
      tr: "trade_ticker tr = t" "trade_action tr = SELL" "trade_reason tr = why"
        "trade_date tr = date"
      and pos: "positions (snd (sell t ?price date why p))
                  = filter (\<lambda>(k, pos). k \<noteq> t) (positions p)"
      and trs: "trades (snd (sell t ?price date why p)) = trades p @ [tr]"
      by simp_all
    from sold(1) have h: "t \<in> held p"
      using sell_None_iff [of t ?price date why p] by auto
    from pos have h': "held (snd (sell t ?price date why p)) = held p - {t}"
      by (auto simp: held_def)
    from tr h h' trs sold(2) show ?thesis
      unfolding sold(3) by auto
  qed
qed

lemma fold_check_stop_effect:
  "held (fold (check_stop date) ts p) \<subseteq> held p \<and>
   (\<exists>new. trades (fold (check_stop date) ts p) = trades p @ new \<and>
      (\<forall>tr \<in> set new. trade_action tr = SELL \<and> trade_date tr = date \<and>
          (trade_reason tr = STOP_LOSS \<or> trade_reason tr = TAKE_PROFIT) \<and>
          trade_ticker tr \<in> held p \<and>
          trade_ticker tr \<notin> held (fold (check_stop date) ts p)))"
proof (induction ts arbitrary: p)
  case Nil
  show ?case by simp
next
  case (Cons t ts)
  let ?p1 = "check_stop date t p"
  let ?p2 = "fold (check_stop date) ts ?p1"
  from check_stop_effect [of date t p] obtain new1 where
    h1: "held ?p1 \<subseteq> held p" and t1: "trades ?p1 = trades p @ new1"
    and n1: "\<forall>tr \<in> set new1. trade_action tr = SELL \<and> trade_date tr = date \<and>
          (trade_reason tr = STOP_LOSS \<or> trade_reason tr = TAKE_PROFIT) \<and>
          trade_ticker tr \<in> held p \<and> trade_ticker tr \<notin> held ?p1"
    by blast
  from Cons.IH [of ?p1] obtain new2 where
    h2: "held ?p2 \<subseteq> held ?p1" and t2: "trades ?p2 = trades ?p1 @ new2"
    and n2: "\<forall>tr \<in> set new2. trade_action tr = SELL \<and> trade_date tr = date \<and>
          (trade_reason tr = STOP_LOSS \<or> trade_reason tr = TAKE_PROFIT) \<and>
          trade_ticker tr \<in> held ?p1 \<and> trade_ticker tr \<notin> held ?p2"
    by blast
  have "trades ?p2 = trades p @ (new1 @ new2)"
    by (simp add: t1 t2)
  moreover have "\<forall>tr \<in> set (new1 @ new2). trade_action tr = SELL \<and> trade_date tr = date \<and>
          (trade_reason tr = STOP_LOSS \<or> trade_reason tr = TAKE_PROFIT) \<and>
          trade_ticker tr \<in> held p \<and> trade_ticker tr \<notin> held ?p2"
    using n1 n2 h1 h2 by auto
  moreover have "held ?p2 \<subseteq> held p"
    using h1 h2 by blast
  ultimately show ?case
    by (simp only: fold_simps) blast
qed

lemma check_stops_effect:
  "held (check_stops date p) \<subseteq> held p \<and>
   (\<exists>new. trades (check_stops date p) = trades p @ new \<and>
      (\<forall>tr \<in> set new. trade_action tr = SELL \<and> trade_date tr = date \<and>
          (trade_reason tr = STOP_LOSS \<or> trade_reason tr = TAKE_PROFIT) \<and>
          trade_ticker tr \<in> held p \<and> trade_ticker tr \<notin> held (check_stops date p)))"
  unfolding check_stops_def by (rule fold_check_stop_effect)


section \<open>The loops of a rebalance\<close>

lemma call_sell_simps:
  "fst (call_sell t price date why e) = fst (sell t price date why (portfolio e))"
  "portfolio (snd (call_sell t price date why e)) = snd (sell t price date why (portfolio e))"
  "ledger_calls (snd (call_sell t price date why e))
     = ledger_calls e @ [Call_sell t price date why]"
  by (simp_all add: call_sell_def split_beta)

lemma call_buy_simps:
  "fst (call_buy t price pct date sl tp why e) = fst (buy t price pct date sl tp why (portfolio e))"
  "portfolio (snd (call_buy t price pct date sl tp why e))
     = snd (buy t price pct date sl tp why (portfolio e))"
  "ledger_calls (snd (call_buy t price pct date sl tp why e))
     = ledger_calls e @ [Call_buy t price pct date sl tp why]"
  by (simp_all add: call_buy_def split_beta)

lemma sell_loop_induct [consumes 1, case_names sell]:
  assumes "Q e"
    and "\<And>t price e. Q e \<Longrightarrow> t \<in> set ts \<Longrightarrow> current_prices t = Some price \<Longrightarrow>
           Q (snd (call_sell t price date NO_SIGNAL e))"
  shows "Q (sell_loop current_prices date ts e)"
  using assms
proof (induction ts arbitrary: e)
  case Nil
  then show ?case by simp
next
  case (Cons t ts)
  show ?case
  proof (cases "current_prices t")
    case None
    with Cons show ?thesis by simp
  next
    case (Some price)
    from Cons.prems have "Q (snd (call_sell t price date NO_SIGNAL e))"
      using Some by simp
    then have "Q (sell_loop current_prices date ts (snd (call_sell t price date NO_SIGNAL e)))"
      using Cons.prems(2) by (intro Cons.IH) simp_all
    with Some show ?thesis by simp
  qed
qed

lemma buy_loop_induct [consumes 1, case_names buy]:
  assumes "Q e"
    and "\<And>s price e. Q e \<Longrightarrow> s \<in> set signals \<Longrightarrow> current_prices (ticker s) = Some price \<Longrightarrow>
           ticker s \<notin> held (portfolio e) \<Longrightarrow>
           Q (snd (call_buy (ticker s) price pct date (stop_loss s) (take_profit s) why e))"
  shows "Q (outcome (buy_loop current_prices date pct why signals e))"
  using assms
proof (induction signals arbitrary: e)
  case Nil
  then show ?case by (simp add: outcome_def)
next
  case (Cons s signals)
  have skip: "Q (outcome (buy_loop current_prices date pct why signals e))"
    using Cons.prems by (intro Cons.IH) simp_all
  show ?case
  proof (cases "current_prices (ticker s)")
    case None
    with skip show ?thesis by simp
  next
    case (Some price)
    show ?thesis
    proof (cases "ticker s \<in> held (portfolio e)")
      case True
      with Some skip show ?thesis by simp
    next
      case False
      let ?r = "call_buy (ticker s) price pct date (stop_loss s) (take_profit s) why e"
      from Cons.prems Some False have q: "Q (snd ?r)" by simp
      then have "Q (outcome (buy_loop current_prices date pct why signals (snd ?r)))"
        using Cons.prems(2) by (intro Cons.IH) simp_all
      with q Some False show ?thesis
        by (simp add: split_beta outcome_def)
    qed
  qed
qed

lemma sell_loop_calls:
  "ledger_calls (sell_loop current_prices date ts e) =
     ledger_calls e @
     List.map_filter (\<lambda>t. map_option (\<lambda>price. Call_sell t price date NO_SIGNAL) (current_prices t)) ts"
  by (induction ts arbitrary: e)
     (auto simp: call_sell_simps List.map_filter_simps split: option.splits)


lemma outcome_simps [simp]: "outcome (Inr e) = e" "outcome (Inl (err, e)) = e"
  by (simp_all add: outcome_def)

lemma prepared_portfolio:
  "portfolio (call_apply_selic_to_cash date rate (call_update_prices current_prices e))
     = apply_selic_to_cash date rate (update_prices current_prices (portfolio e))"
  "ledger_calls (call_apply_selic_to_cash date rate (call_update_prices current_prices e))
     = ledger_calls e @ [Call_update_prices, Call_apply_selic_to_cash date rate]"
  by (simp_all add: call_apply_selic_to_cash_def call_update_prices_def)

lemma prepared_ledger:
  "positions (apply_selic_to_cash date rate (update_prices current_prices p))
     = positions (update_prices current_prices p)"
  "trades (apply_selic_to_cash date rate (update_prices current_prices p)) = trades p"
  "held (apply_selic_to_cash date rate (update_prices current_prices p)) = held p"
  by (simp_all add: apply_selic_to_cash_def update_prices_def held_def image_image case_prod_beta)

lemma in_set_map_filter:
  "c \<in> set (List.map_filter f xs) \<longleftrightarrow> (\<exists>x \<in> set xs. f x = Some c)"
  by (induction xs) (auto split: option.splits)

lemma rebalance_induct [consumes 4, case_names sold bought recorded]:
  assumes pd: "price_data e = Some table"
    and row: "map_of (rows table) date = Some current_prices"
    and un: "universe_tickers e = Some universe"
    and an: "analyse w date universe = Inr decisions"
    and sells: "Q (sell_loop current_prices date
        [t \<leftarrow> map fst (positions (portfolio
               (call_apply_selic_to_cash date selic_daily (call_update_prices current_prices e)))).
           t \<notin> keep_tickers (buy_signals decisions)
                  (hold_signals decisions)]
        (call_apply_selic_to_cash date selic_daily (call_update_prices current_prices e)))"
    and buys: "\<And>pct why signals e'. Q e' \<Longrightarrow>
        ticker ` set signals \<subseteq> keep_tickers (buy_signals decisions)
                  (hold_signals decisions) \<Longrightarrow>
        why = REBALANCE \<and>
        pct = total_value (apply_selic_to_cash date selic_daily
                 (update_prices current_prices (portfolio e))) *
              fst (allocation (length (buy_signals decisions))) /
              of_nat (min 15 (max 1 (length (buy_signals decisions)))) /
              total_value (apply_selic_to_cash date selic_daily
                 (update_prices current_prices (portfolio e))) * 100 \<or>
        why = HOLD_EXPOSURE \<and>
        pct = total_value (apply_selic_to_cash date selic_daily
                 (update_prices current_prices (portfolio e))) *
              fst (snd (allocation (length (buy_signals decisions)))) /
              of_nat (min 20 (max 1 (length (hold_signals decisions)))) /
              total_value (apply_selic_to_cash date selic_daily
                 (update_prices current_prices (portfolio e))) * 100 \<Longrightarrow>
        Q (outcome (buy_loop current_prices date pct why signals e'))"
    and fin: "\<And>e' ds rd. Q e' \<Longrightarrow> Q (e'\<lparr>decisions_history := ds, rebalance_dates := rd\<rparr>)"
  shows "Q (outcome (rebalance_portfolio w date e))"
proof -
  let ?e2 = "call_apply_selic_to_cash date selic_daily (call_update_prices current_prices e)"
  let ?decisions = "decisions"
  let ?buys = "buy_signals ?decisions"
  let ?holds = "hold_signals ?decisions"
  let ?keep = "keep_tickers ?buys ?holds"
  let ?e3 = "sell_loop current_prices date
        [t \<leftarrow> map fst (positions (portfolio ?e2)). t \<notin> ?keep] ?e2"
  let ?total = "total_value (portfolio ?e2)"
  have ue2: "universe_tickers ?e2 = Some universe"
    by (simp add: un call_apply_selic_to_cash_def call_update_prices_def)
  obtain ba ha ct where al: "allocation (length ?buys) = (ba, ha, ct)"
    by (cases "allocation (length ?buys)") auto
  have k1: "ticker ` set (take 15 ?buys) \<subseteq> ?keep" and k2: "ticker ` set (take 20 ?holds) \<subseteq> ?keep"
    by (auto simp: keep_tickers_def)
  let ?pct1 = "?total * ba / rat_of_nat (min 15 (max 1 (length ?buys))) / ?total * 100"
  let ?pct2 = "?total * ha / rat_of_nat (min 20 (max 1 (length ?holds))) / ?total * 100"
  let ?r1 = "buy_loop current_prices date ?pct1 REBALANCE (take 15 ?buys) ?e3"
  have q1: "Q (outcome ?r1)"
    by (rule buys [OF sells k1]) (simp add: al prepared_portfolio)
  show ?thesis
  proof (cases "?total = 0")
    case True
    then have "rebalance_portfolio w date e = Inl (ZeroDivisionError, ?e3)"
      by (simp add: rebalance_portfolio_def pd row ue2 an al Let_def)
    with sells show ?thesis by simp
  next
    case False
    show ?thesis
    proof (cases ?r1)
      case (Inl failure)
      with False have "rebalance_portfolio w date e = ?r1"
        by (simp add: rebalance_portfolio_def pd row ue2 an al Let_def)
      with q1 show ?thesis by simp
    next
      case (Inr e4)
      with q1 have q4: "Q e4" by simp
      let ?r2 = "buy_loop current_prices date ?pct2 HOLD_EXPOSURE (take 20 ?holds) e4"
      have q2: "Q (outcome ?r2)"
        by (rule buys [OF q4 k2]) (simp add: al prepared_portfolio)
      show ?thesis
      proof (cases ?r2)
        case (Inl failure)
        with False Inr have "rebalance_portfolio w date e = ?r2"
          by (simp add: rebalance_portfolio_def pd row ue2 an al Let_def)
        with q2 show ?thesis by simp
      next
        case e5: (Inr e5)
        with False Inr have "rebalance_portfolio w date e =
            Inr (e5\<lparr>decisions_history := decisions_history e5 @ ?decisions,
                    rebalance_dates := rebalance_dates e5 @ [date]\<rparr>)"
          by (simp add: rebalance_portfolio_def pd row ue2 an al Let_def)
        moreover from q2 e5 have "Q e5" by simp
        ultimately show ?thesis by (simp add: fin)
      qed
    qed
  qed
qed


lemma transitions_only_refl: "transitions_only keep p p"
  by (simp add: transitions_only_def)

lemma transitions_only_sell:
  assumes inv: "transitions_only keep p0 p" and t: "t \<in> held p0 - keep"
  shows "transitions_only keep p0 (snd (sell t price date why p))"
proof (cases "fst (sell t price date why p)")
  case None
  with inv show ?thesis by (simp add: sell_None)
next
  case (Some tr)
  note s = sell_Some [OF Some]
  from inv obtain new where
    kept: "\<forall>t \<in> held p0 \<inter> keep. map_of (positions p) t = map_of (positions p0) t"
    and other: "\<forall>t \<in> - keep. t \<in> held p \<longrightarrow> t \<in> held p0"
    and new: "trades p = trades p0 @ new"
      "\<forall>tr \<in> set new. trade_action tr = SELL \<and> trade_ticker tr \<in> held p0 - keep \<or>
                         trade_action tr = BUY \<and> trade_ticker tr \<in> keep - held p0"
    unfolding transitions_only_def by blast
  have "\<forall>t' \<in> held p0 \<inter> keep. map_of (positions (snd (sell t price date why p))) t'
          = map_of (positions p0) t'"
  proof
    fix t' assume t': "t' \<in> held p0 \<inter> keep"
    with t have "t' \<noteq> t" by auto
    with kept t' show "map_of (positions (snd (sell t price date why p))) t'
          = map_of (positions p0) t'"
      by (simp add: s(7) map_of_filter_other)
  qed
  moreover have "\<forall>t' \<in> - keep. t' \<in> held (snd (sell t price date why p)) \<longrightarrow> t' \<in> held p0"
    using other by (auto simp: s(7) held_def)
  moreover have "trades (snd (sell t price date why p)) = trades p0 @ (new @ [tr])"
    by (simp add: s(8) new(1))
  moreover have "\<forall>tr \<in> set (new @ [tr]).
      trade_action tr = SELL \<and> trade_ticker tr \<in> held p0 - keep \<or>
      trade_action tr = BUY \<and> trade_ticker tr \<in> keep - held p0"
    using new(2) s(1,2) t by auto
  ultimately show ?thesis
    unfolding transitions_only_def by blast
qed

lemma transitions_only_buy:
  assumes inv: "transitions_only keep p0 p" and t: "t \<in> keep"
  shows "transitions_only keep p0 (snd (buy t price pct date sl tp why p))"
proof (cases "fst (buy t price pct date sl tp why p)")
  case None
  with inv show ?thesis by (simp add: buy_None)
next
  case (Some tr)
  note b = buy_Some [OF Some]
  from b(7) obtain pos where
    pos: "positions (snd (buy t price pct date sl tp why p)) = positions p @ [(t, pos)]" ..
  from inv obtain new where
    kept: "\<forall>t \<in> held p0 \<inter> keep. map_of (positions p) t = map_of (positions p0) t"
    and other: "\<forall>t \<in> - keep. t \<in> held p \<longrightarrow> t \<in> held p0"
    and new: "trades p = trades p0 @ new"
      "\<forall>tr \<in> set new. trade_action tr = SELL \<and> trade_ticker tr \<in> held p0 - keep \<or>
                         trade_action tr = BUY \<and> trade_ticker tr \<in> keep - held p0"
    unfolding transitions_only_def by blast
  have fresh: "t \<notin> held p0"
  proof
    assume "t \<in> held p0"
    with t kept have "map_of (positions p) t = map_of (positions p0) t" by blast
    with \<open>t \<in> held p0\<close> have "t \<in> held p" by (simp add: held_map_of)
    with b(6) show False by contradiction
  qed
  have "\<forall>t' \<in> held p0 \<inter> keep. map_of (positions (snd (buy t price pct date sl tp why p))) t'
          = map_of (positions p0) t'"
    using kept fresh by (auto simp: pos map_add_def held_map_of split: option.splits)
  moreover have "\<forall>t' \<in> - keep. t' \<in> held (snd (buy t price pct date sl tp why p)) \<longrightarrow> t' \<in> held p0"
    using other t by (auto simp: pos held_def)
  moreover have "trades (snd (buy t price pct date sl tp why p)) = trades p0 @ (new @ [tr])"
    by (simp add: b(8) new(1))
  moreover have "\<forall>tr \<in> set (new @ [tr]).
      trade_action tr = SELL \<and> trade_ticker tr \<in> held p0 - keep \<or>
      trade_action tr = BUY \<and> trade_ticker tr \<in> keep - held p0"
    using new(2) b(1,2) t fresh by auto
  ultimately show ?thesis
    unfolding transitions_only_def by blast
qed


lemma sell_map_of:
  "map_of (positions (snd (sell t0 price date why p))) t =
     (if t = t0 \<and> 0 < price then None else map_of (positions p) t)"
proof (cases "fst (sell t0 price date why p)")
  case None
  then have "t0 \<notin> held p \<or> price \<le> 0" by (simp add: sell_None_iff)
  with None show ?thesis
    by (auto simp: sell_None held_map_of)
next
  case (Some tr)
  then have "\<not> (t0 \<notin> held p \<or> price \<le> 0)"
    using sell_None_iff [of t0 price date why p] by simp
  then show ?thesis
    by (simp add: sell_Some(7) [OF Some] map_of_filter_same map_of_filter_other)
qed

lemma buy_map_of:
  "t \<noteq> t0 \<or> t \<in> held p \<Longrightarrow>
     map_of (positions (snd (buy t0 price pct date sl tp why p))) t = map_of (positions p) t"
proof (cases "fst (buy t0 price pct date sl tp why p)")
  case None
  then show ?thesis by (simp add: buy_None)
next
  case (Some tr)
  assume t: "t \<noteq> t0 \<or> t \<in> held p"
  note b = buy_Some [OF Some]
  from b(7) obtain pos where
    pos: "positions (snd (buy t0 price pct date sl tp why p)) = positions p @ [(t0, pos)]" ..
  from t b(6) show ?thesis
    by (auto simp: pos map_add_def held_map_of split: option.splits)
qed

lemma sell_loop_map_of:
  "map_of (positions (portfolio (sell_loop current_prices date ts e))) t =
     (if t \<in> set ts \<and> (\<exists>price. current_prices t = Some price \<and> 0 < price) then None
      else map_of (positions (portfolio e)) t)"
proof (induction ts arbitrary: e)
  case Nil
  show ?case by simp
next
  case (Cons t0 ts)
  show ?case
  proof (cases "current_prices t0")
    case None
    then show ?thesis by (auto simp: Cons.IH)
  next
    case (Some price)
    then show ?thesis
      by (auto simp: Cons.IH call_sell_simps sell_map_of)
  qed
qed

lemma sell_phase_transitions:
  "transitions_only keep
      (apply_selic_to_cash date rate (update_prices current_prices (portfolio e)))
      (portfolio (sell_loop current_prices date
         [t \<leftarrow> map fst (positions (portfolio
                (call_apply_selic_to_cash date rate (call_update_prices current_prices e)))).
            t \<notin> keep]
         (call_apply_selic_to_cash date rate (call_update_prices current_prices e))))"
proof -
  let ?p2 = "apply_selic_to_cash date rate (update_prices current_prices (portfolio e))"
  have "transitions_only keep ?p2
      (portfolio (call_apply_selic_to_cash date rate (call_update_prices current_prices e)))"
    by (simp add: prepared_portfolio transitions_only_refl)
  then show ?thesis
  proof (induction rule: sell_loop_induct)
    case (sell t price e')
    from sell(2) have "t \<in> held ?p2 - keep"
      by (auto simp: prepared_portfolio held_def)
    with sell(1) show ?case
      by (simp add: call_sell_simps transitions_only_sell)
  qed
qed

lemma transitions_only_fresh:
  assumes "transitions_only keep p0 p" "t \<in> keep" "t \<notin> held p"
  shows "t \<notin> held p0"
proof
  assume "t \<in> held p0"
  with assms(1,2) have "map_of (positions p) t = map_of (positions p0) t"
    unfolding transitions_only_def by blast
  with \<open>t \<in> held p0\<close> have "t \<in> held p" by (simp add: held_map_of)
  with assms(3) show False by contradiction
qed

lemma rebalance_combined:
  assumes "price_data e = Some table" "map_of (rows table) date = Some current_prices"
    "universe_tickers e = Some universe" "analyse w date universe = Inr decisions"
  shows
    "transitions_only
       (keep_tickers (buy_signals decisions) (hold_signals decisions))
       (apply_selic_to_cash date selic_daily (update_prices current_prices (portfolio e)))
       (portfolio (outcome (rebalance_portfolio w date e))) \<and>
     (\<forall>t \<in> - keep_tickers (buy_signals decisions)
                (hold_signals decisions).
        map_of (positions (portfolio (outcome (rebalance_portfolio w date e)))) t =
          (if t \<in> held (portfolio e) \<and> (\<exists>price. current_prices t = Some price \<and> 0 < price)
           then None
           else map_of (positions (update_prices current_prices (portfolio e))) t)) \<and>
     (\<exists>bought. ledger_calls (outcome (rebalance_portfolio w date e)) =
         ledger_calls e @ [Call_update_prices, Call_apply_selic_to_cash date selic_daily] @
         List.map_filter
           (\<lambda>t. map_option (\<lambda>price. Call_sell t price date NO_SIGNAL) (current_prices t))
           [t \<leftarrow> map fst (positions (portfolio e)).
              t \<notin> keep_tickers (buy_signals decisions)
                     (hold_signals decisions)] @
         bought \<and>
         (\<forall>c \<in> set bought. \<exists>t price pct sl tp why.
             c = Call_buy t price pct date sl tp why \<and>
             t \<in> keep_tickers (buy_signals decisions)
                   (hold_signals decisions) \<and>
             t \<notin> held (portfolio e)))"
  using assms
proof (induction rule: rebalance_induct)
  case sold
  have keys: "map fst (positions (portfolio
       (call_apply_selic_to_cash date selic_daily (call_update_prices current_prices e))))
      = map fst (positions (portfolio e))"
    by (simp add: prepared_portfolio prepared_ledger keys_update_prices)
  show ?case
  proof (intro conjI)
    show "transitions_only
       (keep_tickers (buy_signals decisions) (hold_signals decisions))
       (apply_selic_to_cash date selic_daily (update_prices current_prices (portfolio e)))
       (portfolio (sell_loop current_prices date
         [t \<leftarrow> map fst (positions (portfolio
                (call_apply_selic_to_cash date selic_daily (call_update_prices current_prices e)))).
            t \<notin> keep_tickers (buy_signals decisions)
                   (hold_signals decisions)]
         (call_apply_selic_to_cash date selic_daily (call_update_prices current_prices e))))"
      by (rule sell_phase_transitions)
  next
    show "\<forall>t \<in> - keep_tickers (buy_signals decisions)
                (hold_signals decisions).
        map_of (positions (portfolio (sell_loop current_prices date
         [t \<leftarrow> map fst (positions (portfolio
                (call_apply_selic_to_cash date selic_daily (call_update_prices current_prices e)))).
            t \<notin> keep_tickers (buy_signals decisions)
                   (hold_signals decisions)]
         (call_apply_selic_to_cash date selic_daily (call_update_prices current_prices e))))) t =
          (if t \<in> held (portfolio e) \<and> (\<exists>price. current_prices t = Some price \<and> 0 < price)
           then None
           else map_of (positions (update_prices current_prices (portfolio e))) t)"
      unfolding keys
      unfolding sell_loop_map_of
      by (auto simp: prepared_portfolio prepared_ledger held_def)
  next
    show "\<exists>bought. ledger_calls (sell_loop current_prices date
         [t \<leftarrow> map fst (positions (portfolio
                (call_apply_selic_to_cash date selic_daily (call_update_prices current_prices e)))).
            t \<notin> keep_tickers (buy_signals decisions)
                   (hold_signals decisions)]
         (call_apply_selic_to_cash date selic_daily (call_update_prices current_prices e))) =
         ledger_calls e @ [Call_update_prices, Call_apply_selic_to_cash date selic_daily] @
         List.map_filter
           (\<lambda>t. map_option (\<lambda>price. Call_sell t price date NO_SIGNAL) (current_prices t))
           [t \<leftarrow> map fst (positions (portfolio e)).
              t \<notin> keep_tickers (buy_signals decisions)
                     (hold_signals decisions)] @
         bought \<and>
         (\<forall>c \<in> set bought. \<exists>t price pct sl tp why.
             c = Call_buy t price pct date sl tp why \<and>
             t \<in> keep_tickers (buy_signals decisions)
                   (hold_signals decisions) \<and>
             t \<notin> held (portfolio e))"
      unfolding keys
      unfolding sell_loop_calls prepared_portfolio
      by (intro exI [of _ "[]"]) simp
  qed
next
  case (bought pct why signals e')
  let ?keep = "keep_tickers (buy_signals decisions)
                 (hold_signals decisions)"
  from bought(1) show ?case
  proof (induction rule: buy_loop_induct)
    case (buy s price e'')
    let ?t = "ticker s"
    let ?e = "snd (call_buy ?t price pct date (stop_loss s) (take_profit s) why e'')"
    from buy(2) bought(2) have keep: "?t \<in> ?keep" by auto
    from buy(1) have inv: "transitions_only ?keep
        (apply_selic_to_cash date selic_daily (update_prices current_prices (portfolio e)))
        (portfolio e'')" by blast
    from transitions_only_fresh [OF inv keep buy(4)] have fresh: "?t \<notin> held (portfolio e)"
      by (simp add: prepared_ledger)
    have 1: "transitions_only ?keep
        (apply_selic_to_cash date selic_daily (update_prices current_prices (portfolio e)))
        (portfolio ?e)"
      using inv keep by (simp add: call_buy_simps transitions_only_buy)
    have 2: "\<forall>t \<in> - ?keep. map_of (positions (portfolio ?e)) t =
          (if t \<in> held (portfolio e) \<and> (\<exists>price. current_prices t = Some price \<and> 0 < price)
           then None
           else map_of (positions (update_prices current_prices (portfolio e))) t)"
    proof
      fix t assume "t \<in> - ?keep"
      with keep have "t \<noteq> ?t" by auto
      then have "map_of (positions (portfolio ?e)) t = map_of (positions (portfolio e'')) t"
        by (simp add: call_buy_simps buy_map_of)
      with buy(1) \<open>t \<in> - ?keep\<close> show "map_of (positions (portfolio ?e)) t =
          (if t \<in> held (portfolio e) \<and> (\<exists>price. current_prices t = Some price \<and> 0 < price)
           then None
           else map_of (positions (update_prices current_prices (portfolio e))) t)"
        by simp
    qed
    from buy(1) obtain cs where
      cs: "ledger_calls e'' =
         ledger_calls e @ [Call_update_prices, Call_apply_selic_to_cash date selic_daily] @
         List.map_filter
           (\<lambda>t. map_option (\<lambda>price. Call_sell t price date NO_SIGNAL) (current_prices t))
           [t \<leftarrow> map fst (positions (portfolio e)). t \<notin> ?keep] @ cs"
      and all: "\<forall>c \<in> set cs. \<exists>t price pct sl tp why.
             c = Call_buy t price pct date sl tp why \<and> t \<in> ?keep \<and> t \<notin> held (portfolio e)"
      by blast
    have 3: "ledger_calls ?e =
         ledger_calls e @ [Call_update_prices, Call_apply_selic_to_cash date selic_daily] @
         List.map_filter
           (\<lambda>t. map_option (\<lambda>price. Call_sell t price date NO_SIGNAL) (current_prices t))
           [t \<leftarrow> map fst (positions (portfolio e)). t \<notin> ?keep] @
         (cs @ [Call_buy ?t price pct date (stop_loss s) (take_profit s) why])"
      by (simp add: call_buy_simps cs)
    have 4: "\<forall>c \<in> set (cs @ [Call_buy ?t price pct date (stop_loss s) (take_profit s) why]).
         \<exists>t price pct sl tp why.
             c = Call_buy t price pct date sl tp why \<and> t \<in> ?keep \<and> t \<notin> held (portfolio e)"
      using all keep fresh by auto
    from 1 2 3 4 show ?case by blast
  qed
next
  case (recorded e' ds rd)
  then show ?case by simp
qed


lemma buy_loop_extends:
  "\<exists>cs. ledger_calls (outcome (buy_loop current_prices date pct why signals e))
          = ledger_calls e @ cs"
proof -
  have "\<exists>cs. ledger_calls e = ledger_calls e @ cs" by simp
  then show ?thesis
  proof (rule buy_loop_induct [where Q = "\<lambda>e'. \<exists>cs. ledger_calls e' = ledger_calls e @ cs"])
    fix s price and e' :: engine
    assume "\<exists>cs. ledger_calls e' = ledger_calls e @ cs"
    then show "\<exists>cs. ledger_calls (snd (call_buy (ticker s) price pct date (stop_loss s)
        (take_profit s) why e')) = ledger_calls e @ cs"
      by (auto simp: call_buy_simps)
  qed
qed

lemma buy_loop_first:
  assumes "current_prices (ticker s) = Some price" "ticker s \<notin> held (portfolio e)"
  shows "\<exists>cs. ledger_calls (outcome (buy_loop current_prices date pct why (s # signals) e)) =
     ledger_calls e @ [Call_buy (ticker s) price pct date (stop_loss s) (take_profit s) why] @ cs"
proof -
  let ?b = "call_buy (ticker s) price pct date (stop_loss s) (take_profit s) why e"
  from buy_loop_extends [of current_prices date pct why signals "snd ?b"] obtain cs where
    cs: "ledger_calls (outcome (buy_loop current_prices date pct why signals (snd ?b)))
           = ledger_calls (snd ?b) @ cs" ..
  show ?thesis
  proof (cases "fst ?b \<noteq> None \<and> verbose e \<and> analyst_score s = None")
    case True
    with assms have "buy_loop current_prices date pct why (s # signals) e
        = Inl (TypeError, snd ?b)"
      by (simp add: split_beta)
    then show ?thesis by (simp add: call_buy_simps)
  next
    case False
    with assms have "buy_loop current_prices date pct why (s # signals) e
        = buy_loop current_prices date pct why signals (snd ?b)"
      by (auto simp: split_beta)
    with cs show ?thesis by (simp add: call_buy_simps)
  qed
qed

lemma rebalance_extends_first_loop:
  assumes pd: "price_data e = Some table"
    and row: "map_of (rows table) date = Some current_prices"
    and un: "universe_tickers e = Some universe"
    and an: "analyse w date universe = Inr decisions"
    and total: "total_value (apply_selic_to_cash date selic_daily
                  (update_prices current_prices (portfolio e))) \<noteq> 0"
  shows "\<exists>cs. ledger_calls (outcome (rebalance_portfolio w date e)) =
     ledger_calls (outcome (buy_loop current_prices date
        (total_value (apply_selic_to_cash date selic_daily
            (update_prices current_prices (portfolio e))) *
         fst (allocation (length (buy_signals decisions))) /
         of_nat (min 15 (max 1 (length (buy_signals decisions)))) /
         total_value (apply_selic_to_cash date selic_daily
            (update_prices current_prices (portfolio e))) * 100)
        REBALANCE (take 15 (buy_signals decisions))
        (sell_loop current_prices date
           [t \<leftarrow> map fst (positions (portfolio
                  (call_apply_selic_to_cash date selic_daily
                     (call_update_prices current_prices e)))).
              t \<notin> keep_tickers (buy_signals decisions) (hold_signals decisions)]
           (call_apply_selic_to_cash date selic_daily
              (call_update_prices current_prices e))))) @ cs"
proof -
  let ?e2 = "call_apply_selic_to_cash date selic_daily (call_update_prices current_prices e)"
  let ?buys = "buy_signals decisions"
  let ?holds = "hold_signals decisions"
  let ?keep = "keep_tickers ?buys ?holds"
  let ?e3 = "sell_loop current_prices date
        [t \<leftarrow> map fst (positions (portfolio ?e2)). t \<notin> ?keep] ?e2"
  let ?total = "total_value (apply_selic_to_cash date selic_daily
                  (update_prices current_prices (portfolio e)))"
  have ue2: "universe_tickers ?e2 = Some universe"
    by (simp add: un call_apply_selic_to_cash_def call_update_prices_def)
  have t2: "total_value (portfolio ?e2) = ?total"
    by (simp add: prepared_portfolio)
  obtain ba ha ct where al: "allocation (length ?buys) = (ba, ha, ct)"
    by (cases "allocation (length ?buys)") auto
  let ?pct1 = "?total * ba / rat_of_nat (min 15 (max 1 (length ?buys))) / ?total * 100"
  let ?pct2 = "?total * ha / rat_of_nat (min 20 (max 1 (length ?holds))) / ?total * 100"
  let ?r1 = "buy_loop current_prices date ?pct1 REBALANCE (take 15 ?buys) ?e3"
  have goal: "\<exists>cs. ledger_calls (outcome (rebalance_portfolio w date e)) =
      ledger_calls (outcome ?r1) @ cs"
  proof (cases ?r1)
    case (Inl failure)
    with total have "rebalance_portfolio w date e = ?r1"
      by (simp add: rebalance_portfolio_def pd row ue2 an al t2 Let_def)
    then show ?thesis by simp
  next
    case (Inr e4)
    let ?r2 = "buy_loop current_prices date ?pct2 HOLD_EXPOSURE (take 20 ?holds) e4"
    from buy_loop_extends [of current_prices date ?pct2 HOLD_EXPOSURE "take 20 ?holds" e4]
    obtain cs where cs: "ledger_calls (outcome ?r2) = ledger_calls e4 @ cs" ..
    show ?thesis
    proof (cases ?r2)
      case (Inl failure)
      with total Inr have "rebalance_portfolio w date e = ?r2"
        by (simp add: rebalance_portfolio_def pd row ue2 an al t2 Let_def)
      with cs Inr show ?thesis by simp
    next
      case e5: (Inr e5)
      with total Inr have "rebalance_portfolio w date e =
          Inr (e5\<lparr>decisions_history := decisions_history e5 @ decisions,
                  rebalance_dates := rebalance_dates e5 @ [date]\<rparr>)"
        by (simp add: rebalance_portfolio_def pd row ue2 an al t2 Let_def)
      with cs Inr e5 show ?thesis by simp
    qed
  qed
  then show ?thesis by (simp add: al)
qed

lemma rebalance_first_buy:
  assumes pd: "price_data e = Some table"
    and row: "map_of (rows table) date = Some current_prices"
    and un: "universe_tickers e = Some universe"
    and an: "analyse w date universe = Inr decisions"
    and total: "total_value (apply_selic_to_cash date selic_daily
                  (update_prices current_prices (portfolio e))) \<noteq> 0"
    and first: "buy_signals decisions = s # rest"
    and price: "current_prices (ticker s) = Some price"
    and fresh: "ticker s \<notin> held (portfolio e)"
  shows "\<exists>before after. ledger_calls (outcome (rebalance_portfolio w date e)) =
     ledger_calls e @ before @
     [Call_buy (ticker s) price
        (total_value (apply_selic_to_cash date selic_daily
            (update_prices current_prices (portfolio e))) *
         fst (allocation (length (buy_signals decisions))) /
         of_nat (min 15 (max 1 (length (buy_signals decisions)))) /
         total_value (apply_selic_to_cash date selic_daily
            (update_prices current_prices (portfolio e))) * 100)
        date (stop_loss s) (take_profit s) REBALANCE] @ after"
proof -
  let ?e2 = "call_apply_selic_to_cash date selic_daily (call_update_prices current_prices e)"
  let ?keep = "keep_tickers (buy_signals decisions) (hold_signals decisions)"
  let ?ts = "[t \<leftarrow> map fst (positions (portfolio ?e2)). t \<notin> ?keep]"
  let ?e3 = "sell_loop current_prices date ?ts ?e2"
  let ?total = "total_value (apply_selic_to_cash date selic_daily
                  (update_prices current_prices (portfolio e)))"
  let ?pct = "?total * fst (allocation (length (buy_signals decisions))) /
         of_nat (min 15 (max 1 (length (buy_signals decisions)))) / ?total * 100"
  let ?b = "call_buy (ticker s) price ?pct date (stop_loss s) (take_profit s) REBALANCE ?e3"
  let ?r1 = "buy_loop current_prices date ?pct REBALANCE (take 15 (buy_signals decisions)) ?e3"
  have keep: "ticker s \<in> ?keep"
    by (simp add: keep_tickers_def first)
  then have "ticker s \<notin> set ?ts" by simp
  then have "map_of (positions (portfolio ?e3)) (ticker s)
      = map_of (positions (portfolio ?e2)) (ticker s)"
    by (simp only: sell_loop_map_of simp_thms if_False)
  also have "\<dots> = None"
    using fresh by (simp add: prepared_portfolio prepared_ledger held_map_of
        map_of_update_prices)
  finally have unheld: "ticker s \<notin> held (portfolio ?e3)"
    by (simp add: held_map_of)
  have "\<exists>cs. ledger_calls ?e3 = ledger_calls e @ cs"
    unfolding sell_loop_calls prepared_portfolio by simp
  then obtain cs0 where c0: "ledger_calls ?e3 = ledger_calls e @ cs0" ..
  have tk: "take 15 (buy_signals decisions) = s # take 14 rest"
    by (simp add: first)
  from buy_loop_first [where current_prices = current_prices and s = s and price = price
      and e = ?e3 and date = date and pct = ?pct and why = REBALANCE
      and signals = "take 14 rest", OF price unheld]
  obtain cs1 where "ledger_calls (outcome
      (buy_loop current_prices date ?pct REBALANCE (s # take 14 rest) ?e3)) =
      ledger_calls ?e3 @
      [Call_buy (ticker s) price ?pct date (stop_loss s) (take_profit s) REBALANCE] @ cs1" ..
  then have c1: "ledger_calls (outcome ?r1) = ledger_calls ?e3 @
      [Call_buy (ticker s) price ?pct date (stop_loss s) (take_profit s) REBALANCE] @ cs1"
    by (simp only: tk)
  from rebalance_extends_first_loop [OF pd row un an total] obtain cs2 where
    c2: "ledger_calls (outcome (rebalance_portfolio w date e))
           = ledger_calls (outcome ?r1) @ cs2" ..
  have "ledger_calls (outcome (rebalance_portfolio w date e)) =
     ledger_calls e @ cs0 @
     [Call_buy (ticker s) price ?pct date (stop_loss s) (take_profit s) REBALANCE] @
     (cs1 @ cs2)"
    unfolding c2 c1 c0 by (simp only: append_assoc)
  then show ?thesis by blast
qed

lemma rebalance_buy_pct:
  assumes "price_data e = Some table" "map_of (rows table) date = Some current_prices"
    "universe_tickers e = Some universe" "analyse w date universe = Inr decisions"
  shows "\<exists>cs. ledger_calls (outcome (rebalance_portfolio w date e)) = ledger_calls e @ cs \<and>
     (\<forall>t price pct d sl tp why. Call_buy t price pct d sl tp why \<in> set cs \<longrightarrow>
        why = REBALANCE \<and>
        pct = total_value (apply_selic_to_cash date selic_daily
                 (update_prices current_prices (portfolio e))) *
              fst (allocation (length (buy_signals decisions))) /
              of_nat (min 15 (max 1 (length (buy_signals decisions)))) /
              total_value (apply_selic_to_cash date selic_daily
                 (update_prices current_prices (portfolio e))) * 100 \<or>
        why = HOLD_EXPOSURE \<and>
        pct = total_value (apply_selic_to_cash date selic_daily
                 (update_prices current_prices (portfolio e))) *
              fst (snd (allocation (length (buy_signals decisions)))) /
              of_nat (min 20 (max 1 (length (hold_signals decisions)))) /
              total_value (apply_selic_to_cash date selic_daily
                 (update_prices current_prices (portfolio e))) * 100)"
  using assms
proof (induction rule: rebalance_induct)
  case sold
  show ?case
    unfolding sell_loop_calls prepared_portfolio
    by (auto simp: in_set_map_filter)
next
  case (bought pct why signals e')
  from bought(1) show ?case
  proof (induction rule: buy_loop_induct)
    case (buy s price e'')
    then obtain cs where cs: "ledger_calls e'' = ledger_calls e @ cs"
      and all: "\<forall>t price pct d sl tp why. Call_buy t price pct d sl tp why \<in> set cs \<longrightarrow>
        why = REBALANCE \<and>
        pct = total_value (apply_selic_to_cash date selic_daily
                 (update_prices current_prices (portfolio e))) *
              fst (allocation (length (buy_signals decisions))) /
              of_nat (min 15 (max 1 (length (buy_signals decisions)))) /
              total_value (apply_selic_to_cash date selic_daily
                 (update_prices current_prices (portfolio e))) * 100 \<or>
        why = HOLD_EXPOSURE \<and>
        pct = total_value (apply_selic_to_cash date selic_daily
                 (update_prices current_prices (portfolio e))) *
              fst (snd (allocation (length (buy_signals decisions)))) /
              of_nat (min 20 (max 1 (length (hold_signals decisions)))) /
              total_value (apply_selic_to_cash date selic_daily
                 (update_prices current_prices (portfolio e))) * 100"
      by blast
    have "ledger_calls (snd (call_buy (ticker s) price pct date (stop_loss s)
        (take_profit s) why e'')) =
        ledger_calls e @ (cs @ [Call_buy (ticker s) price pct date (stop_loss s)
                                  (take_profit s) why])"
      by (simp add: call_buy_simps cs)
    moreover have "\<forall>t price' pct' d sl tp why'.
        Call_buy t price' pct' d sl tp why' \<in>
          set (cs @ [Call_buy (ticker s) price pct date (stop_loss s) (take_profit s) why]) \<longrightarrow>
        why' = REBALANCE \<and>
        pct' = total_value (apply_selic_to_cash date selic_daily
                 (update_prices current_prices (portfolio e))) *
              fst (allocation (length (buy_signals decisions))) /
              of_nat (min 15 (max 1 (length (buy_signals decisions)))) /
              total_value (apply_selic_to_cash date selic_daily
                 (update_prices current_prices (portfolio e))) * 100 \<or>
        why' = HOLD_EXPOSURE \<and>
        pct' = total_value (apply_selic_to_cash date selic_daily
                 (update_prices current_prices (portfolio e))) *
              fst (snd (allocation (length (buy_signals decisions)))) /
              of_nat (min 20 (max 1 (length (hold_signals decisions)))) /
              total_value (apply_selic_to_cash date selic_daily
                 (update_prices current_prices (portfolio e))) * 100"
      using all bought(3) by auto
    ultimately show ?case by blast
  qed
next
  case (recorded e' ds rd)
  then show ?case by simp
qed

lemma stops_engine:
  "ledger_calls (call_check_stops date (call_apply_selic_to_cash date rate
       (call_update_prices current_prices e)))
     = ledger_calls e @ [Call_update_prices, Call_apply_selic_to_cash date rate,
                         Call_check_stops date]"
  "portfolio (call_check_stops date (call_apply_selic_to_cash date rate
       (call_update_prices current_prices e)))
     = check_stops date (apply_selic_to_cash date rate
         (update_prices current_prices (portfolio e)))"
  by (simp_all add: call_check_stops_def prepared_portfolio)

lemma check_stop_positions: "set (positions (check_stop date t p)) \<subseteq> set (positions p)"
proof -
  have "set (positions (snd (sell t price date why p))) \<subseteq> set (positions p)" for price why
  proof (cases "fst (sell t price date why p)")
    case None
    then show ?thesis by (simp add: sell_None)
  next
    case (Some tr)
    then show ?thesis by (simp add: sell_Some(7) [OF Some])
  qed
  then show ?thesis
    by (simp add: check_stop_def split: option.splits)
qed

lemma check_stops_positions: "set (positions (check_stops date p)) \<subseteq> set (positions p)"
proof -
  have "set (positions (fold (check_stop date) ts p)) \<subseteq> set (positions p)" for ts
  proof (induction ts arbitrary: p)
    case Nil
    show ?case by simp
  next
    case (Cons t ts)
    from Cons.IH [of "check_stop date t p"] check_stop_positions [of date t p]
    show ?case by auto
  qed
  then show ?thesis by (simp add: check_stops_def)
qed

lemma update_prices_fresh:
  "\<forall>(t, pos) \<in> set (positions (update_prices current_prices p)).
      \<forall>price. current_prices t = Some price \<longrightarrow> current_price pos = price"
  by (auto simp: update_prices_def)

lemma stops_fresh:
  "\<forall>(t, pos) \<in> set (positions (portfolio (call_check_stops date
        (call_apply_selic_to_cash date rate (call_update_prices current_prices e))))).
      \<forall>price. current_prices t = Some price \<longrightarrow> current_price pos = price"
proof -
  have "set (positions (portfolio (call_check_stops date
        (call_apply_selic_to_cash date rate (call_update_prices current_prices e)))))
      \<subseteq> set (positions (update_prices current_prices (portfolio e)))"
    unfolding stops_engine
    using check_stops_positions [of date "apply_selic_to_cash date rate
        (update_prices current_prices (portfolio e))"]
    by (simp add: prepared_ledger)
  with update_prices_fresh [of current_prices "portfolio e"] show ?thesis
    by blast
qed

text \<open>
  Claim C7. During a rebalance a ticker that is held is never bought again and its
  position is not resized: every call of \<^verbatim>\<open>buy\<close> is for a ticker of the keep set that
  was not held when the rebalance began; every new trade is the sale of a held ticker
  outside the keep set or the purchase of a ticker of the keep set that was not held;
  and the position of a held ticker of the keep set is after the rebalance what it was
  before, but for its current price, which \<^verbatim>\<open>rebalance_portfolio\<close> sets again to the
  day's price. Where the day's prices are already in the positions, and so where the
  main loop calls the rebalance, after the price update, the accrual and the stop check
  of the day, the position is unchanged. The statement holds for the engine as the
  rebalance leaves it, whether it returns or raises. A rebalance whose analysis is
  interrupted has no keep set: it ends with the interrupt after the price update and the
  accrual, without a trade.
\<close>

theorem C7_kept_positions:
  assumes "price_data e = Some table" "map_of (rows table) date = Some current_prices"
    "universe_tickers e = Some universe"
    and e': "e' = outcome (rebalance_portfolio w date e)"
  shows
    "case analyse w date universe of
       Inl failure \<Rightarrow>
         rebalance_portfolio w date e =
           Inl (failure, call_apply_selic_to_cash date selic_daily
                           (call_update_prices current_prices e))
     | Inr decisions \<Rightarrow>
         (let keep = keep_tickers (buy_signals decisions) (hold_signals decisions)
          in (\<forall>t \<in> held (portfolio e) \<inter> keep.
                map_of (positions (portfolio e')) t =
                  map_option (\<lambda>pos. case current_prices t of None \<Rightarrow> pos
                                     | Some price \<Rightarrow> pos\<lparr>current_price := price\<rparr>)
                    (map_of (positions (portfolio e)) t)) \<and>
             (\<exists>new. trades (portfolio e') = trades (portfolio e) @ new \<and>
                (\<forall>tr \<in> set new.
                    trade_action tr = SELL \<and> trade_ticker tr \<in> held (portfolio e) - keep \<or>
                    trade_action tr = BUY \<and> trade_ticker tr \<in> keep - held (portfolio e))) \<and>
             (\<forall>t price pct d sl tp why.
                Call_buy t price pct d sl tp why
                  \<in> set (drop (length (ledger_calls e)) (ledger_calls e'))
                  \<longrightarrow> t \<in> keep - held (portfolio e)) \<and>
             ((\<forall>(t, pos) \<in> set (positions (portfolio e)).
                  \<forall>price. current_prices t = Some price \<longrightarrow> current_price pos = price) \<longrightarrow>
              (\<forall>t \<in> held (portfolio e) \<inter> keep.
                  map_of (positions (portfolio e')) t = map_of (positions (portfolio e)) t)) \<and>
             (\<forall>e0 rate.
                e = call_check_stops date (call_apply_selic_to_cash date rate
                      (call_update_prices current_prices e0)) \<longrightarrow>
                (\<forall>t \<in> held (portfolio e) \<inter> keep.
                    map_of (positions (portfolio e')) t = map_of (positions (portfolio e)) t)))"
proof (cases "analyse w date universe")
  case (Inl failure)
  from rebalance_interrupted [OF assms(1-3) Inl] show ?thesis
    by (simp only: Inl sum.case)
next
  case (Inr decisions)
  define keep where "keep = keep_tickers (buy_signals decisions) (hold_signals decisions)"
  note c = rebalance_combined [OF assms(1-3) Inr, folded keep_def e']
  from c have tr: "transitions_only keep
      (apply_selic_to_cash date selic_daily (update_prices current_prices (portfolio e)))
      (portfolio e')" by blast
  have 1: "\<forall>t \<in> held (portfolio e) \<inter> keep.
        map_of (positions (portfolio e')) t =
          map_option (\<lambda>pos. case current_prices t of None \<Rightarrow> pos
                             | Some price \<Rightarrow> pos\<lparr>current_price := price\<rparr>)
            (map_of (positions (portfolio e)) t)"
    using tr unfolding transitions_only_def
    by (simp add: prepared_ledger map_of_update_prices)
  have 2: "\<exists>new. trades (portfolio e') = trades (portfolio e) @ new \<and>
        (\<forall>tr \<in> set new.
            trade_action tr = SELL \<and> trade_ticker tr \<in> held (portfolio e) - keep \<or>
            trade_action tr = BUY \<and> trade_ticker tr \<in> keep - held (portfolio e))"
    using tr unfolding transitions_only_def
    by (simp add: prepared_ledger)
  from c obtain bought where
    calls: "ledger_calls e' =
         ledger_calls e @ [Call_update_prices, Call_apply_selic_to_cash date selic_daily] @
         List.map_filter
           (\<lambda>t. map_option (\<lambda>price. Call_sell t price date NO_SIGNAL) (current_prices t))
           [t \<leftarrow> map fst (positions (portfolio e)). t \<notin> keep] @ bought"
    and bought: "\<forall>c \<in> set bought. \<exists>t price pct sl tp why.
             c = Call_buy t price pct date sl tp why \<and> t \<in> keep \<and> t \<notin> held (portfolio e)"
    by blast
  have 3: "\<forall>t price pct d sl tp why.
        Call_buy t price pct d sl tp why \<in> set (drop (length (ledger_calls e)) (ledger_calls e'))
          \<longrightarrow> t \<in> keep - held (portfolio e)"
    using bought by (auto simp: calls in_set_map_filter)
  have 4: "\<forall>t \<in> held (portfolio e) \<inter> keep.
          map_of (positions (portfolio e')) t = map_of (positions (portfolio e)) t"
    if fresh: "\<forall>(t, pos) \<in> set (positions (portfolio e)).
          \<forall>price. current_prices t = Some price \<longrightarrow> current_price pos = price"
  proof
    fix t assume t: "t \<in> held (portfolio e) \<inter> keep"
    then obtain pos where pos: "map_of (positions (portfolio e)) t = Some pos"
      by (auto simp: held_map_of)
    then have "(t, pos) \<in> set (positions (portfolio e))" by (rule map_of_SomeD)
    with fresh have "\<forall>price. current_prices t = Some price \<longrightarrow> current_price pos = price"
      by blast
    then have "(case current_prices t of None \<Rightarrow> pos
                | Some price \<Rightarrow> pos\<lparr>current_price := price\<rparr>) = pos"
      by (auto split: option.splits)
    with 1 t pos show "map_of (positions (portfolio e')) t = map_of (positions (portfolio e)) t"
      by simp
  qed
  have 5: "\<forall>e0 rate.
        e = call_check_stops date (call_apply_selic_to_cash date rate
              (call_update_prices current_prices e0)) \<longrightarrow>
        (\<forall>t \<in> held (portfolio e) \<inter> keep.
            map_of (positions (portfolio e')) t = map_of (positions (portfolio e)) t)"
  proof (intro allI impI)
    fix e0 rate
    assume "e = call_check_stops date (call_apply_selic_to_cash date rate
              (call_update_prices current_prices e0))"
    then have "\<forall>(t, pos) \<in> set (positions (portfolio e)).
          \<forall>price. current_prices t = Some price \<longrightarrow> current_price pos = price"
      using stops_fresh [where current_prices = current_prices and date = date
          and rate = rate and e = e0] by simp
    then show "\<forall>t \<in> held (portfolio e) \<inter> keep.
            map_of (positions (portfolio e')) t = map_of (positions (portfolio e)) t"
      by (rule 4)
  qed
  from 1 2 3 4 have
    "(\<forall>t \<in> held (portfolio e) \<inter> keep.
        map_of (positions (portfolio e')) t =
          map_option (\<lambda>pos. case current_prices t of None \<Rightarrow> pos
                             | Some price \<Rightarrow> pos\<lparr>current_price := price\<rparr>)
            (map_of (positions (portfolio e)) t)) \<and>
     (\<exists>new. trades (portfolio e') = trades (portfolio e) @ new \<and>
        (\<forall>tr \<in> set new.
            trade_action tr = SELL \<and> trade_ticker tr \<in> held (portfolio e) - keep \<or>
            trade_action tr = BUY \<and> trade_ticker tr \<in> keep - held (portfolio e))) \<and>
     (\<forall>t price pct d sl tp why.
        Call_buy t price pct d sl tp why \<in> set (drop (length (ledger_calls e)) (ledger_calls e'))
          \<longrightarrow> t \<in> keep - held (portfolio e)) \<and>
     ((\<forall>(t, pos) \<in> set (positions (portfolio e)).
          \<forall>price. current_prices t = Some price \<longrightarrow> current_price pos = price) \<longrightarrow>
      (\<forall>t \<in> held (portfolio e) \<inter> keep.
          map_of (positions (portfolio e')) t = map_of (positions (portfolio e)) t)) \<and>
     (\<forall>e0 rate.
        e = call_check_stops date (call_apply_selic_to_cash date rate
              (call_update_prices current_prices e0)) \<longrightarrow>
        (\<forall>t \<in> held (portfolio e) \<inter> keep.
            map_of (positions (portfolio e')) t = map_of (positions (portfolio e)) t))"
    by (intro conjI 5) blast+
  then show ?thesis
    unfolding keep_def Inr sum.case Let_def .
qed

theorem C7_kept_positions_witness:
  "price_data (call_check_stops monday (call_apply_selic_to_cash monday (35 / 100000)
      (call_update_prices monday_prices holding)))
     = Some \<lparr>columns = [''A'', ''B'', ''C'', ''D''], rows = [(monday, monday_prices)]\<rparr> \<and>
   map_of (rows \<lparr>columns = [''A'', ''B'', ''C'', ''D''], rows = [(monday, monday_prices)]\<rparr>)
     monday = Some monday_prices \<and>
   universe_tickers (call_check_stops monday (call_apply_selic_to_cash monday (35 / 100000)
      (call_update_prices monday_prices holding)))
     = Some [''A'', ''B'', ''C'', ''D''] \<and>
   analyse (example_world verdicts) monday [''A'', ''B'', ''C'', ''D''] = Inr monday_decisions \<and>
   keep_tickers (buy_signals monday_decisions) (hold_signals monday_decisions)
     = {''C'', ''A''} \<and>
   ''A'' \<in> held (portfolio (call_check_stops monday (call_apply_selic_to_cash monday (35 / 100000)
              (call_update_prices monday_prices holding)))) \<inter> {''C'', ''A''} \<and>
   map_of (positions (portfolio (call_check_stops monday
      (call_apply_selic_to_cash monday (35 / 100000)
         (call_update_prices monday_prices holding))))) ''A''
     = Some ((bought_at ''A'' 100 10 9 15)\<lparr>current_price := 11\<rparr>) \<and>
   map_of (positions (portfolio (outcome (rebalance_portfolio (example_world verdicts) monday
        (call_check_stops monday (call_apply_selic_to_cash monday (35 / 100000)
           (call_update_prices monday_prices holding))))))) ''A''
     = Some ((bought_at ''A'' 100 10 9 15)\<lparr>current_price := 11\<rparr>) \<and>
   (\<exists>new. trades (portfolio (outcome (rebalance_portfolio (example_world verdicts) monday
        (call_check_stops monday (call_apply_selic_to_cash monday (35 / 100000)
           (call_update_prices monday_prices holding))))))
        = trades (portfolio (call_check_stops monday
            (call_apply_selic_to_cash monday (35 / 100000)
               (call_update_prices monday_prices holding)))) @ new \<and>
      (\<forall>tr \<in> set new.
          trade_action tr = SELL \<and>
          trade_ticker tr \<in> held (portfolio (call_check_stops monday
              (call_apply_selic_to_cash monday (35 / 100000)
                 (call_update_prices monday_prices holding)))) - {''C'', ''A''} \<or>
          trade_action tr = BUY \<and>
          trade_ticker tr \<in> {''C'', ''A''} - held (portfolio (call_check_stops monday
              (call_apply_selic_to_cash monday (35 / 100000)
                 (call_update_prices monday_prices holding))))))"
proof -
  let ?e = "call_check_stops monday (call_apply_selic_to_cash monday (35 / 100000)
      (call_update_prices monday_prices holding))"
  have fields: "price_data ?e
      = Some \<lparr>columns = [''A'', ''B'', ''C'', ''D''], rows = [(monday, monday_prices)]\<rparr>"
    "universe_tickers ?e = Some [''A'', ''B'', ''C'', ''D'']"
    by (simp_all add: holding_def call_check_stops_def call_apply_selic_to_cash_def
          call_update_prices_def)
  have row: "map_of (rows \<lparr>columns = [''A'', ''B'', ''C'', ''D''],
      rows = [(monday, monday_prices)]\<rparr>) monday = Some monday_prices"
    by simp
  note c7 = C7_kept_positions [OF fields(1) row fields(2) refl,
      of "example_world verdicts", unfolded example_analyse sum.case Let_def example_keep]
  have a: "''A'' \<in> held (portfolio ?e) \<inter> {''C'', ''A''}"
    using example_stops(1) by simp
  have pos: "map_of (positions (portfolio ?e)) ''A''
      = Some ((bought_at ''A'' 100 10 9 15)\<lparr>current_price := 11\<rparr>)"
    by (simp add: example_defs)
  from c7 have "\<forall>e0 rate.
      ?e = call_check_stops monday (call_apply_selic_to_cash monday rate
              (call_update_prices monday_prices e0)) \<longrightarrow>
      (\<forall>t \<in> held (portfolio ?e) \<inter> {''C'', ''A''}.
          map_of (positions (portfolio
            (outcome (rebalance_portfolio (example_world verdicts) monday ?e)))) t
          = map_of (positions (portfolio ?e)) t)"
    by (rule conjunct2 [THEN conjunct2, THEN conjunct2, THEN conjunct2])
  then have "\<forall>t \<in> held (portfolio ?e) \<inter> {''C'', ''A''}.
          map_of (positions (portfolio
            (outcome (rebalance_portfolio (example_world verdicts) monday ?e)))) t
          = map_of (positions (portfolio ?e)) t"
    by blast
  from bspec [OF this a] pos have kept: "map_of (positions (portfolio
      (outcome (rebalance_portfolio (example_world verdicts) monday ?e)))) ''A''
      = Some ((bought_at ''A'' 100 10 9 15)\<lparr>current_price := 11\<rparr>)"
    by simp
  from c7 have new: "\<exists>new. trades (portfolio
        (outcome (rebalance_portfolio (example_world verdicts) monday ?e)))
        = trades (portfolio ?e) @ new \<and>
      (\<forall>tr \<in> set new.
          trade_action tr = SELL \<and> trade_ticker tr \<in> held (portfolio ?e) - {''C'', ''A''} \<or>
          trade_action tr = BUY \<and> trade_ticker tr \<in> {''C'', ''A''} - held (portfolio ?e))"
    by (rule conjunct2 [THEN conjunct1])
  show ?thesis
    by (intro conjI fields row example_analyse example_keep a pos kept new)
qed

text \<open>
  Claim C5. On a rebalance the keep set is the union of the tickers of the first 15
  ranked BUY signals and of the first 20 ranked HOLD signals. After the price update and
  the accrual, the engine calls \<^verbatim>\<open>sell\<close> with reason \<^verbatim>\<open>NO_SIGNAL\<close>, at the day's
  price, once for every held ticker outside the keep set that has a price in the day's
  row, and makes no such call for a held ticker without a price; only calls of
  \<^verbatim>\<open>buy\<close> follow. A held ticker outside the keep set is no longer held afterwards when
  its price is positive, and keeps its position untouched when it has no price. The
  order of the calls of \<^verbatim>\<open>sell\<close> is not fixed (the program iterates over a Python
  set), so they are compared as multisets. A rebalance whose analysis is interrupted
  builds no keep set: it ends with the interrupt after the price update and the accrual,
  without a call of \<^verbatim>\<open>sell\<close>.
\<close>

theorem C5_liquidation:
  assumes "price_data e = Some table" "map_of (rows table) date = Some current_prices"
    "universe_tickers e = Some universe"
    and e': "e' = outcome (rebalance_portfolio w date e)"
  shows
    "case analyse w date universe of
       Inl failure \<Rightarrow>
         rebalance_portfolio w date e =
           Inl (failure, call_apply_selic_to_cash date selic_daily
                           (call_update_prices current_prices e))
     | Inr decisions \<Rightarrow>
         (let keep = keep_tickers (buy_signals decisions) (hold_signals decisions)
          in keep = ticker ` set (take 15 (buy_signals decisions)) \<union>
                    ticker ` set (take 20 (hold_signals decisions)) \<and>
             (\<exists>sells bought.
                ledger_calls e' =
                  ledger_calls e @
                  [Call_update_prices, Call_apply_selic_to_cash date selic_daily] @
                  sells @ bought \<and>
                mset sells =
                  mset (List.map_filter
                          (\<lambda>t. map_option (\<lambda>price. Call_sell t price date NO_SIGNAL)
                                 (current_prices t))
                          [t \<leftarrow> map fst (positions (portfolio e)). t \<notin> keep]) \<and>
                (\<forall>c \<in> set bought.
                    \<exists>t price pct sl tp why. c = Call_buy t price pct date sl tp why)) \<and>
             (\<forall>t \<in> held (portfolio e) - keep.
                case current_prices t of
                  None \<Rightarrow> map_of (positions (portfolio e')) t
                            = map_of (positions (portfolio e)) t
                | Some price \<Rightarrow> 0 < price \<longrightarrow> t \<notin> held (portfolio e')))"
proof (cases "analyse w date universe")
  case (Inl failure)
  from rebalance_interrupted [OF assms(1-3) Inl] show ?thesis
    by (simp only: Inl sum.case)
next
  case (Inr decisions)
  define keep where "keep = keep_tickers (buy_signals decisions) (hold_signals decisions)"
  note c = rebalance_combined [OF assms(1-3) Inr, folded keep_def e']
  have 1: "keep = ticker ` set (take 15 (buy_signals decisions)) \<union>
            ticker ` set (take 20 (hold_signals decisions))"
    by (simp add: keep_def keep_tickers_def)
  from c obtain bought where
    calls: "ledger_calls e' =
         ledger_calls e @ [Call_update_prices, Call_apply_selic_to_cash date selic_daily] @
         List.map_filter
           (\<lambda>t. map_option (\<lambda>price. Call_sell t price date NO_SIGNAL) (current_prices t))
           [t \<leftarrow> map fst (positions (portfolio e)). t \<notin> keep] @ bought"
    and bought: "\<forall>c \<in> set bought. \<exists>t price pct sl tp why.
             c = Call_buy t price pct date sl tp why \<and> t \<in> keep \<and> t \<notin> held (portfolio e)"
    by blast
  from bought have bought': "\<forall>c \<in> set bought. \<exists>t price pct sl tp why.
      c = Call_buy t price pct date sl tp why" by blast
  from c have m: "\<forall>t \<in> - keep. map_of (positions (portfolio e')) t =
          (if t \<in> held (portfolio e) \<and> (\<exists>price. current_prices t = Some price \<and> 0 < price)
           then None
           else map_of (positions (update_prices current_prices (portfolio e))) t)"
    by blast
  have 3: "\<forall>t \<in> held (portfolio e) - keep.
        case current_prices t of
          None \<Rightarrow> map_of (positions (portfolio e')) t = map_of (positions (portfolio e)) t
        | Some price \<Rightarrow> 0 < price \<longrightarrow> t \<notin> held (portfolio e')"
  proof
    fix t assume t: "t \<in> held (portfolio e) - keep"
    with m have eq: "map_of (positions (portfolio e')) t =
          (if t \<in> held (portfolio e) \<and> (\<exists>price. current_prices t = Some price \<and> 0 < price)
           then None
           else map_of (positions (update_prices current_prices (portfolio e))) t)"
      by blast
    show "case current_prices t of
          None \<Rightarrow> map_of (positions (portfolio e')) t = map_of (positions (portfolio e)) t
        | Some price \<Rightarrow> 0 < price \<longrightarrow> t \<notin> held (portfolio e')"
    proof (cases "current_prices t")
      case None
      with eq show ?thesis
        by (simp add: map_of_update_prices option.map_ident)
    next
      case (Some price)
      with eq t show ?thesis
        by (simp add: held_map_of)
    qed
  qed
  from 1 calls bought' 3 have
    "keep = ticker ` set (take 15 (buy_signals decisions)) \<union>
            ticker ` set (take 20 (hold_signals decisions)) \<and>
     (\<exists>sells bought.
        ledger_calls e' =
          ledger_calls e @ [Call_update_prices, Call_apply_selic_to_cash date selic_daily] @
          sells @ bought \<and>
        mset sells =
          mset (List.map_filter
                  (\<lambda>t. map_option (\<lambda>price. Call_sell t price date NO_SIGNAL) (current_prices t))
                  [t \<leftarrow> map fst (positions (portfolio e)). t \<notin> keep]) \<and>
        (\<forall>c \<in> set bought. \<exists>t price pct sl tp why. c = Call_buy t price pct date sl tp why)) \<and>
     (\<forall>t \<in> held (portfolio e) - keep.
        case current_prices t of
          None \<Rightarrow> map_of (positions (portfolio e')) t = map_of (positions (portfolio e)) t
        | Some price \<Rightarrow> 0 < price \<longrightarrow> t \<notin> held (portfolio e'))"
    by blast
  then show ?thesis
    unfolding keep_def Inr sum.case Let_def .
qed

theorem C5_liquidation_witness:
  "price_data holding = Some \<lparr>columns = [''A'', ''B'', ''C'', ''D''],
                               rows = [(monday, monday_prices)]\<rparr> \<and>
   map_of (rows \<lparr>columns = [''A'', ''B'', ''C'', ''D''], rows = [(monday, monday_prices)]\<rparr>)
     monday = Some monday_prices \<and>
   universe_tickers holding = Some [''A'', ''B'', ''C'', ''D''] \<and>
   analyse (example_world verdicts) monday [''A'', ''B'', ''C'', ''D''] = Inr monday_decisions \<and>
   keep_tickers (buy_signals monday_decisions) (hold_signals monday_decisions)
     = {''C'', ''A''} \<and>
   ''B'' \<in> held (portfolio holding) - {''C'', ''A''} \<and>
   monday_prices ''B'' = Some 21 \<and>
   ''B'' \<notin> held (portfolio (outcome (rebalance_portfolio (example_world verdicts) monday holding))) \<and>
   (\<exists>sells bought.
      ledger_calls (outcome (rebalance_portfolio (example_world verdicts) monday holding)) =
        ledger_calls holding @ [Call_update_prices, Call_apply_selic_to_cash monday selic_daily] @
        sells @ bought \<and>
      mset sells = {#Call_sell ''B'' 21 monday NO_SIGNAL, Call_sell ''D'' 17 monday NO_SIGNAL#} \<and>
      (\<forall>c \<in> set bought. \<exists>t price pct sl tp why. c = Call_buy t price pct monday sl tp why))"
proof -
  have row: "map_of (rows \<lparr>columns = [''A'', ''B'', ''C'', ''D''],
      rows = [(monday, monday_prices)]\<rparr>) monday = Some monday_prices"
    by simp
  note c5 = C5_liquidation [OF holding_fields(1) row holding_fields(2) refl,
      of "example_world verdicts", unfolded example_analyse sum.case Let_def example_keep]
  have b: "''B'' \<in> held (portfolio holding) - {''C'', ''A''}"
    by (simp add: holding_def held_def)
  have p: "monday_prices ''B'' = Some 21"
    by (simp add: monday_prices_def)
  have sells: "List.map_filter
      (\<lambda>t. map_option (\<lambda>price. Call_sell t price monday NO_SIGNAL) (monday_prices t))
      [t \<leftarrow> map fst (positions (portfolio holding)). t \<notin> {''C'', ''A''}]
      = [Call_sell ''B'' 21 monday NO_SIGNAL, Call_sell ''D'' 17 monday NO_SIGNAL]"
    by (simp add: holding_def monday_prices_def List.map_filter_simps)
  from c5 have "\<forall>t \<in> held (portfolio holding) - {''C'', ''A''}.
        case monday_prices t of
          None \<Rightarrow> map_of (positions (portfolio
                    (outcome (rebalance_portfolio (example_world verdicts) monday holding)))) t
                  = map_of (positions (portfolio holding)) t
        | Some price \<Rightarrow> 0 < price \<longrightarrow> t \<notin> held (portfolio
                    (outcome (rebalance_portfolio (example_world verdicts) monday holding)))"
    by (rule conjunct2 [THEN conjunct2])
  from bspec [OF this b] have gone: "''B'' \<notin> held (portfolio
      (outcome (rebalance_portfolio (example_world verdicts) monday holding)))"
    by (simp add: p)
  from c5 have "\<exists>sells bought.
      ledger_calls (outcome (rebalance_portfolio (example_world verdicts) monday holding)) =
        ledger_calls holding @ [Call_update_prices, Call_apply_selic_to_cash monday selic_daily] @
        sells @ bought \<and>
      mset sells = mset (List.map_filter
          (\<lambda>t. map_option (\<lambda>price. Call_sell t price monday NO_SIGNAL) (monday_prices t))
          [t \<leftarrow> map fst (positions (portfolio holding)). t \<notin> {''C'', ''A''}]) \<and>
      (\<forall>c \<in> set bought. \<exists>t price pct sl tp why. c = Call_buy t price pct monday sl tp why)"
    by (rule conjunct2 [THEN conjunct1])
  then have calls: "\<exists>sells bought.
      ledger_calls (outcome (rebalance_portfolio (example_world verdicts) monday holding)) =
        ledger_calls holding @ [Call_update_prices, Call_apply_selic_to_cash monday selic_daily] @
        sells @ bought \<and>
      mset sells = {#Call_sell ''B'' 21 monday NO_SIGNAL, Call_sell ''D'' 17 monday NO_SIGNAL#} \<and>
      (\<forall>c \<in> set bought. \<exists>t price pct sl tp why. c = Call_buy t price pct monday sl tp why)"
    unfolding sells by (simp only: mset.simps add_mset_commute)
  show ?thesis
    by (intro conjI holding_fields(1,2) row example_analyse example_keep b p gone calls)
qed

section \<open>The allocation of a rebalance\<close>

text \<open>
  Claim C4. On every rebalance the triple of buy, hold and cash allocation is chosen from
  the number \<open>n\<close> of signals whose verdict is BUY by the step function: 15 or more give
  90, 5 and 5 percent, 10 or more give 80, 10 and 10 percent, 5 or more give 60, 25 and
  15 percent, and fewer give 40, 45 and 15 percent. This is the triple that
  \<^verbatim>\<open>rebalance_portfolio\<close> computes and uses: every call of \<^verbatim>\<open>buy\<close> that the
  rebalance makes has either the reason \<^verbatim>\<open>REBALANCE\<close> and as target percentage the
  buy allocation of the triple, divided among at most 15 BUY signals, or the reason
  \<^verbatim>\<open>HOLD_EXPOSURE\<close> and the hold allocation of the triple, divided among at most 20
  HOLD signals; and the first ranked BUY signal, when its ticker has a price and is not
  held and the capital is not zero, is bought with that percentage.
\<close>

theorem C4_allocation:
  assumes "price_data e = Some table" "map_of (rows table) date = Some current_prices"
    "universe_tickers e = Some universe" "analyse w date universe = Inr decisions"
    and n: "n = length [d \<leftarrow> decisions. verdict d = Verdict_BUY]"
    and m: "m = length [d \<leftarrow> decisions. verdict d = Verdict_HOLD]"
    and triple: "(buy_allocation, hold_allocation, cash_target) =
        (if 15 \<le> n then (90 / 100, 5 / 100, 5 / 100)
         else if 10 \<le> n then (80 / 100, 10 / 100, 10 / 100)
         else if 5 \<le> n then (60 / 100, 25 / 100, 15 / 100)
         else (40 / 100, 45 / 100, 15 / 100))"
    and total: "total_capital = total_value (apply_selic_to_cash date selic_daily
                                   (update_prices current_prices (portfolio e)))"
    and e': "e' = outcome (rebalance_portfolio w date e)"
  shows
    "allocation (length (buy_signals decisions))
       = (buy_allocation, hold_allocation, cash_target) \<and>
     (\<forall>t price pct d sl tp why.
        Call_buy t price pct d sl tp why
          \<in> set (drop (length (ledger_calls e)) (ledger_calls e')) \<longrightarrow>
        why = REBALANCE \<and>
        pct = total_capital * buy_allocation / of_nat (min 15 (max 1 n)) /
              total_capital * 100 \<or>
        why = HOLD_EXPOSURE \<and>
        pct = total_capital * hold_allocation / of_nat (min 20 (max 1 m)) /
              total_capital * 100) \<and>
     (\<forall>s rest price.
        total_capital \<noteq> 0 \<and> buy_signals decisions = s # rest \<and>
        current_prices (ticker s) = Some price \<and> ticker s \<notin> held (portfolio e) \<longrightarrow>
        Call_buy (ticker s) price
            (total_capital * buy_allocation / of_nat (min 15 (max 1 n)) /
             total_capital * 100)
            date (stop_loss s) (take_profit s) REBALANCE
          \<in> set (drop (length (ledger_calls e)) (ledger_calls e')))"
proof -
  have lb: "length (buy_signals decisions) = n"
    by (simp add: buy_signals_def rank_def n)
  have lh: "length (hold_signals decisions) = m"
    by (simp add: hold_signals_def rank_def m)
  have al: "allocation n = (buy_allocation, hold_allocation, cash_target)"
    unfolding allocation_def triple by simp
  then have a1: "fst (allocation n) = buy_allocation"
    and a2: "fst (snd (allocation n)) = hold_allocation"
    by simp_all
  note pct = rebalance_buy_pct [OF assms(1-4), folded total e', unfolded lb lh a1 a2]
  then obtain cs where cs: "ledger_calls e' = ledger_calls e @ cs"
    and all: "\<forall>t price pct d sl tp why. Call_buy t price pct d sl tp why \<in> set cs \<longrightarrow>
        why = REBALANCE \<and>
        pct = total_capital * buy_allocation / of_nat (min 15 (max 1 n)) /
              total_capital * 100 \<or>
        why = HOLD_EXPOSURE \<and>
        pct = total_capital * hold_allocation / of_nat (min 20 (max 1 m)) /
              total_capital * 100"
    by blast
  have 2: "\<forall>t price pct d sl tp why.
        Call_buy t price pct d sl tp why
          \<in> set (drop (length (ledger_calls e)) (ledger_calls e')) \<longrightarrow>
        why = REBALANCE \<and>
        pct = total_capital * buy_allocation / of_nat (min 15 (max 1 n)) /
              total_capital * 100 \<or>
        why = HOLD_EXPOSURE \<and>
        pct = total_capital * hold_allocation / of_nat (min 20 (max 1 m)) /
              total_capital * 100"
    unfolding cs using all by simp
  have 3: "\<forall>s rest price.
        total_capital \<noteq> 0 \<and> buy_signals decisions = s # rest \<and>
        current_prices (ticker s) = Some price \<and> ticker s \<notin> held (portfolio e) \<longrightarrow>
        Call_buy (ticker s) price
            (total_capital * buy_allocation / of_nat (min 15 (max 1 n)) /
             total_capital * 100)
            date (stop_loss s) (take_profit s) REBALANCE
          \<in> set (drop (length (ledger_calls e)) (ledger_calls e'))"
  proof (intro allI impI)
    fix s rest price
    assume h: "total_capital \<noteq> 0 \<and> buy_signals decisions = s # rest \<and>
        current_prices (ticker s) = Some price \<and> ticker s \<notin> held (portfolio e)"
    then have t: "total_value (apply_selic_to_cash date selic_daily
        (update_prices current_prices (portfolio e))) \<noteq> 0"
      and first: "buy_signals decisions = s # rest"
      and price: "current_prices (ticker s) = Some price"
      and fresh: "ticker s \<notin> held (portfolio e)"
      by (simp_all add: total)
    note fb = rebalance_first_buy [OF assms(1-4) t first price fresh,
        folded total e', unfolded lb a1]
    then obtain before after where "ledger_calls e' = ledger_calls e @ before @
        [Call_buy (ticker s) price
           (total_capital * buy_allocation / of_nat (min 15 (max 1 n)) / total_capital * 100)
           date (stop_loss s) (take_profit s) REBALANCE] @ after"
      by blast
    then show "Call_buy (ticker s) price
            (total_capital * buy_allocation / of_nat (min 15 (max 1 n)) /
             total_capital * 100)
            date (stop_loss s) (take_profit s) REBALANCE
          \<in> set (drop (length (ledger_calls e)) (ledger_calls e'))"
      by simp
  qed
  from al have 1: "allocation (length (buy_signals decisions))
       = (buy_allocation, hold_allocation, cash_target)"
    by (simp only: lb)
  show ?thesis
    by (rule conjI [OF 1 conjI [OF 2 3]])
qed

theorem C4_allocation_witness:
  "price_data holding = Some \<lparr>columns = [''A'', ''B'', ''C'', ''D''],
                               rows = [(monday, monday_prices)]\<rparr> \<and>
   map_of (rows \<lparr>columns = [''A'', ''B'', ''C'', ''D''], rows = [(monday, monday_prices)]\<rparr>)
     monday = Some monday_prices \<and>
   universe_tickers holding = Some [''A'', ''B'', ''C'', ''D''] \<and>
   analyse (example_world verdicts) monday [''A'', ''B'', ''C'', ''D''] = Inr monday_decisions \<and>
   (1::nat) = length [d \<leftarrow> monday_decisions. verdict d = Verdict_BUY] \<and>
   (1::nat) = length [d \<leftarrow> monday_decisions. verdict d = Verdict_HOLD] \<and>
   total_value (apply_selic_to_cash monday selic_daily
      (update_prices monday_prices (portfolio holding))) = 29287 / 4 \<and>
   buy_signals monday_decisions =
     [\<lparr>ticker = ''C'', verdict = Verdict_BUY, position_size = 5, confidence = Some (8 / 10),
       stop_loss = 25, take_profit = 40, analyst_score = Some 70\<rparr>] \<and>
   monday_prices ''C'' = Some 30 \<and>
   ''C'' \<notin> held (portfolio holding) \<and>
   allocation (length (buy_signals monday_decisions)) = (40 / 100, 45 / 100, 15 / 100) \<and>
   Call_buy ''C'' 30 40 monday 25 40 REBALANCE
     \<in> set (ledger_calls (outcome (rebalance_portfolio (example_world verdicts) monday holding)))"
proof -
  let ?s = "\<lparr>ticker = ''C'', verdict = Verdict_BUY, position_size = 5,
      confidence = Some (8 / 10), stop_loss = 25, take_profit = 40,
      analyst_score = Some 70\<rparr>"
  have row: "map_of (rows \<lparr>columns = [''A'', ''B'', ''C'', ''D''],
      rows = [(monday, monday_prices)]\<rparr>) monday = Some monday_prices"
    by simp
  have nb: "(1::nat) = length [d \<leftarrow> monday_decisions. verdict d = Verdict_BUY]"
    and nh: "(1::nat) = length [d \<leftarrow> monday_decisions. verdict d = Verdict_HOLD]"
    by (simp_all add: monday_decisions_def)
  have triple: "(40 / 100, 45 / 100, 15 / 100 :: rat) =
        (if 15 \<le> (1::nat) then (90 / 100, 5 / 100, 5 / 100)
         else if 10 \<le> (1::nat) then (80 / 100, 10 / 100, 10 / 100)
         else if 5 \<le> (1::nat) then (60 / 100, 25 / 100, 15 / 100)
         else (40 / 100, 45 / 100, 15 / 100))"
    by simp
  have tv: "total_value (apply_selic_to_cash monday selic_daily
      (update_prices monday_prices (portfolio holding))) = 29287 / 4"
    by (simp add: total_value_def positions_value_def apply_selic_to_cash_def
          update_prices_def holding_def monday_prices_def bought_at_def selic_daily_def)
  have p: "monday_prices ''C'' = Some 30"
    by (simp add: monday_prices_def)
  have h: "''C'' \<notin> held (portfolio holding)"
    by (simp add: holding_def held_def)
  have l: "ledger_calls holding = []"
    by (simp add: holding_def)
  note c4 = C4_allocation [OF holding_fields(1) row holding_fields(2) example_analyse
      nb nh triple refl refl]
  from c4 have al: "allocation (length (buy_signals monday_decisions))
      = (40 / 100, 45 / 100, 15 / 100)"
    by (rule conjunct1)
  have hyp: "total_value (apply_selic_to_cash monday selic_daily
        (update_prices monday_prices (portfolio holding))) \<noteq> 0 \<and>
      buy_signals monday_decisions = ?s # [] \<and>
      monday_prices (ticker ?s) = Some 30 \<and> ticker ?s \<notin> held (portfolio holding)"
    using tv p h by (simp add: example_signals)
  from c4 [THEN conjunct2, THEN conjunct2, rule_format, OF hyp]
  have "Call_buy (ticker ?s) 30
      (total_value (apply_selic_to_cash monday selic_daily
          (update_prices monday_prices (portfolio holding))) * (40 / 100) /
       of_nat (min 15 (max 1 1)) /
       total_value (apply_selic_to_cash monday selic_daily
          (update_prices monday_prices (portfolio holding))) * 100)
      monday (stop_loss ?s) (take_profit ?s) REBALANCE
    \<in> set (drop (length (ledger_calls holding))
        (ledger_calls (outcome (rebalance_portfolio (example_world verdicts) monday holding))))" .
  then have bought: "Call_buy ''C'' 30 40 monday 25 40 REBALANCE
     \<in> set (ledger_calls (outcome (rebalance_portfolio (example_world verdicts) monday holding)))"
    by (simp add: tv l)
  show ?thesis
    by (intro conjI holding_fields(1,2) row example_analyse nb nh tv example_signals(1)
          p h al bought)
qed

section \<open>The order of a day and of the run\<close>

lemma rebalance_cases [case_names untouched prepared analysed]:
  assumes "outcome (rebalance_portfolio w date e) = e \<Longrightarrow> P"
    and "\<And>current_prices. outcome (rebalance_portfolio w date e) =
           call_apply_selic_to_cash date selic_daily (call_update_prices current_prices e)
           \<Longrightarrow> P"
    and "\<And>table current_prices universe decisions.
           price_data e = Some table \<Longrightarrow> map_of (rows table) date = Some current_prices \<Longrightarrow>
           universe_tickers e = Some universe \<Longrightarrow>
           analyse w date universe = Inr decisions \<Longrightarrow> P"
  shows P
proof (cases "price_data e")
  case None
  then have "outcome (rebalance_portfolio w date e) = e"
    by (simp add: rebalance_portfolio_def)
  then show P by (rule assms(1))
next
  case table: (Some table)
  show P
  proof (cases "map_of (rows table) date")
    case None
    with table have "outcome (rebalance_portfolio w date e) = e"
      by (simp add: rebalance_portfolio_def)
    then show P by (rule assms(1))
  next
    case row: (Some current_prices)
    show P
    proof (cases "universe_tickers e")
      case None
      then have "universe_tickers (call_apply_selic_to_cash date selic_daily
          (call_update_prices current_prices e)) = None"
        by (simp add: call_apply_selic_to_cash_def call_update_prices_def)
      with table row have "outcome (rebalance_portfolio w date e) =
          call_apply_selic_to_cash date selic_daily (call_update_prices current_prices e)"
        by (simp add: rebalance_portfolio_def Let_def)
      then show P by (rule assms(2))
    next
      case un: (Some universe)
      show P
      proof (cases "analyse w date universe")
        case (Inl failure)
        from rebalance_interrupted [OF table row un Inl]
        have "outcome (rebalance_portfolio w date e) =
          call_apply_selic_to_cash date selic_daily (call_update_prices current_prices e)"
          by simp
        then show P by (rule assms(2))
      next
        case (Inr decisions)
        from table row un Inr show P by (rule assms(3))
      qed
    qed
  qed
qed

lemma rebalance_calls:
  "\<exists>strategy. ledger_calls (outcome (rebalance_portfolio w date e)) = ledger_calls e @ strategy \<and>
     (\<forall>c \<in> set strategy.
         c = Call_update_prices \<or> c = Call_apply_selic_to_cash date selic_daily \<or>
         (\<exists>t price. c = Call_sell t price date NO_SIGNAL \<and> t \<in> held (portfolio e)) \<or>
         (\<exists>t price pct sl tp why. c = Call_buy t price pct date sl tp why))"
proof (cases rule: rebalance_cases [of w date e])
  case untouched
  then show ?thesis by simp
next
  case (prepared current_prices)
  then show ?thesis by (simp add: prepared_portfolio)
next
  case (analysed table current_prices universe decisions)
  let ?keep = "keep_tickers (buy_signals decisions) (hold_signals decisions)"
  let ?sells = "List.map_filter
       (\<lambda>t. map_option (\<lambda>price. Call_sell t price date NO_SIGNAL) (current_prices t))
       [t \<leftarrow> map fst (positions (portfolio e)). t \<notin> ?keep]"
  from rebalance_combined [OF analysed] obtain bought where
    calls: "ledger_calls (outcome (rebalance_portfolio w date e)) =
       ledger_calls e @ [Call_update_prices, Call_apply_selic_to_cash date selic_daily] @
       ?sells @ bought"
    and bought: "\<forall>c \<in> set bought. \<exists>t price pct sl tp why.
         c = Call_buy t price pct date sl tp why \<and> t \<in> ?keep \<and> t \<notin> held (portfolio e)"
    by blast
  have sells: "\<forall>c \<in> set ?sells.
      \<exists>t price. c = Call_sell t price date NO_SIGNAL \<and> t \<in> held (portfolio e)"
    by (force simp: in_set_map_filter held_def image_iff)
  have "\<forall>c \<in> set ([Call_update_prices, Call_apply_selic_to_cash date selic_daily] @
                    ?sells @ bought).
     c = Call_update_prices \<or> c = Call_apply_selic_to_cash date selic_daily \<or>
     (\<exists>t price. c = Call_sell t price date NO_SIGNAL \<and> t \<in> held (portfolio e)) \<or>
     (\<exists>t price pct sl tp why. c = Call_buy t price pct date sl tp why)"
    using sells bought by (simp add: ball_Un) blast
  with calls show ?thesis by blast
qed

lemma rebalance_price_data:
  "price_data (outcome (rebalance_portfolio w date e)) = price_data e"
proof (cases rule: rebalance_cases [of w date e])
  case untouched
  then show ?thesis by simp
next
  case (prepared current_prices)
  then show ?thesis
    by (simp add: call_apply_selic_to_cash_def call_update_prices_def)
next
  case (analysed table current_prices universe decisions)
  then show ?thesis
  proof (induction rule: rebalance_induct)
    case sold
    have "price_data (call_apply_selic_to_cash date selic_daily
        (call_update_prices current_prices e)) = price_data e"
      by (simp add: call_apply_selic_to_cash_def call_update_prices_def)
    then show ?case
      by (rule sell_loop_induct [where Q = "\<lambda>e'. price_data e' = price_data e"])
         (simp add: call_sell_def split_beta)
  next
    case (bought pct why signals e')
    from bought(1) show ?case
      by (rule buy_loop_induct [where Q = "\<lambda>e'. price_data e' = price_data e"])
         (simp add: call_buy_def split_beta)
  next
    case (recorded e' ds rd)
    then show ?case by simp
  qed
qed

lemma record_engine:
  "ledger_calls (call_record_state date e) = ledger_calls e @ [Call_record_state date]"
  "history (portfolio (call_record_state date e)) \<noteq> []"
  "snap_date (last (history (portfolio (call_record_state date e)))) = date"
  "price_data (call_record_state date e) = price_data e"
  by (simp_all add: call_record_state_def record_state_def Let_def)

lemma run_day_unfold:
  assumes "price_data e = Some table" "map_of (rows table) date = Some current_prices"
  shows "run_day w rebalance_days date e =
     (case (if date \<in> set rebalance_days
            then rebalance_portfolio w date
                   (call_check_stops date (call_apply_selic_to_cash date (35 / 100000)
                      (call_update_prices current_prices e)))
            else Inr (call_check_stops date (call_apply_selic_to_cash date (35 / 100000)
                      (call_update_prices current_prices e)))) of
        Inl failure \<Rightarrow> Inl failure
      | Inr e4 \<Rightarrow> Inr (call_record_state date e4))"
  by (simp add: run_day_def assms Let_def)

lemma run_day_calls:
  assumes table: "price_data e = Some table"
    and row: "map_of (rows table) date = Some current_prices"
    and e3: "e3 = call_check_stops date (call_apply_selic_to_cash date (35 / 100000)
                    (call_update_prices current_prices e))"
    and r: "r = run_day w rebalance_days date e"
  shows "\<exists>strategy.
        ledger_calls (outcome r) =
          ledger_calls e @
          [Call_update_prices, Call_apply_selic_to_cash date (35 / 100000),
           Call_check_stops date] @
          strategy @ (if isl r then [] else [Call_record_state date]) \<and>
        (date \<notin> set rebalance_days \<longrightarrow> strategy = []) \<and>
        (\<forall>c \<in> set strategy.
           c = Call_update_prices \<or> c = Call_apply_selic_to_cash date selic_daily \<or>
           (\<exists>t price. c = Call_sell t price date NO_SIGNAL \<and> t \<in> held (portfolio e3)) \<or>
           (\<exists>t price pct sl tp why. c = Call_buy t price pct date sl tp why))"
proof -
  have 1: "r = (case (if date \<in> set rebalance_days then rebalance_portfolio w date e3 else Inr e3) of
            Inl failure \<Rightarrow> Inl failure
          | Inr e4 \<Rightarrow> Inr (call_record_state date e4))"
    unfolding r e3 by (rule run_day_unfold [OF table row])
  have c3: "ledger_calls e3 = ledger_calls e @
      [Call_update_prices, Call_apply_selic_to_cash date (35 / 100000), Call_check_stops date]"
    unfolding e3 by (rule stops_engine)
  show ?thesis
  proof (cases "date \<in> set rebalance_days")
    case False
    with 1 have r': "r = Inr (call_record_state date e3)" by simp
    have "ledger_calls (outcome r) = ledger_calls e @
          [Call_update_prices, Call_apply_selic_to_cash date (35 / 100000),
           Call_check_stops date] @ [] @ (if isl r then [] else [Call_record_state date])"
      by (simp add: r' record_engine c3)
    then show ?thesis
      by (intro exI [of _ "[]"]) simp
  next
    case True
    from rebalance_calls [of w date e3] obtain strategy where
      calls: "ledger_calls (outcome (rebalance_portfolio w date e3)) = ledger_calls e3 @ strategy"
      and all: "\<forall>c \<in> set strategy.
         c = Call_update_prices \<or> c = Call_apply_selic_to_cash date selic_daily \<or>
         (\<exists>t price. c = Call_sell t price date NO_SIGNAL \<and> t \<in> held (portfolio e3)) \<or>
         (\<exists>t price pct sl tp why. c = Call_buy t price pct date sl tp why)"
      by blast
    have "ledger_calls (outcome r) = ledger_calls e @
          [Call_update_prices, Call_apply_selic_to_cash date (35 / 100000),
           Call_check_stops date] @ strategy @ (if isl r then [] else [Call_record_state date])"
    proof (cases "rebalance_portfolio w date e3")
      case (Inl failure)
      obtain err e4 where "failure = (err, e4)" by (cases failure)
      with Inl True 1 calls show ?thesis
        by (simp add: c3)
    next
      case (Inr e4)
      with True 1 calls show ?thesis
        by (simp add: c3 record_engine)
    qed
    with True all show ?thesis
      by (intro exI [of _ strategy]) simp
  qed
qed

lemma run_day_day_calls:
  assumes table: "price_data e = Some table"
    and row: "map_of (rows table) date = Some current_prices"
  shows "\<exists>calls. ledger_calls (outcome (run_day w rebalance_days date e)) = ledger_calls e @ calls \<and>
     day_calls rebalance_days date (\<not> isl (run_day w rebalance_days date e)) calls \<and>
     (isl (run_day w rebalance_days date e) \<longrightarrow> date \<in> set rebalance_days)"
proof -
  let ?r = "run_day w rebalance_days date e"
  from run_day_calls [OF table row refl refl, of w rebalance_days] obtain strategy where
    c: "ledger_calls (outcome ?r) =
          ledger_calls e @
          [Call_update_prices, Call_apply_selic_to_cash date (35 / 100000),
           Call_check_stops date] @
          strategy @ (if isl ?r then [] else [Call_record_state date])"
    and n: "date \<notin> set rebalance_days \<longrightarrow> strategy = []"
    and a: "\<forall>c \<in> set strategy.
           c = Call_update_prices \<or> c = Call_apply_selic_to_cash date selic_daily \<or>
           (\<exists>t price. c = Call_sell t price date NO_SIGNAL \<and>
              t \<in> held (portfolio (call_check_stops date
                    (call_apply_selic_to_cash date (35 / 100000)
                       (call_update_prices current_prices e))))) \<or>
           (\<exists>t price pct sl tp why. c = Call_buy t price pct date sl tp why)"
    by blast
  from a have a': "\<forall>c \<in> set strategy.
           c = Call_update_prices \<or> c = Call_apply_selic_to_cash date selic_daily \<or>
           (\<exists>t price. c = Call_sell t price date NO_SIGNAL) \<or>
           (\<exists>t price pct sl tp why. c = Call_buy t price pct date sl tp why)"
    by blast
  have "[Call_update_prices, Call_apply_selic_to_cash date (35 / 100000),
         Call_check_stops date] @
        strategy @ (if isl ?r then [] else [Call_record_state date]) =
        [Call_update_prices, Call_apply_selic_to_cash date (35 / 100000),
         Call_check_stops date] @
        strategy @ (if \<not> isl ?r then [Call_record_state date] else [])"
    by simp
  with n a' have d: "day_calls rebalance_days date (\<not> isl ?r)
      ([Call_update_prices, Call_apply_selic_to_cash date (35 / 100000),
        Call_check_stops date] @
       strategy @ (if isl ?r then [] else [Call_record_state date]))"
    unfolding day_calls_def by blast
  have i: "isl ?r \<longrightarrow> date \<in> set rebalance_days"
    unfolding run_day_unfold [OF table row] by (simp split: if_splits)
  from c d i show ?thesis by blast
qed

lemma run_day_price_data:
  "price_data (outcome (run_day w rebalance_days date e)) = price_data e"
proof (cases "price_data e")
  case None
  then show ?thesis by (simp add: run_day_def)
next
  case table: (Some table)
  show ?thesis
  proof (cases "map_of (rows table) date")
    case None
    with table show ?thesis by (simp add: run_day_def)
  next
    case row: (Some current_prices)
    let ?e3 = "call_check_stops date (call_apply_selic_to_cash date (35 / 100000)
                 (call_update_prices current_prices e))"
    have p3: "price_data ?e3 = price_data e"
      by (simp add: call_check_stops_def call_apply_selic_to_cash_def call_update_prices_def)
    note r = run_day_unfold [OF table row, of w rebalance_days]
    show ?thesis
    proof (cases "date \<in> set rebalance_days")
      case False
      with p3 show ?thesis by (simp add: r record_engine)
    next
      case True
      show ?thesis
      proof (cases "rebalance_portfolio w date ?e3")
        case (Inl failure)
        obtain err e4 where "failure = (err, e4)" by (cases failure)
        with Inl True rebalance_price_data [of w date ?e3] p3 show ?thesis
          by (simp add: r)
      next
        case (Inr e4)
        with True rebalance_price_data [of w date ?e3] p3 show ?thesis
          by (simp add: r record_engine)
      qed
    qed
  qed
qed

lemma foldl_failed:
  "foldl (\<lambda>r date. case r of Inl failure \<Rightarrow> Inl failure | Inr e \<Rightarrow> f date e) (Inl failure) dates
     = Inl failure"
  by (induction dates) simp_all

lemma main_loop_foldl:
  "main_loop w rebalance_days dates e =
     foldl (\<lambda>r date. case r of Inl failure \<Rightarrow> Inl failure
                      | Inr e \<Rightarrow> run_day w rebalance_days date e) (Inr e) dates"
proof (induction dates arbitrary: e)
  case Nil
  show ?case by simp
next
  case (Cons d dates)
  show ?case
  proof (cases "run_day w rebalance_days d e")
    case (Inl failure)
    then show ?thesis by (simp add: foldl_failed)
  next
    case (Inr e')
    then show ?thesis by (simp add: Cons.IH)
  qed
qed

lemma main_loop_calls:
  assumes "price_data e = Some table" "set dates \<subseteq> fst ` set (rows table)"
  shows "\<exists>days. ledger_calls (outcome (main_loop w rebalance_days dates e))
                  = ledger_calls e @ concat days \<and>
     (if isl (main_loop w rebalance_days dates e)
      then \<exists>finished aborted.
             days = finished @ [aborted] \<and> length finished < length dates \<and>
             list_all2 (\<lambda>d calls. day_calls rebalance_days d True calls)
               (take (length finished) dates) finished \<and>
             day_calls rebalance_days (dates ! length finished) False aborted \<and>
             dates ! length finished \<in> set rebalance_days
      else list_all2 (\<lambda>d calls. day_calls rebalance_days d True calls) dates days)"
  using assms
proof (induction dates arbitrary: e)
  case Nil
  show ?case by (intro exI [of _ "[]"]) simp
next
  case (Cons d dates)
  let ?r = "run_day w rebalance_days d e"
  let ?m = "main_loop w rebalance_days (d # dates) e"
  from Cons.prems(2) obtain current_prices where row: "map_of (rows table) d = Some current_prices"
    by (cases "map_of (rows table) d") (auto simp: map_of_eq_None_iff)
  from run_day_day_calls [OF Cons.prems(1) row, of w rebalance_days] obtain calls where
    c: "ledger_calls (outcome ?r) = ledger_calls e @ calls"
    and dc: "day_calls rebalance_days d (\<not> isl ?r) calls"
    and rd: "isl ?r \<longrightarrow> d \<in> set rebalance_days"
    by blast
  show ?case
  proof (cases ?r)
    case (Inl failure)
    then have m: "?m = Inl failure" by simp
    from Inl dc have dc': "day_calls rebalance_days d False calls" by simp
    from Inl rd have rd': "d \<in> set rebalance_days" by simp
    from c Inl have l: "ledger_calls (outcome ?m) = ledger_calls e @ concat [calls]"
      by (simp add: m del: main_loop.simps)
    have "\<exists>finished aborted.
             [calls] = finished @ [aborted] \<and> length finished < length (d # dates) \<and>
             list_all2 (\<lambda>d calls. day_calls rebalance_days d True calls)
               (take (length finished) (d # dates)) finished \<and>
             day_calls rebalance_days ((d # dates) ! length finished) False aborted \<and>
             (d # dates) ! length finished \<in> set rebalance_days"
      using dc' rd' by (rule_tac x = "[]" in exI, rule_tac x = calls in exI) simp
    with l m show ?thesis
      by (intro exI [of _ "[calls]"]) (simp del: main_loop.simps)
  next
    case (Inr e')
    then have m: "?m = main_loop w rebalance_days dates e'" by simp
    from Inr run_day_price_data [of w rebalance_days d e] Cons.prems(1)
    have pd': "price_data e' = Some table" by simp
    from Cons.prems(2) have sub: "set dates \<subseteq> fst ` set (rows table)" by simp
    from Cons.IH [OF pd' sub] obtain days where
      l: "ledger_calls (outcome (main_loop w rebalance_days dates e'))
            = ledger_calls e' @ concat days"
      and sh: "if isl (main_loop w rebalance_days dates e')
         then \<exists>finished aborted.
             days = finished @ [aborted] \<and> length finished < length dates \<and>
             list_all2 (\<lambda>d calls. day_calls rebalance_days d True calls)
               (take (length finished) dates) finished \<and>
             day_calls rebalance_days (dates ! length finished) False aborted \<and>
             dates ! length finished \<in> set rebalance_days
         else list_all2 (\<lambda>d calls. day_calls rebalance_days d True calls) dates days"
      by blast
    from Inr dc have dc': "day_calls rebalance_days d True calls" by simp
    from Inr c have c': "ledger_calls e' = ledger_calls e @ calls" by simp
    have l': "ledger_calls (outcome ?m) = ledger_calls e @ concat (calls # days)"
      by (simp add: m l c' del: main_loop.simps)
    show ?thesis
    proof (cases "isl (main_loop w rebalance_days dates e')")
      case True
      with sh obtain finished aborted where
        f: "days = finished @ [aborted]" "length finished < length dates"
          "list_all2 (\<lambda>d calls. day_calls rebalance_days d True calls)
               (take (length finished) dates) finished"
          "day_calls rebalance_days (dates ! length finished) False aborted"
          "dates ! length finished \<in> set rebalance_days"
        by auto
      have "\<exists>finished' aborted'.
             calls # days = finished' @ [aborted'] \<and>
             length finished' < length (d # dates) \<and>
             list_all2 (\<lambda>d calls. day_calls rebalance_days d True calls)
               (take (length finished') (d # dates)) finished' \<and>
             day_calls rebalance_days ((d # dates) ! length finished') False aborted' \<and>
             (d # dates) ! length finished' \<in> set rebalance_days"
        using f dc'
        by (rule_tac x = "calls # finished" in exI, rule_tac x = aborted in exI) simp
      with l' True show ?thesis
        by (intro exI [of _ "calls # days"]) (simp add: m del: main_loop.simps)
    next
      case False
      with sh dc' have "list_all2 (\<lambda>d calls. day_calls rebalance_days d True calls)
          (d # dates) (calls # days)"
        by simp
      with l' False show ?thesis
        by (intro exI [of _ "calls # days"]) (simp add: m del: main_loop.simps)
    qed
  qed
qed

lemma run_unfold:
  assumes "prepare_data w e0 = Inr e1" "price_data e1 = Some index"
    "get_rebalance_dates (rebalance_frequency e1) (map fst (rows index)) = Inr rebalance_days"
  shows "run w e0 = main_loop w rebalance_days (map fst (rows index)) e1"
  by (simp add: run_def assms)

lemma example_run_verdicts:
  "run (example_world verdicts)
       (BacktestEngine 1000000 ''weekly'' (Some [''X'']) (1 / 1000) 2 10 True) = Inr e \<Longrightarrow>
     ledger_calls e =
       [Call_update_prices, Call_apply_selic_to_cash monday (35 / 100000),
        Call_check_stops monday,
        Call_update_prices, Call_apply_selic_to_cash monday (35 / 100000),
        Call_record_state monday,
        Call_update_prices, Call_apply_selic_to_cash tuesday (35 / 100000),
        Call_check_stops tuesday, Call_record_state tuesday]"
  "\<not> isl (run (example_world verdicts)
       (BacktestEngine 1000000 ''weekly'' (Some [''X'']) (1 / 1000) 2 10 True))"
  unfolding run_def example_prepare
  by (auto simp add: get_rebalance_dates_def example_days run_day_def
        rebalance_portfolio_def run_agents_for_ticker_def example_world_def verdicts_def
        BacktestEngine_def Portfolio_def
        call_update_prices_def call_apply_selic_to_cash_def call_check_stops_def
        call_record_state_def update_prices_def apply_selic_to_cash_def check_stops_def
        record_state_def buy_signals_def hold_signals_def rank_def allocation_def
        keep_tickers_def total_value_def positions_value_def exposure_def selic_daily_def
        Let_def)

text \<open>
  Claim C2. On every trading day the main loop updates the prices from the day's row,
  applies the accrual, runs the stop check, then runs the rebalancing strategy if and
  only if the day is a rebalance date, then records the day's snapshot. The ledger calls
  of the day are these, in this order; the strategy makes no call on a day that is not
  a rebalance date, and otherwise calls only the price update, the accrual,
  \<^verbatim>\<open>sell\<close> with reason \<^verbatim>\<open>NO_SIGNAL\<close> and \<^verbatim>\<open>buy\<close>. Every position that the stop check
  sold is no longer held when the strategy starts, and the strategy sells only tickers
  that are held then. A day on which the strategy raises ends without a snapshot.

  The run, once the data are prepared and the rebalance dates computed, is this day
  done for each date of the index of the price table, in the order of the index, each
  day on the engine that the day before left, up to the first day that raises: the
  ledger calls of the run are the calls of the days, one block for each date in order,
  every block of the shape above and every day but an aborted one ending with its
  snapshot; a day aborts only on a rebalance date, and no day follows it.
\<close>

theorem C2_order_of_the_day:
  "(price_data e = Some table \<and> map_of (rows table) date = Some current_prices \<and>
    checked = call_check_stops date (call_apply_selic_to_cash date (35 / 100000)
           (call_update_prices current_prices e)) \<and>
    r = run_day w rebalance_days date e \<longrightarrow>
      r = (case (if date \<in> set rebalance_days then rebalance_portfolio w date checked
                 else Inr checked) of
             Inl failure \<Rightarrow> Inl failure
           | Inr e4 \<Rightarrow> Inr (call_record_state date e4)) \<and>
      (\<exists>strategy.
         ledger_calls (outcome r) =
           ledger_calls e @
           [Call_update_prices, Call_apply_selic_to_cash date (35 / 100000),
            Call_check_stops date] @
           strategy @ (if isl r then [] else [Call_record_state date]) \<and>
         (date \<notin> set rebalance_days \<longrightarrow> strategy = []) \<and>
         (\<forall>c \<in> set strategy.
            c = Call_update_prices \<or> c = Call_apply_selic_to_cash date selic_daily \<or>
            (\<exists>t price. c = Call_sell t price date NO_SIGNAL \<and> t \<in> held (portfolio checked)) \<or>
            (\<exists>t price pct sl tp why. c = Call_buy t price pct date sl tp why))) \<and>
      (\<exists>stopped.
         trades (portfolio checked) = trades (portfolio e) @ stopped \<and>
         (\<forall>tr \<in> set stopped.
            trade_action tr = SELL \<and>
            (trade_reason tr = STOP_LOSS \<or> trade_reason tr = TAKE_PROFIT) \<and>
            trade_ticker tr \<in> held (portfolio e) \<and> trade_ticker tr \<notin> held (portfolio checked))) \<and>
      (\<not> isl r \<longrightarrow> snap_date (last (history (portfolio (outcome r)))) = date)) \<and>
   (prepare_data w initial = Inr prepared \<and> price_data prepared = Some index \<and>
    dates = map fst (rows index) \<and>
    get_rebalance_dates (rebalance_frequency prepared) dates = Inr rebalance_days \<longrightarrow>
      run w initial =
        foldl (\<lambda>r date. case r of Inl failure \<Rightarrow> Inl failure
                         | Inr e \<Rightarrow> run_day w rebalance_days date e) (Inr prepared) dates \<and>
      (\<exists>days.
         ledger_calls (outcome (run w initial)) = ledger_calls initial @ concat days \<and>
         (if isl (run w initial)
          then \<exists>finished aborted.
                 days = finished @ [aborted] \<and> length finished < length dates \<and>
                 list_all2 (\<lambda>d calls. day_calls rebalance_days d True calls)
                   (take (length finished) dates) finished \<and>
                 day_calls rebalance_days (dates ! length finished) False aborted \<and>
                 dates ! length finished \<in> set rebalance_days
          else list_all2 (\<lambda>d calls. day_calls rebalance_days d True calls) dates days)))"
proof (intro conjI impI)
  assume h: "price_data e = Some table \<and> map_of (rows table) date = Some current_prices \<and>
    checked = call_check_stops date (call_apply_selic_to_cash date (35 / 100000)
           (call_update_prices current_prices e)) \<and>
    r = run_day w rebalance_days date e"
  then have table: "price_data e = Some table"
    and row: "map_of (rows table) date = Some current_prices"
    and e3: "checked = call_check_stops date (call_apply_selic_to_cash date (35 / 100000)
                    (call_update_prices current_prices e))"
    and r: "r = run_day w rebalance_days date e"
    by simp_all
  have 1: "r = (case (if date \<in> set rebalance_days then rebalance_portfolio w date checked
                      else Inr checked) of
            Inl failure \<Rightarrow> Inl failure
          | Inr e4 \<Rightarrow> Inr (call_record_state date e4))"
    unfolding r e3 by (rule run_day_unfold [OF table row])
  have 2: "\<exists>strategy.
         ledger_calls (outcome r) =
           ledger_calls e @
           [Call_update_prices, Call_apply_selic_to_cash date (35 / 100000),
            Call_check_stops date] @
           strategy @ (if isl r then [] else [Call_record_state date]) \<and>
         (date \<notin> set rebalance_days \<longrightarrow> strategy = []) \<and>
         (\<forall>c \<in> set strategy.
            c = Call_update_prices \<or> c = Call_apply_selic_to_cash date selic_daily \<or>
            (\<exists>t price. c = Call_sell t price date NO_SIGNAL \<and> t \<in> held (portfolio checked)) \<or>
            (\<exists>t price pct sl tp why. c = Call_buy t price pct date sl tp why))"
    by (rule run_day_calls [OF table row e3 r])
  have 3: "\<exists>stopped.
        trades (portfolio checked) = trades (portfolio e) @ stopped \<and>
        (\<forall>tr \<in> set stopped.
           trade_action tr = SELL \<and>
           (trade_reason tr = STOP_LOSS \<or> trade_reason tr = TAKE_PROFIT) \<and>
           trade_ticker tr \<in> held (portfolio e) \<and> trade_ticker tr \<notin> held (portfolio checked))"
    using check_stops_effect [of date "apply_selic_to_cash date (35 / 100000)
         (update_prices current_prices (portfolio e))"]
    unfolding e3 stops_engine prepared_ledger by blast
  have 4: "\<not> isl r \<longrightarrow> snap_date (last (history (portfolio (outcome r)))) = date"
  proof
    assume "\<not> isl r"
    with 1 obtain e4 where "r = Inr (call_record_state date e4)"
      by (auto split: sum.splits if_splits)
    then show "snap_date (last (history (portfolio (outcome r)))) = date"
      by (simp add: record_engine)
  qed
  show "r = (case (if date \<in> set rebalance_days then rebalance_portfolio w date checked
                   else Inr checked) of
             Inl failure \<Rightarrow> Inl failure
           | Inr e4 \<Rightarrow> Inr (call_record_state date e4))"
    by (rule 1)
  show "\<exists>strategy.
         ledger_calls (outcome r) =
           ledger_calls e @
           [Call_update_prices, Call_apply_selic_to_cash date (35 / 100000),
            Call_check_stops date] @
           strategy @ (if isl r then [] else [Call_record_state date]) \<and>
         (date \<notin> set rebalance_days \<longrightarrow> strategy = []) \<and>
         (\<forall>c \<in> set strategy.
            c = Call_update_prices \<or> c = Call_apply_selic_to_cash date selic_daily \<or>
            (\<exists>t price. c = Call_sell t price date NO_SIGNAL \<and> t \<in> held (portfolio checked)) \<or>
            (\<exists>t price pct sl tp why. c = Call_buy t price pct date sl tp why))"
    by (rule 2)
  show "\<exists>stopped.
         trades (portfolio checked) = trades (portfolio e) @ stopped \<and>
         (\<forall>tr \<in> set stopped.
            trade_action tr = SELL \<and>
            (trade_reason tr = STOP_LOSS \<or> trade_reason tr = TAKE_PROFIT) \<and>
            trade_ticker tr \<in> held (portfolio e) \<and> trade_ticker tr \<notin> held (portfolio checked))"
    by (rule 3)
  show "snap_date (last (history (portfolio (outcome r)))) = date" if "\<not> isl r"
    using 4 that by simp
next
  assume h: "prepare_data w initial = Inr prepared \<and> price_data prepared = Some index \<and>
    dates = map fst (rows index) \<and>
    get_rebalance_dates (rebalance_frequency prepared) dates = Inr rebalance_days"
  then have prep: "prepare_data w initial = Inr prepared"
    and pd: "price_data prepared = Some index"
    and dates: "dates = map fst (rows index)"
    and rd': "get_rebalance_dates (rebalance_frequency prepared) dates = Inr rebalance_days"
    by blast+
  note rd = rd' [unfolded dates]
  have run: "run w initial = main_loop w rebalance_days dates prepared"
    unfolding dates by (rule run_unfold [OF prep pd rd])
  show "run w initial =
        foldl (\<lambda>r date. case r of Inl failure \<Rightarrow> Inl failure
                         | Inr e \<Rightarrow> run_day w rebalance_days date e) (Inr prepared) dates"
    unfolding run by (rule main_loop_foldl)
  have l: "ledger_calls prepared = ledger_calls initial"
    using prepare_data_Inr [OF prep] by simp
  have sub: "set dates \<subseteq> fst ` set (rows index)"
    by (simp add: dates)
  show "\<exists>days.
         ledger_calls (outcome (run w initial)) = ledger_calls initial @ concat days \<and>
         (if isl (run w initial)
          then \<exists>finished aborted.
                 days = finished @ [aborted] \<and> length finished < length dates \<and>
                 list_all2 (\<lambda>d calls. day_calls rebalance_days d True calls)
                   (take (length finished) dates) finished \<and>
                 day_calls rebalance_days (dates ! length finished) False aborted \<and>
                 dates ! length finished \<in> set rebalance_days
          else list_all2 (\<lambda>d calls. day_calls rebalance_days d True calls) dates days)"
    unfolding run using main_loop_calls [OF pd sub, of w rebalance_days]
    by (simp only: l)
qed

theorem C2_order_of_the_day_witness:
  "price_data holding = Some \<lparr>columns = [''A'', ''B'', ''C'', ''D''],
                               rows = [(monday, monday_prices)]\<rparr> \<and>
   map_of (rows \<lparr>columns = [''A'', ''B'', ''C'', ''D''], rows = [(monday, monday_prices)]\<rparr>)
     monday = Some monday_prices \<and>
   \<not> isl (run_day (example_world verdicts) [monday] monday holding) \<and>
   ledger_calls (outcome (run_day (example_world verdicts) [monday] monday holding)) =
     [Call_update_prices, Call_apply_selic_to_cash monday (35 / 100000),
      Call_check_stops monday,
      Call_update_prices, Call_apply_selic_to_cash monday (35 / 100000),
      Call_sell ''B'' 21 monday NO_SIGNAL,
      Call_buy ''C'' 30 40 monday 25 40 REBALANCE,
      Call_record_state monday] \<and>
   snap_date (last (history (portfolio
      (outcome (run_day (example_world verdicts) [monday] monday holding))))) = monday \<and>
   map (\<lambda>tr. (trade_ticker tr, trade_action tr, trade_reason tr))
     (trades (portfolio (call_check_stops monday (call_apply_selic_to_cash monday (35 / 100000)
        (call_update_prices monday_prices holding)))))
     = [(''D'', SELL, STOP_LOSS)] \<and>
   held (portfolio (call_check_stops monday (call_apply_selic_to_cash monday (35 / 100000)
        (call_update_prices monday_prices holding)))) = {''A'', ''B''} \<and>
   (\<exists>stopped.
      trades (portfolio (call_check_stops monday (call_apply_selic_to_cash monday (35 / 100000)
        (call_update_prices monday_prices holding))))
        = trades (portfolio holding) @ stopped \<and>
      (\<forall>tr \<in> set stopped.
         trade_action tr = SELL \<and>
         (trade_reason tr = STOP_LOSS \<or> trade_reason tr = TAKE_PROFIT) \<and>
         trade_ticker tr \<in> held (portfolio holding) \<and>
         trade_ticker tr \<notin> held (portfolio (call_check_stops monday
            (call_apply_selic_to_cash monday (35 / 100000)
               (call_update_prices monday_prices holding)))))) \<and>
   prepare_data (example_world verdicts)
       (BacktestEngine 1000000 ''weekly'' (Some [''X'']) (1 / 1000) 2 10 True)
     = Inr ((BacktestEngine 1000000 ''weekly'' (Some [''X'']) (1 / 1000) 2 10 True)
             \<lparr>price_data := Some \<lparr>columns = [''X''],
                  rows = [(monday, [''X'' \<mapsto> 50]), (tuesday, [''X'' \<mapsto> 51])]\<rparr>,
               cdi_data := Some []\<rparr>) \<and>
   get_rebalance_dates ''weekly'' [monday, tuesday] = Inr [monday] \<and>
   \<not> isl (run (example_world verdicts)
       (BacktestEngine 1000000 ''weekly'' (Some [''X'']) (1 / 1000) 2 10 True)) \<and>
   ledger_calls (outcome (run (example_world verdicts)
       (BacktestEngine 1000000 ''weekly'' (Some [''X'']) (1 / 1000) 2 10 True))) =
     [Call_update_prices, Call_apply_selic_to_cash monday (35 / 100000),
      Call_check_stops monday,
      Call_update_prices, Call_apply_selic_to_cash monday (35 / 100000),
      Call_record_state monday,
      Call_update_prices, Call_apply_selic_to_cash tuesday (35 / 100000),
      Call_check_stops tuesday, Call_record_state tuesday] \<and>
   (\<exists>days.
      ledger_calls (outcome (run (example_world verdicts)
          (BacktestEngine 1000000 ''weekly'' (Some [''X'']) (1 / 1000) 2 10 True)))
        = concat days \<and>
      list_all2 (\<lambda>d calls. day_calls [monday] d True calls) [monday, tuesday] days)"
proof -
  let ?w = "example_world verdicts"
  let ?e0 = "BacktestEngine 1000000 ''weekly'' (Some [''X'']) (1 / 1000) 2 10 True"
  let ?index = "\<lparr>columns = [''X''],
      rows = [(monday, [''X'' \<mapsto> 50::rat]), (tuesday, [''X'' \<mapsto> 51])]\<rparr>"
  let ?e1 = "?e0\<lparr>price_data := Some ?index, cdi_data := Some []\<rparr>"
  let ?e3 = "call_check_stops monday (call_apply_selic_to_cash monday (35 / 100000)
      (call_update_prices monday_prices holding))"
  have row: "map_of (rows \<lparr>columns = [''A'', ''B'', ''C'', ''D''],
      rows = [(monday, monday_prices)]\<rparr>) monday = Some monday_prices"
    by simp
  note c2 = C2_order_of_the_day [where w = ?w and rebalance_days = "[monday]"
      and e = holding and date = monday and current_prices = monday_prices
      and table = "\<lparr>columns = [''A'', ''B'', ''C'', ''D''], rows = [(monday, monday_prices)]\<rparr>"
      and checked = ?e3 and r = "run_day ?w [monday] monday holding"
      and initial = ?e0 and prepared = ?e1 and index = ?index and dates = "[monday, tuesday]"]
  have hyp_day: "price_data holding
        = Some \<lparr>columns = [''A'', ''B'', ''C'', ''D''], rows = [(monday, monday_prices)]\<rparr> \<and>
      map_of (rows \<lparr>columns = [''A'', ''B'', ''C'', ''D''], rows = [(monday, monday_prices)]\<rparr>)
        monday = Some monday_prices \<and>
      ?e3 = ?e3 \<and>
      run_day ?w [monday] monday holding = run_day ?w [monday] monday holding"
    using holding_fields(1) row by simp
  note day = c2 [THEN conjunct1, THEN mp, OF hyp_day]
  have ok: "\<not> isl (run_day ?w [monday] monday holding)"
    using example_day by (simp split: sum.splits)
  have calls: "ledger_calls (outcome (run_day ?w [monday] monday holding)) =
     [Call_update_prices, Call_apply_selic_to_cash monday (35 / 100000),
      Call_check_stops monday,
      Call_update_prices, Call_apply_selic_to_cash monday (35 / 100000),
      Call_sell ''B'' 21 monday NO_SIGNAL,
      Call_buy ''C'' 30 40 monday 25 40 REBALANCE,
      Call_record_state monday]"
    using example_day by (simp split: sum.splits)
  from day ok have snap: "snap_date (last (history (portfolio
      (outcome (run_day ?w [monday] monday holding))))) = monday"
    by blast
  from day have stopped: "\<exists>stopped.
      trades (portfolio ?e3) = trades (portfolio holding) @ stopped \<and>
      (\<forall>tr \<in> set stopped.
         trade_action tr = SELL \<and>
         (trade_reason tr = STOP_LOSS \<or> trade_reason tr = TAKE_PROFIT) \<and>
         trade_ticker tr \<in> held (portfolio holding) \<and>
         trade_ticker tr \<notin> held (portfolio ?e3))"
    by (rule conjunct2 [THEN conjunct2, THEN conjunct1])
  have prep: "prepare_data ?w ?e0 = Inr ?e1"
    by (rule example_prepare)
  have rds: "get_rebalance_dates ''weekly'' [monday, tuesday] = Inr [monday]"
    by (simp add: get_rebalance_dates_def example_days)
  have hyp_run: "prepare_data ?w ?e0 = Inr ?e1 \<and> price_data ?e1 = Some ?index \<and>
      [monday, tuesday] = map fst (rows ?index) \<and>
      get_rebalance_dates (rebalance_frequency ?e1) [monday, tuesday] = Inr [monday]"
    using prep rds by (simp add: BacktestEngine_def)
  note whole = c2 [THEN conjunct2, THEN mp, OF hyp_run, THEN conjunct2]
  have run_ok: "\<not> isl (run ?w ?e0)"
    by (rule example_run_verdicts(2))
  then obtain e where e: "run ?w ?e0 = Inr e"
    by (cases "run ?w ?e0") simp_all
  have run_calls: "ledger_calls (outcome (run ?w ?e0)) =
     [Call_update_prices, Call_apply_selic_to_cash monday (35 / 100000),
      Call_check_stops monday,
      Call_update_prices, Call_apply_selic_to_cash monday (35 / 100000),
      Call_record_state monday,
      Call_update_prices, Call_apply_selic_to_cash tuesday (35 / 100000),
      Call_check_stops tuesday, Call_record_state tuesday]"
    using example_run_verdicts(1) [OF e] by (simp add: e)
  have l0: "ledger_calls ?e0 = []"
    by (simp add: BacktestEngine_def)
  from whole run_ok have days: "\<exists>days.
      ledger_calls (outcome (run ?w ?e0)) = concat days \<and>
      list_all2 (\<lambda>d calls. day_calls [monday] d True calls) [monday, tuesday] days"
    by (simp only: l0 if_False append_Nil)
  show ?thesis
    by (intro conjI holding_fields(1) row ok calls snap example_stops stopped prep rds
          run_ok run_calls days)
qed

end
